theory Spec2Isabelle
  imports Complex_Main
begin

section \<open>Untyped wire values\<close>

text \<open>
  Values that the TypeScript source types as \<open>unknown\<close> (selector option entries,
  tool-call content, event payloads) are JSON values. An object is an association list
  read with \<open>map_of\<close>; a field that is not there reads as \<open>None\<close> (JavaScript's
  \<open>undefined\<close>), while \<open>JNull\<close> is JavaScript's \<open>null\<close>.
\<close>

datatype json =
    JNull
  | JBool bool
  | JNum int
  | JStr string
  | JArr "json list"
  | JObj "(string \<times> json) list"

fun field :: "json \<Rightarrow> string \<Rightarrow> json option" where
  "field (JObj kvs) k = map_of kvs k"
| "field _ k = None"

fun isString :: "json option \<Rightarrow> bool" where
  "isString (Some (JStr s)) = True"
| "isString _ = False"

fun strOf :: "json option \<Rightarrow> string" where
  "strOf (Some (JStr s)) = s"
| "strOf _ = []"

fun isArray :: "json option \<Rightarrow> bool" where
  "isArray (Some (JArr xs)) = True"
| "isArray _ = False"

fun elems :: "json option \<Rightarrow> json list" where
  "elems (Some (JArr xs)) = xs"
| "elems _ = []"

text \<open>The string that a property holds, if it holds one.\<close>

fun strField :: "json option \<Rightarrow> string \<Rightarrow> string option" where
  "strField (Some j) k = (case field j k of Some (JStr s) \<Rightarrow> Some s | _ \<Rightarrow> None)"
| "strField None k = None"

section \<open>Session-config projection (\<open>sessionConfigMetadata.ts\<close>)\<close>

text \<open>
  \<open>MetadataOption = {code, value, description?}\<close>. The description is copied only when
  the entry's field is not \<open>undefined\<close>, so it is \<open>None\<close> for an absent field and
  \<open>Some JNull\<close> for an explicit \<open>null\<close>.
\<close>

record MetadataOption =
  code :: string
  "value" :: string
  description :: "json option"

text \<open>
  A \<open>SessionConfigOption\<close> of the ACP SDK, with the fields the projection reads.
  \<open>category\<close> may be absent or null (\<open>None\<close>); \<open>options\<close> is inspected dynamically
  by \<open>flattenConfigSelectOptions\<close>, so it stays a JSON value.
\<close>

record SessionConfigOption =
  opt_type :: string
  category :: "string option"
  currentValue :: string
  options :: json

record SessionMode =
  mode_id :: string
  mode_name :: string
  mode_description :: "json option"

record SessionModeState =
  availableModes :: "SessionMode list"
  modes_currentModeId :: string

record ModelInfo =
  modelId :: string
  model_name :: string
  model_description :: "json option"

record SessionModelState =
  availableModels :: "ModelInfo list"
  currentModelId :: string

text \<open>\<open>AcpSessionConfigSnapshot\<close>: every field is optional (absent or null is \<open>None\<close>).\<close>

record AcpSessionConfigSnapshot =
  configOptions :: "SessionConfigOption list option"
  modes :: "SessionModeState option"
  models :: "SessionModelState option"
  currentModeId :: "string option"

text \<open>
  \<open>Metadata\<close> is a JavaScript object with many fields besides the six the projection
  writes. It is a finite map from field names to values; \<open>delete metadata.k\<close> removes
  the key, which is different from storing an empty list.
\<close>

datatype metadata_value =
    OptionList "MetadataOption list"
  | CodeValue string
  | OtherValue json

type_synonym Metadata = "string \<rightharpoonup> metadata_value"

datatype SupportedCategory = Mode | Model | ThoughtLevel

fun categoryName :: "SupportedCategory \<Rightarrow> string" where
  "categoryName Mode = ''mode''"
| "categoryName Model = ''model''"
| "categoryName ThoughtLevel = ''thought_level''"

definition SUPPORTED_CATEGORIES :: "string list" where
  "SUPPORTED_CATEGORIES = [''mode'', ''model'', ''thought_level'']"

text \<open>\<open>!!value && typeof value === 'object'\<close>: objects and arrays, not null.\<close>

fun isRecord :: "json \<Rightarrow> bool" where
  "isRecord (JObj kvs) = True"
| "isRecord (JArr xs) = True"
| "isRecord _ = False"

definition isOptionValue :: "json \<Rightarrow> bool" where
  "isOptionValue v =
     (if \<not> isRecord v then False
      else isString (field v ''value'') \<and> isString (field v ''name''))"

definition isOptionGroup :: "json \<Rightarrow> bool" where
  "isOptionGroup v =
     (if \<not> isRecord v then False else isArray (field v ''options''))"

text \<open>The object pushed for an entry that passed \<open>isOptionValue\<close>.\<close>

definition metadataOptionOf :: "json \<Rightarrow> MetadataOption" where
  "metadataOptionOf entry =
     \<lparr> code = strOf (field entry ''value''),
       value = strOf (field entry ''name''),
       description = field entry ''description'' \<rparr>"

text \<open>The inner loop over a group's options: entries that are not option values are skipped.\<close>

fun flattenGrouped :: "json list \<Rightarrow> MetadataOption list" where
  "flattenGrouped [] = []"
| "flattenGrouped (grouped # rest) =
     (if \<not> isOptionValue grouped then flattenGrouped rest
      else metadataOptionOf grouped # flattenGrouped rest)"

text \<open>The outer loop: a top-level option value, else a group, else nothing.\<close>

fun flattenEntries :: "json list \<Rightarrow> MetadataOption list" where
  "flattenEntries [] = []"
| "flattenEntries (entry # rest) =
     (if isOptionValue entry then metadataOptionOf entry # flattenEntries rest
      else if isOptionGroup entry
        then flattenGrouped (elems (field entry ''options'')) @ flattenEntries rest
      else flattenEntries rest)"

definition flattenConfigSelectOptions :: "json \<Rightarrow> MetadataOption list" where
  "flattenConfigSelectOptions opts =
     (case opts of JArr entries \<Rightarrow> flattenEntries entries | _ \<Rightarrow> [])"

fun findConfigOptionByCategory ::
  "SessionConfigOption list \<Rightarrow> SupportedCategory \<Rightarrow> SessionConfigOption option" where
  "findConfigOptionByCategory [] cat = None"
| "findConfigOptionByCategory (option # rest) cat =
     (if opt_type option \<noteq> ''select'' then findConfigOptionByCategory rest cat
      else if category option \<noteq> Some (categoryName cat) then findConfigOptionByCategory rest cat
      else Some option)"

text \<open>
  \<open>applyConfigCategory\<close> mutates the metadata object it is given; the model passes the
  object through. Without an option the category's two keys are deleted.
\<close>

fun applyConfigCategory ::
  "Metadata \<Rightarrow> SessionConfigOption option \<Rightarrow> SupportedCategory \<Rightarrow> Metadata" where
  "applyConfigCategory metadata None Model =
     (metadata(''models'' := None))(''currentModelCode'' := None)"
| "applyConfigCategory metadata None Mode =
     (metadata(''operatingModes'' := None))(''currentOperatingModeCode'' := None)"
| "applyConfigCategory metadata None ThoughtLevel =
     (metadata(''thoughtLevels'' := None))(''currentThoughtLevelCode'' := None)"
| "applyConfigCategory metadata (Some option) Model =
     (metadata(''models'' \<mapsto> OptionList (flattenConfigSelectOptions (options option))))
       (''currentModelCode'' \<mapsto> CodeValue (currentValue option))"
| "applyConfigCategory metadata (Some option) Mode =
     (metadata(''operatingModes'' \<mapsto> OptionList (flattenConfigSelectOptions (options option))))
       (''currentOperatingModeCode'' \<mapsto> CodeValue (currentValue option))"
| "applyConfigCategory metadata (Some option) ThoughtLevel =
     (metadata(''thoughtLevels'' \<mapsto> OptionList (flattenConfigSelectOptions (options option))))
       (''currentThoughtLevelCode'' \<mapsto> CodeValue (currentValue option))"

definition supportedSelect :: "SessionConfigOption \<Rightarrow> bool" where
  "supportedSelect option =
     (opt_type option = ''select'' \<and>
      (case category option of None \<Rightarrow> False | Some c \<Rightarrow> c \<in> set SUPPORTED_CATEGORIES))"

definition modelOptionOf :: "ModelInfo \<Rightarrow> MetadataOption" where
  "modelOptionOf model =
     \<lparr> code = modelId model, value = model_name model, description = model_description model \<rparr>"

definition modeOptionOf :: "SessionMode \<Rightarrow> MetadataOption" where
  "modeOptionOf mode =
     \<lparr> code = mode_id mode, value = mode_name mode, description = mode_description mode \<rparr>"

text \<open>
  The first block of \<open>mergeAcpSessionConfigIntoMetadata\<close>: when \<open>configOptions\<close> is an
  array, each of the three categories is written or deleted, and the two flags record
  whether a mode and a model selector were found.
\<close>

definition applyConfigOptions ::
  "Metadata \<Rightarrow> AcpSessionConfigSnapshot \<Rightarrow> Metadata \<times> bool \<times> bool" where
  "applyConfigOptions next snapshot =
     (case configOptions snapshot of
        None \<Rightarrow> (next, False, False)
      | Some opts \<Rightarrow>
          (let filtered = filter supportedSelect opts;
               modeOption = findConfigOptionByCategory filtered Mode;
               modelOption = findConfigOptionByCategory filtered Model;
               thoughtLevelOption = findConfigOptionByCategory filtered ThoughtLevel;
               next1 = applyConfigCategory next modeOption Mode;
               next2 = applyConfigCategory next1 modelOption Model;
               next3 = applyConfigCategory next2 thoughtLevelOption ThoughtLevel
           in (next3, modeOption \<noteq> None, modelOption \<noteq> None)))"

definition applyLegacyModels :: "Metadata \<Rightarrow> bool \<Rightarrow> AcpSessionConfigSnapshot \<Rightarrow> Metadata" where
  "applyLegacyModels next hasModelFromConfig snapshot =
     (case models snapshot of
        Some ms \<Rightarrow>
          (if \<not> hasModelFromConfig
           then (next(''models'' \<mapsto> OptionList (map modelOptionOf (availableModels ms))))
                  (''currentModelCode'' \<mapsto> CodeValue (currentModelId ms))
           else next)
      | None \<Rightarrow> next)"

definition applyLegacyModes :: "Metadata \<Rightarrow> bool \<Rightarrow> AcpSessionConfigSnapshot \<Rightarrow> Metadata" where
  "applyLegacyModes next hasModeFromConfig snapshot =
     (case modes snapshot of
        Some ms \<Rightarrow>
          (if \<not> hasModeFromConfig
           then (next(''operatingModes'' \<mapsto> OptionList (map modeOptionOf (availableModes ms))))
                  (''currentOperatingModeCode'' \<mapsto> CodeValue (modes_currentModeId ms))
           else next)
      | None \<Rightarrow> next)"

text \<open>\<open>if (snapshot.currentModeId)\<close>: a non-empty string.\<close>

definition applyCurrentModeId :: "Metadata \<Rightarrow> AcpSessionConfigSnapshot \<Rightarrow> Metadata" where
  "applyCurrentModeId next snapshot =
     (case currentModeId snapshot of
        Some m \<Rightarrow> (if m \<noteq> [] then next(''currentOperatingModeCode'' \<mapsto> CodeValue m) else next)
      | None \<Rightarrow> next)"

text \<open>
  \<open>mergeAcpSessionConfigIntoMetadata\<close>: \<open>next\<close> starts as a copy of \<open>metadata\<close> and
  is the only object written.
\<close>

definition mergeAcpSessionConfigIntoMetadata ::
  "Metadata \<Rightarrow> AcpSessionConfigSnapshot \<Rightarrow> Metadata" where
  "mergeAcpSessionConfigIntoMetadata metadata snapshot =
     (let next = metadata;
          (next1, hasModeFromConfig, hasModelFromConfig) = applyConfigOptions next snapshot;
          next2 = applyLegacyModels next1 hasModelFromConfig snapshot;
          next3 = applyLegacyModes next2 hasModeFromConfig snapshot
      in applyCurrentModeId next3 snapshot)"


text \<open>
  At run time \<open>metadata\<close> and \<open>next\<close> are references to objects. The store holds one
  object per address; \<open>{ ...metadata }\<close> allocates a new object with the same fields, and
  every later assignment or \<open>delete\<close> of the function goes through \<open>next\<close>.
\<close>

type_synonym ref = nat
type_synonym store = "Metadata list"

definition spreadCopy :: "store \<Rightarrow> ref \<Rightarrow> store \<times> ref" where
  "spreadCopy h r = (h @ [h ! r], length h)"

definition writeObject :: "store \<Rightarrow> ref \<Rightarrow> (Metadata \<Rightarrow> Metadata) \<Rightarrow> store" where
  "writeObject h r f = h[r := f (h ! r)]"

definition mergeAcpSessionConfigIntoMetadata_store ::
  "store \<Rightarrow> ref \<Rightarrow> AcpSessionConfigSnapshot \<Rightarrow> store \<times> ref" where
  "mergeAcpSessionConfigIntoMetadata_store h metadata snapshot =
     (let (h0, next) = spreadCopy h metadata;
          hasModeFromConfig = fst (snd (applyConfigOptions (h0 ! next) snapshot));
          hasModelFromConfig = snd (snd (applyConfigOptions (h0 ! next) snapshot));
          h1 = writeObject h0 next (\<lambda>obj. fst (applyConfigOptions obj snapshot));
          h2 = writeObject h1 next (\<lambda>obj. applyLegacyModels obj hasModelFromConfig snapshot);
          h3 = writeObject h2 next (\<lambda>obj. applyLegacyModes obj hasModeFromConfig snapshot);
          h4 = writeObject h3 next (\<lambda>obj. applyCurrentModeId obj snapshot)
      in (h4, next))"

subsection \<open>Notions used to state the properties of the projection\<close>

text \<open>A select entry of the given category, as \<open>findConfigOptionByCategory\<close> tests it.\<close>

definition isSelectOf :: "SupportedCategory \<Rightarrow> SessionConfigOption \<Rightarrow> bool" where
  "isSelectOf cat option \<longleftrightarrow>
     opt_type option = ''select'' \<and> category option = Some (categoryName cat)"

text \<open>The wire form \<open>{value, name, description?}\<close> of one entry of a selector's options.\<close>

definition selectOptionJson :: "string \<Rightarrow> string \<Rightarrow> json option \<Rightarrow> json" where
  "selectOptionJson v n d =
     JObj ([(''value'', JStr v), (''name'', JStr n)] @
           (case d of None \<Rightarrow> [] | Some j \<Rightarrow> [(''description'', j)]))"

text \<open>
  The last step of the merge read at \<open>currentOperatingModeCode\<close>: a non-empty bare
  \<open>currentModeId\<close> of the snapshot replaces whatever the earlier steps left there.
\<close>

definition bareModeOr ::
  "AcpSessionConfigSnapshot \<Rightarrow> metadata_value option \<Rightarrow> metadata_value option" where
  "bareModeOr s v =
     (case currentModeId s of
        Some c \<Rightarrow> (if c \<noteq> [] then Some (CodeValue c) else v)
      | None \<Rightarrow> v)"

text \<open>The six keys the projection owns.\<close>

definition configKeys :: "string list" where
  "configKeys = [''models'', ''currentModelCode'', ''operatingModes'',
                 ''currentOperatingModeCode'', ''thoughtLevels'', ''currentThoughtLevelCode'']"

text \<open>
  A step that, key by key, either copies the key from its input or stores a value that
  does not depend on the input.
\<close>

definition keywise :: "(Metadata \<Rightarrow> Metadata) \<Rightarrow> bool" where
  "keywise f \<longleftrightarrow> (\<forall>k. (\<forall>m. f m k = m k) \<or> (\<forall>m m'. f m k = f m' k))"

text \<open>The flags of the first block depend on the snapshot only.\<close>

definition configFlags :: "AcpSessionConfigSnapshot \<Rightarrow> bool \<times> bool" where
  "configFlags s = snd (applyConfigOptions Map.empty s)"

subsection \<open>Example inputs (from \<open>sessionConfigMetadata.test.ts\<close>)\<close>

definition ex_modeSelector :: SessionConfigOption where
  "ex_modeSelector =
     \<lparr> opt_type = ''select'', category = Some ''mode'', currentValue = ''code'',
       options = JArr [selectOptionJson ''code'' ''Code'' None] \<rparr>"

definition ex_modelSelector :: SessionConfigOption where
  "ex_modelSelector =
     \<lparr> opt_type = ''select'', category = Some ''model'', currentValue = ''new-model'',
       options = JArr [selectOptionJson ''new-model'' ''New Model'' None] \<rparr>"

definition ex_legacyModes :: SessionModeState where
  "ex_legacyModes =
     \<lparr> availableModes = [\<lparr> mode_id = ''ask'', mode_name = ''Ask'', mode_description = None \<rparr>],
       modes_currentModeId = ''ask'' \<rparr>"

definition ex_legacyModels :: SessionModelState where
  "ex_legacyModels =
     \<lparr> availableModels =
         [\<lparr> modelId = ''legacy-model'', model_name = ''Legacy Model'', model_description = None \<rparr>],
       currentModelId = ''legacy-model'' \<rparr>"

text \<open>Selectors and legacy state together, no bare \<open>currentModeId\<close>.\<close>

definition ex_snapshot_both :: AcpSessionConfigSnapshot where
  "ex_snapshot_both =
     \<lparr> configOptions = Some [ex_modeSelector, ex_modelSelector],
       modes = Some ex_legacyModes, models = Some ex_legacyModels, currentModeId = None \<rparr>"

text \<open>The same snapshot carrying a bare \<open>currentModeId\<close> as well.\<close>

definition ex_snapshot_bareMode :: AcpSessionConfigSnapshot where
  "ex_snapshot_bareMode =
     \<lparr> configOptions = Some [ex_modeSelector, ex_modelSelector],
       modes = Some ex_legacyModes, models = Some ex_legacyModels, currentModeId = Some ''plan'' \<rparr>"

text \<open>The snapshot the runner builds for a \<open>current_mode_update\<close> event.\<close>

definition ex_snapshot_modeOnly :: AcpSessionConfigSnapshot where
  "ex_snapshot_modeOnly =
     \<lparr> configOptions = None, modes = None, models = None, currentModeId = Some ''plan'' \<rparr>"

text \<open>A snapshot with an empty \<open>configOptions\<close> array and nothing else.\<close>

definition ex_snapshot_emptyConfig :: AcpSessionConfigSnapshot where
  "ex_snapshot_emptyConfig =
     \<lparr> configOptions = Some [], modes = None, models = None, currentModeId = None \<rparr>"

definition ex_metadata :: Metadata where
  "ex_metadata =
     [''path'' \<mapsto> OtherValue (JStr ''/tmp/project''),
      ''models'' \<mapsto> OptionList [\<lparr> code = ''m1'', value = ''Model 1'', description = None \<rparr>],
      ''currentModelCode'' \<mapsto> CodeValue ''m1'',
      ''thoughtLevels'' \<mapsto> OptionList [\<lparr> code = ''low'', value = ''Low'', description = None \<rparr>],
      ''currentThoughtLevelCode'' \<mapsto> CodeValue ''low'']"


section \<open>String helpers\<close>

text \<open>\<open>String.prototype.toLowerCase\<close> on the ASCII letters.\<close>

definition lowerChar :: "char \<Rightarrow> char" where
  "lowerChar c =
     (case map_of (zip ''ABCDEFGHIJKLMNOPQRSTUVWXYZ'' ''abcdefghijklmnopqrstuvwxyz'') c of
        Some l \<Rightarrow> l
      | None \<Rightarrow> c)"

definition toLowerCase :: "string \<Rightarrow> string" where
  "toLowerCase s = map lowerChar s"

text \<open>\<open>s.includes(needle)\<close>: \<open>needle\<close> occurs in \<open>s\<close> as a contiguous substring.\<close>

fun includesStr :: "string \<Rightarrow> string \<Rightarrow> bool" where
  "includesStr [] needle = (needle = [])"
| "includesStr (c # cs) needle =
     (take (length needle) (c # cs) = needle \<or> includesStr cs needle)"

text \<open>Decimal rendering of a number inside a template string.\<close>

definition digitChar :: "nat \<Rightarrow> char" where
  "digitChar n = ''0123456789'' ! n"

function showNat :: "nat \<Rightarrow> string" where
  "showNat n = (if n < 10 then [digitChar n] else showNat (n div 10) @ [digitChar (n mod 10)])"
  by pat_completeness auto
termination
  by (relation "measure id") auto

declare showNat.simps [simp del]

definition showInt :: "int \<Rightarrow> string" where
  "showInt i = (if i < 0 then CHR ''-'' # showNat (nat (- i)) else showNat (nat i))"

text \<open>JavaScript truthiness of an optional string: absent, null and \<open>''\<close> are falsy.\<close>

fun truthyStr :: "string option \<Rightarrow> bool" where
  "truthyStr None = False"
| "truthyStr (Some s) = (s \<noteq> [])"

text \<open>JavaScript truthiness of a JSON value.\<close>

fun truthy :: "json option \<Rightarrow> bool" where
  "truthy None = False"
| "truthy (Some JNull) = False"
| "truthy (Some (JBool b)) = b"
| "truthy (Some (JNum n)) = (n \<noteq> 0)"
| "truthy (Some (JStr s)) = (s \<noteq> [])"
| "truthy (Some (JArr xs)) = True"
| "truthy (Some (JObj kvs)) = True"

section \<open>Agent messages (\<open>AgentMessage\<close> of \<open>agent/core\<close>)\<close>

datatype AgentStatus = Running | Idle | Starting | StatusError | Stopped

text \<open>
  Constructor arguments follow the order in which the backend writes the fields:
  \<open>tool-call{toolName, args, callId}\<close>, \<open>tool-result{toolName, result, callId}\<close>,
  \<open>permission-request{id, reason, payload}\<close>. \<open>status\<close> carries its optional detail.

  Tool names and ids are of the type \<open>'v\<close>. The session update handlers and the session
  manager have them as strings (\<open>AgentMessage\<close>). The \<open>requestPermission\<close> handler of
  the backend copies them from the request without looking at them, so what it emits
  holds JSON values there (\<open>WireAgentMessage\<close>).
\<close>

datatype 'v agent_message =
    Status AgentStatus "string option"
  | ModelOutput "string option"
  | ToolCall 'v json 'v
  | ToolResult 'v "json option" 'v
  | Event string json
  | PermissionRequest 'v 'v json
  | PermissionResponse 'v bool
  | TokenCount nat
  | FsEdit string
  | TerminalOutput string

type_synonym AgentMessage = "string agent_message"

type_synonym WireAgentMessage = "json agent_message"

section \<open>Session update handlers (\<open>sessionUpdateHandlers.ts\<close>)\<close>

definition DEFAULT_IDLE_TIMEOUT_MS :: nat where
  "DEFAULT_IDLE_TIMEOUT_MS = 500"

definition DEFAULT_TOOL_CALL_TIMEOUT_MS :: nat where
  "DEFAULT_TOOL_CALL_TIMEOUT_MS = 120000"

record MessageChunk =
  textDelta :: "string option"

record SessionUpdate =
  sessionUpdate :: "string option"
  toolCallId :: "string option"
  status :: "string option"
  kind :: "json option"
  content :: "json option"
  locations :: "json option"
  messageChunk :: "MessageChunk option"
  plan :: "json option"
  thinking :: "json option"

text \<open>
  The optional hooks of the transport handler that the handlers call; \<open>None\<close> is a hook
  the transport does not provide (\<open>hook?.(...)\<close> is then \<open>undefined\<close>).
\<close>

record TransportHandler =
  getIdleTimeout :: "nat option"
  getToolCallTimeout :: "(string \<Rightarrow> string option \<Rightarrow> nat) option"
  isInvestigationTool :: "(string \<Rightarrow> string option \<Rightarrow> bool) option"
  extractToolNameFromId :: "(string \<Rightarrow> string option) option"

text \<open>
  Timers of the runtime. A pending timer is its handle, the time it is due and what it
  runs. The callbacks are closures in the source; here each closure is named by a
  constructor and run by \<open>fireTimer\<close> below.
\<close>

datatype idle_callback = EmitIdleIfNoActiveToolCalls

datatype timer_action = IdleTimer idle_callback | ToolCallTimer string

type_synonym timer = "nat \<times> nat \<times> timer_action"

text \<open>
  \<open>HandlerContext\<close>, with the backend state its closures reach (\<open>createHandlerContext\<close>
  in \<open>AcpBackend.ts\<close>): \<open>idleTimeout\<close> is the backend's pending idle-timer handle,
  \<open>emitted\<close> the messages passed to \<open>ctx.emit\<close> so far, \<open>timers\<close> and \<open>nextTimer\<close>
  the runtime's pending timers, \<open>now\<close> the reading of \<open>Date.now()\<close>.
\<close>

record HandlerContext =
  transport :: TransportHandler
  activeToolCalls :: "string set"
  toolCallStartTimes :: "string \<rightharpoonup> nat"
  toolCallTimeouts :: "string \<rightharpoonup> nat"
  toolCallIdToNameMap :: "string \<rightharpoonup> string"
  idleTimeout :: "nat option"
  toolCallCountSincePrompt :: nat
  emitted :: "AgentMessage list"
  timers :: "timer list"
  nextTimer :: nat
  now :: nat

record HandlerResult =
  handled :: bool
  resultToolCallCount :: "nat option"

definition emit :: "HandlerContext \<Rightarrow> AgentMessage \<Rightarrow> HandlerContext" where
  "emit ctx msg = ctx\<lparr> emitted := emitted ctx @ [msg] \<rparr>"

text \<open>\<open>emitIdleStatus\<close> of the backend (the idle waiter it also resolves is not modelled).\<close>

definition emitIdleStatus :: "HandlerContext \<Rightarrow> HandlerContext" where
  "emitIdleStatus ctx = emit ctx (Status Idle None)"

definition setTimeout :: "HandlerContext \<Rightarrow> timer_action \<Rightarrow> nat \<Rightarrow> nat \<times> HandlerContext" where
  "setTimeout ctx action ms =
     (nextTimer ctx,
      ctx\<lparr> timers := timers ctx @ [(nextTimer ctx, now ctx + ms, action)],
           nextTimer := Suc (nextTimer ctx) \<rparr>)"

definition clearTimeout :: "HandlerContext \<Rightarrow> nat \<Rightarrow> HandlerContext" where
  "clearTimeout ctx h = ctx\<lparr> timers := filter (\<lambda>t. fst t \<noteq> h) (timers ctx) \<rparr>"

definition clearIdleTimeout :: "HandlerContext \<Rightarrow> HandlerContext" where
  "clearIdleTimeout ctx =
     (case idleTimeout ctx of
        Some h \<Rightarrow> (clearTimeout ctx h)\<lparr> idleTimeout := None \<rparr>
      | None \<Rightarrow> ctx)"

definition setIdleTimeout :: "HandlerContext \<Rightarrow> idle_callback \<Rightarrow> nat \<Rightarrow> HandlerContext" where
  "setIdleTimeout ctx callback ms =
     (let (h, ctx') = setTimeout ctx (IdleTimer callback) ms
      in ctx'\<lparr> idleTimeout := Some h \<rparr>)"

text \<open>The closure \<open>handleAgentMessageChunk\<close> passes to \<open>setIdleTimeout\<close>.\<close>

fun runIdleCallback :: "HandlerContext \<Rightarrow> idle_callback \<Rightarrow> HandlerContext" where
  "runIdleCallback ctx EmitIdleIfNoActiveToolCalls =
     (if activeToolCalls ctx = {} then emitIdleStatus ctx else ctx)"

text \<open>
  What the runtime does when the pending timer with handle \<open>h\<close> expires: the timer
  leaves the queue and its callback runs. An idle timer runs the wrapper of
  \<open>setIdleTimeout\<close> (\<open>callback(); this.idleTimeout = null\<close>); a tool-call timer runs the
  closure of \<open>startToolCall\<close>.
\<close>

definition fireTimer :: "HandlerContext \<Rightarrow> nat \<Rightarrow> HandlerContext" where
  "fireTimer ctx h =
     (case find (\<lambda>t. fst t = h) (timers ctx) of
        None \<Rightarrow> ctx
      | Some (_, _, action) \<Rightarrow>
          (let ctx1 = ctx\<lparr> timers := filter (\<lambda>t. fst t \<noteq> h) (timers ctx) \<rparr>
           in case action of
                IdleTimer callback \<Rightarrow> (runIdleCallback ctx1 callback)\<lparr> idleTimeout := None \<rparr>
              | ToolCallTimer tid \<Rightarrow>
                  (let ctx2 = ctx1\<lparr> activeToolCalls := activeToolCalls ctx1 - {tid},
                                    toolCallStartTimes := (toolCallStartTimes ctx1)(tid := None),
                                    toolCallTimeouts := (toolCallTimeouts ctx1)(tid := None) \<rparr>
                   in if activeToolCalls ctx2 = {} then emitIdleStatus ctx2 else ctx2)))"

text \<open>
  The test \<open>/^\*\*[^*]+\*\*\n/\<close>: the text starts with two stars, then a non-empty run
  of characters other than a star, then two stars and a newline. The run is the longest
  one, since the character after it has to be a star.
\<close>

fun starsThenNewline :: "string \<Rightarrow> bool" where
  "starsThenNewline (a # b # c # rest) = (a = CHR ''*'' \<and> b = CHR ''*'' \<and> c = CHR 0x0A)"
| "starsThenNewline _ = False"

definition isThinking :: "string \<Rightarrow> bool" where
  "isThinking text =
     (case text of
        a # b # rest \<Rightarrow>
          a = CHR ''*'' \<and> b = CHR ''*'' \<and>
          takeWhile (\<lambda>c. c \<noteq> CHR ''*'') rest \<noteq> [] \<and>
          starsThenNewline (dropWhile (\<lambda>c. c \<noteq> CHR ''*'') rest)
      | _ \<Rightarrow> False)"

text \<open>\<open>content && typeof content === 'object' && 'text' in content\<close>.\<close>

fun hasTextField :: "json option \<Rightarrow> bool" where
  "hasTextField (Some (JObj kvs)) = (map_of kvs ''text'' \<noteq> None)"
| "hasTextField _ = False"

definition thinkingPayload :: "string \<Rightarrow> json" where
  "thinkingPayload text = JObj [(''text'', JStr text), (''streaming'', JBool True)]"

definition handleAgentMessageChunk ::
  "SessionUpdate \<Rightarrow> HandlerContext \<Rightarrow> HandlerResult \<times> HandlerContext" where
  "handleAgentMessageChunk update ctx =
     (if \<not> hasTextField (content update)
      then (\<lparr> handled = False, resultToolCallCount = None \<rparr>, ctx)
      else case field (the (content update)) ''text'' of
        Some (JStr text) \<Rightarrow>
          (if isThinking text
           then (\<lparr> handled = True, resultToolCallCount = None \<rparr>,
                 emit ctx (Event ''thinking'' (thinkingPayload text)))
           else
             (let ctx1 = emit ctx (ModelOutput (Some text));
                  ctx2 = clearIdleTimeout ctx1;
                  idleTimeoutMs = (case getIdleTimeout (transport ctx2) of
                                     Some ms \<Rightarrow> ms
                                   | None \<Rightarrow> DEFAULT_IDLE_TIMEOUT_MS)
              in (\<lparr> handled = True, resultToolCallCount = None \<rparr>,
                  setIdleTimeout ctx2 EmitIdleIfNoActiveToolCalls idleTimeoutMs)))
      | _ \<Rightarrow> (\<lparr> handled = False, resultToolCallCount = None \<rparr>, ctx))"

text \<open>\<open>parseArgsFromContent\<close>: an array is wrapped, an object is taken as it is.\<close>

fun parseArgsFromContent :: "json option \<Rightarrow> json" where
  "parseArgsFromContent (Some (JArr xs)) = JObj [(''items'', JArr xs)]"
| "parseArgsFromContent (Some (JObj kvs)) = JObj kvs"
| "parseArgsFromContent _ = JObj []"

text \<open>\<open>obj.k = v\<close> on a JSON object.\<close>

definition setKey :: "(string \<times> json) list \<Rightarrow> string \<Rightarrow> json \<Rightarrow> (string \<times> json) list" where
  "setKey kvs k v =
     (if map_of kvs k = None then kvs @ [(k, v)]
      else map (\<lambda>(k', v'). if k' = k then (k', v) else (k', v')) kvs)"

fun setField :: "json \<Rightarrow> string \<Rightarrow> json \<Rightarrow> json" where
  "setField (JObj kvs) k v = JObj (setKey kvs k v)"
| "setField j k v = j"

text \<open>\<open>typeof toolKind === 'string' ? toolKind : undefined\<close>.\<close>

fun kindString :: "json option \<Rightarrow> string option" where
  "kindString (Some (JStr s)) = Some s"
| "kindString _ = None"

text \<open>\<open>toolKindStr || 'unknown'\<close>.\<close>

definition kindOrUnknown :: "string option \<Rightarrow> string" where
  "kindOrUnknown k = (if truthyStr k then the k else ''unknown'')"

definition startToolCall ::
  "string \<Rightarrow> json option \<Rightarrow> SessionUpdate \<Rightarrow> HandlerContext \<Rightarrow> HandlerContext" where
  "startToolCall tid toolKind update ctx =
     (let startTime = now ctx;
          toolKindStr = kindString toolKind;
          extractedName = (case extractToolNameFromId (transport ctx) of
                             Some f \<Rightarrow> f tid
                           | None \<Rightarrow> None);
          realToolName = (case extractedName of
                            Some n \<Rightarrow> n
                          | None \<Rightarrow> kindOrUnknown toolKindStr);
          ctx1 = ctx\<lparr> toolCallIdToNameMap := (toolCallIdToNameMap ctx)(tid \<mapsto> realToolName),
                     activeToolCalls := insert tid (activeToolCalls ctx),
                     toolCallStartTimes := (toolCallStartTimes ctx)(tid \<mapsto> startTime) \<rparr>;
          timeoutMs = (case getToolCallTimeout (transport ctx1) of
                         Some f \<Rightarrow> f tid toolKindStr
                       | None \<Rightarrow> DEFAULT_TOOL_CALL_TIMEOUT_MS);
          ctx2 = (if toolCallTimeouts ctx1 tid = None
                  then (let (h, c) = setTimeout ctx1 (ToolCallTimer tid) timeoutMs
                        in c\<lparr> toolCallTimeouts := (toolCallTimeouts c)(tid \<mapsto> h) \<rparr>)
                  else ctx1);
          ctx3 = clearIdleTimeout ctx2;
          ctx4 = emit ctx3 (Status Running None);
          args = parseArgsFromContent (content update);
          args' = (if isArray (locations update)
                   then setField args ''locations'' (the (locations update))
                   else args)
      in emit ctx4 (ToolCall (kindOrUnknown toolKindStr) args' tid))"

text \<open>
  \<open>handleToolCall\<close>. \<open>!status\<close> holds for a missing status and for the empty string;
  \<open>!toolCallId\<close> likewise.
\<close>

definition handleToolCall ::
  "SessionUpdate \<Rightarrow> HandlerContext \<Rightarrow> HandlerResult \<times> HandlerContext" where
  "handleToolCall update ctx =
     (let isInProgress = (\<not> truthyStr (status update) \<or> status update = Some ''in_progress''
                            \<or> status update = Some ''pending'')
      in if \<not> truthyStr (toolCallId update) \<or> \<not> isInProgress
         then (\<lparr> handled = False, resultToolCallCount = None \<rparr>, ctx)
         else if the (toolCallId update) \<in> activeToolCalls ctx
         then (\<lparr> handled = True, resultToolCallCount = None \<rparr>, ctx)
         else (\<lparr> handled = True, resultToolCallCount = None \<rparr>,
               startToolCall (the (toolCallId update)) (kind update) update ctx))"

subsection \<open>Example inputs for the handlers\<close>

definition ex_transport :: TransportHandler where
  "ex_transport =
     \<lparr> getIdleTimeout = None, getToolCallTimeout = None,
       isInvestigationTool = None, extractToolNameFromId = None \<rparr>"

text \<open>A backend with nothing tracked and no timer pending.\<close>

definition ex_ctx :: HandlerContext where
  "ex_ctx =
     \<lparr> transport = ex_transport, activeToolCalls = {}, toolCallStartTimes = Map.empty,
       toolCallTimeouts = Map.empty, toolCallIdToNameMap = Map.empty, idleTimeout = None,
       toolCallCountSincePrompt = 0, emitted = [], timers = [], nextTimer = 0, now = 1000 \<rparr>"

definition ex_update :: SessionUpdate where
  "ex_update =
     \<lparr> sessionUpdate = None, toolCallId = None, status = None, kind = None, content = None,
       locations = None, messageChunk = None, plan = None, thinking = None \<rparr>"

definition ex_chunk :: "string \<Rightarrow> SessionUpdate" where
  "ex_chunk text =
     ex_update\<lparr> sessionUpdate := Some ''agent_message_chunk'',
                content := Some (JObj [(''type'', JStr ''text''), (''text'', JStr text)]) \<rparr>"

definition ex_thinkingText :: string where
  "ex_thinkingText = ''**Planning**'' @ [CHR 0x0A] @ ''Reading the file''"

text \<open>A \<open>tool_call\<close> update whose status is the empty string.\<close>

definition ex_toolCall_emptyStatus :: SessionUpdate where
  "ex_toolCall_emptyStatus =
     ex_update\<lparr> sessionUpdate := Some ''tool_call'', toolCallId := Some ''t1'',
                status := Some [], kind := Some (JStr ''read'') \<rparr>"

definition ex_toolCall_completed :: SessionUpdate where
  "ex_toolCall_completed =
     ex_update\<lparr> sessionUpdate := Some ''tool_call'', toolCallId := Some ''t1'',
                status := Some ''completed'', kind := Some (JStr ''read'') \<rparr>"

section \<open>Backend (\<open>AcpBackend.ts\<close>)\<close>

subsection \<open>Errors\<close>

text \<open>
  The \<open>Error\<close> objects of the startup path, by where they are created: the \<open>err\<close> of the
  child process's \<open>error\<close> event (with its \<open>code\<close>), the \<open>new Error(`Exit code: ...`)\<close>
  of the \<open>exit\<close> handler, a rejection of the connection (after \<open>withRetry\<close> has wrapped
  a value that is not an \<open>Error\<close>), the error of the timeout timer, and an error thrown
  by \<open>startSession\<close> itself. Two errors of different origin are different objects, so
  \<open>error === startupFailure\<close> is equality of these values.
\<close>

datatype Error =
    SpawnError "string option" string
  | ExitError int
  | RpcError "string option" string
  | TimeoutError string
  | PlainError string

fun errorCode :: "Error \<Rightarrow> string option" where
  "errorCode (SpawnError c m) = c"
| "errorCode (RpcError c m) = c"
| "errorCode _ = None"

fun errorMessage :: "Error \<Rightarrow> string" where
  "errorMessage (SpawnError c m) = m"
| "errorMessage (ExitError c) = ''Exit code: '' @ showInt c"
| "errorMessage (RpcError c m) = m"
| "errorMessage (TimeoutError m) = m"
| "errorMessage (PlainError m) = m"

text \<open>
  A thrown value: \<open>withRetry\<close> throws \<open>lastError\<close>, which is \<open>null\<close> (\<open>None\<close>) when the
  loop never ran. The catch block reports \<open>error.message\<close>, or \<open>String(error)\<close>.
\<close>

definition thrownDetail :: "Error option \<Rightarrow> string" where
  "thrownDetail error = (case error of Some e \<Rightarrow> errorMessage e | None \<Rightarrow> ''null'')"

subsection \<open>\<open>withRetry\<close>\<close>

record ('e, 's) RetryOptions =
  maxAttempts :: nat
  baseDelayMs :: nat
  maxDelayMs :: nat
  shouldRetry :: "('s \<Rightarrow> 'e \<Rightarrow> bool) option"

text \<open>
  What a call of \<open>withRetry\<close> did: its result (\<open>Inl\<close> the thrown \<open>lastError\<close>), how many
  times it called the operation, the delays it awaited, in order, and the state it left.
\<close>

record ('e, 'a, 's) RetryRun =
  result :: "'e option + 'a"
  attempts :: nat
  delays :: "nat list"
  final :: 's

text \<open>
  The operation is an effect on the state \<open>'s\<close> that either fails (\<open>Inl\<close>) or returns.
  \<open>shouldRetry\<close> is a closure over mutable state, so it reads the state after the failed
  attempt. The loop runs from the given attempt number; \<open>withRetry\<close> starts it at 1.
  The optional \<open>onRetry\<close> hook, which no caller in \<open>AcpBackend.ts\<close> passes, and the
  debug log lines are left out; the sleeps are recorded in \<open>delays\<close>.
\<close>

function withRetryFrom ::
  "('s \<Rightarrow> ('e + 'a) \<times> 's) \<Rightarrow> ('e, 's) RetryOptions \<Rightarrow> nat \<Rightarrow> 'e option \<Rightarrow> nat list \<Rightarrow> 's
     \<Rightarrow> ('e, 'a, 's) RetryRun" where
  "withRetryFrom operation opts attempt lastError ds s =
     (if attempt \<le> maxAttempts opts
      then (case operation s of
              (Inr v, s') \<Rightarrow> \<lparr> result = Inr v, attempts = attempt, delays = ds, final = s' \<rparr>
            | (Inl error, s') \<Rightarrow>
                (if attempt < maxAttempts opts \<and>
                    (case shouldRetry opts of Some f \<Rightarrow> f s' error | None \<Rightarrow> True)
                 then withRetryFrom operation opts (Suc attempt) (Some error)
                        (ds @ [min (baseDelayMs opts * 2 ^ (attempt - 1)) (maxDelayMs opts)]) s'
                 else \<lparr> result = Inl (Some error), attempts = attempt, delays = ds, final = s' \<rparr>))
      else \<lparr> result = Inl lastError, attempts = attempt - 1, delays = ds, final = s \<rparr>)"
  by pat_completeness auto
termination
  by (relation "measure (\<lambda>(operation, opts, attempt, lastError, ds, s). maxAttempts opts - attempt)")
     auto

declare withRetryFrom.simps [simp del]

definition withRetry ::
  "('s \<Rightarrow> ('e + 'a) \<times> 's) \<Rightarrow> ('e, 's) RetryOptions \<Rightarrow> 's \<Rightarrow> ('e, 'a, 's) RetryRun" where
  "withRetry operation opts s = withRetryFrom operation opts 1 None [] s"

text \<open>\<open>RETRY_CONFIG\<close>, completed by the \<open>shouldRetry\<close> of the caller.\<close>

definition RETRY_CONFIG :: "('s \<Rightarrow> 'e \<Rightarrow> bool) option \<Rightarrow> ('e, 's) RetryOptions" where
  "RETRY_CONFIG retry =
     \<lparr> maxAttempts = 3, baseDelayMs = 1000, maxDelayMs = 5000, shouldRetry = retry \<rparr>"

subsection \<open>\<open>startSession\<close>: handshake, startup failure, catch block\<close>

text \<open>
  The backend's own state as far as \<open>startSession\<close> and the permission request use it.
  \<open>delivered\<close> is what \<open>emit\<close> has handed to the listeners; \<open>toolCallCount\<close> is the
  field \<open>toolCallCountSincePrompt\<close>.
\<close>

record Backend =
  disposed :: bool
  delivered :: "WireAgentMessage list"
  acpSessionId :: "string option"
  recentPromptHadChangeTitle :: bool
  toolCallCount :: nat
  hasPermissionHandler :: bool
  determineToolName :: "(json \<Rightarrow> json \<Rightarrow> json \<Rightarrow> bool \<times> nat \<Rightarrow> string option) option"

text \<open>\<open>emit\<close> of the backend: nothing is delivered once the backend is disposed.\<close>

definition backendEmit :: "'a Backend_scheme \<Rightarrow> WireAgentMessage \<Rightarrow> 'a Backend_scheme" where
  "backendEmit b msg = (if disposed b then b else b\<lparr> delivered := delivered b @ [msg] \<rparr>)"

datatype ProcEvent = ProcError Error | ProcExit "int option"

text \<open>
  How one call of \<open>initialize\<close> or \<open>newSession\<close> ends if nothing else ends the attempt
  first: with a response, with a rejection, or not at all (then the timeout fires).
\<close>

datatype 'r Outcome = Resolves 'r | Rejects Error | NoResponse

record NewSessionResponse =
  sessionId :: string
  resp_configOptions :: "json option"
  resp_modes :: "json option"
  resp_models :: "json option"

text \<open>
  \<open>startSession\<close> runs on the backend and on its own local variables
  (\<open>startupFailure\<close>, \<open>startupFailureSettled\<close>, \<open>startupStatusErrorEmitted\<close>). What the
  child process and the agent do is given by the environment: whether the stdio pipes
  exist, and for each attempt of \<open>initialize\<close> and of \<open>newSession\<close>, in order, the
  child-process events that fire before the attempt settles (including those during the
  delay before it) and how the call itself ends. An attempt the script does not list gets
  no event and no response. Spawning, stream framing and the sending of an initial prompt
  are not part of the model.
\<close>

record StartupState = Backend +
  startupFailure :: "Error option"
  startupFailureSettled :: bool
  startupStatusErrorEmitted :: bool
  pipesCreated :: bool
  initializeScript :: "(ProcEvent list \<times> json Outcome) list"
  newSessionScript :: "(ProcEvent list \<times> NewSessionResponse Outcome) list"
  initTimeout :: nat
  agentName :: string
  randomUUID :: string

definition signalStartupFailure :: "StartupState \<Rightarrow> Error \<Rightarrow> StartupState" where
  "signalStartupFailure st error =
     (if startupFailureSettled st then st
      else st\<lparr> startupFailureSettled := True, startupFailure := Some error \<rparr>)"

text \<open>The handlers \<open>process.on('error')\<close> and \<open>process.on('exit')\<close>.\<close>

fun procEvent :: "StartupState \<Rightarrow> ProcEvent \<Rightarrow> StartupState" where
  "procEvent st (ProcError err) =
     (let st1 = signalStartupFailure st err;
          st2 = st1\<lparr> startupStatusErrorEmitted := True \<rparr>
      in backendEmit st2 (Status StatusError (Some (errorMessage err))))"
| "procEvent st (ProcExit exitCode) =
     (case exitCode of
        Some c \<Rightarrow>
          (if \<not> disposed st \<and> c \<noteq> 0
           then backendEmit (signalStartupFailure st (ExitError c))
                  (Status Stopped (Some (''Exit code: '' @ showInt c)))
           else st)
      | None \<Rightarrow> st)"

text \<open>
  The events of one attempt, in order. \<open>Promise.race\<close> settles as soon as
  \<open>startupFailurePromise\<close> is rejected, so the attempt sees no event after the first one
  that signals a startup failure (and none at all if a failure was signalled before).
\<close>

fun processEvents :: "StartupState \<Rightarrow> ProcEvent list \<Rightarrow> StartupState" where
  "processEvents st [] = st"
| "processEvents st (ev # evs) =
     (if startupFailure st \<noteq> None then st else processEvents (procEvent st ev) evs)"

definition timeoutMessage :: "string \<Rightarrow> StartupState \<Rightarrow> string" where
  "timeoutMessage opName st =
     opName @ '' timeout after '' @ showNat (initTimeout st) @ ''ms - '' @ agentName st @
     '' did not respond''"

text \<open>
  \<open>Promise.race([startupFailurePromise, call, timeout])\<close>: the startup failure if one
  has been signalled, else the call's own end, else the timeout's error.
\<close>

definition raceOutcome :: "StartupState \<Rightarrow> string \<Rightarrow> 'r Outcome \<Rightarrow> Error + 'r" where
  "raceOutcome st opName out =
     (case startupFailure st of
        Some e \<Rightarrow> Inl e
      | None \<Rightarrow>
          (case out of
             Resolves r \<Rightarrow> Inr r
           | Rejects e \<Rightarrow> Inl e
           | NoResponse \<Rightarrow> Inl (TimeoutError (timeoutMessage opName st))))"

definition initializeAttempt :: "StartupState \<Rightarrow> (Error + json) \<times> StartupState" where
  "initializeAttempt st =
     (case initializeScript st of
        [] \<Rightarrow> (raceOutcome st ''Initialize'' NoResponse, st)
      | (evs, out) # rest \<Rightarrow>
          (let st1 = processEvents (st\<lparr> initializeScript := rest \<rparr>) evs
           in (raceOutcome st1 ''Initialize'' out, st1)))"

definition newSessionAttempt :: "StartupState \<Rightarrow> (Error + NewSessionResponse) \<times> StartupState" where
  "newSessionAttempt st =
     (case newSessionScript st of
        [] \<Rightarrow> (raceOutcome st ''New session'' NoResponse, st)
      | (evs, out) # rest \<Rightarrow>
          (let st1 = processEvents (st\<lparr> newSessionScript := rest \<rparr>) evs
           in (raceOutcome st1 ''New session'' out, st1)))"

definition isNonRetryableStartupError :: "StartupState \<Rightarrow> Error \<Rightarrow> bool" where
  "isNonRetryableStartupError st error =
     (if startupFailure st \<noteq> None \<and> Some error = startupFailure st then True
      else errorCode error = Some ''ENOENT'' \<or> errorCode error = Some ''EACCES'' \<or>
           errorCode error = Some ''EPIPE'')"

text \<open>The options both handshake calls pass to \<open>withRetry\<close>.\<close>

definition handshakeRetry :: "(Error, StartupState) RetryOptions" where
  "handshakeRetry = RETRY_CONFIG (Some (\<lambda>st error. \<not> isNonRetryableStartupError st error))"

definition emitInitialSessionMetadata :: "StartupState \<Rightarrow> NewSessionResponse \<Rightarrow> StartupState" where
  "emitInitialSessionMetadata st sessionResponse =
     (let st1 = (if isArray (resp_configOptions sessionResponse)
                 then backendEmit st (Event ''config_options_update''
                        (JObj [(''configOptions'', the (resp_configOptions sessionResponse))]))
                 else st);
          st2 = (if truthy (resp_modes sessionResponse)
                 then backendEmit
                        (backendEmit st1 (Event ''modes_update'' (the (resp_modes sessionResponse))))
                        (Event ''current_mode_update''
                           (JObj (case field (the (resp_modes sessionResponse)) ''currentModeId'' of
                                    Some v \<Rightarrow> [(''currentModeId'', v)]
                                  | None \<Rightarrow> [])))
                 else st1)
      in if truthy (resp_models sessionResponse)
         then backendEmit st2 (Event ''models_update'' (the (resp_models sessionResponse)))
         else st2)"

text \<open>The body of the \<open>try\<close> block, from the pipe check on.\<close>

definition startSessionTry :: "StartupState \<Rightarrow> (Error option + string) \<times> StartupState" where
  "startSessionTry st =
     (if \<not> pipesCreated st then (Inl (Some (PlainError ''Failed to create stdio pipes'')), st)
      else
        (let st0 = st\<lparr> startupFailure := None, startupFailureSettled := False \<rparr>;
             run1 = withRetry initializeAttempt handshakeRetry st0
         in case result run1 of
              Inl error \<Rightarrow> (Inl error, final run1)
            | Inr initializeResponse \<Rightarrow>
                (let run2 = withRetry newSessionAttempt handshakeRetry (final run1)
                 in case result run2 of
                      Inl error \<Rightarrow> (Inl error, final run2)
                    | Inr sessionResponse \<Rightarrow>
                        (let st1 = (final run2)\<lparr> acpSessionId := Some (sessionId sessionResponse) \<rparr>;
                             st2 = emitInitialSessionMetadata st1 sessionResponse;
                             st3 = backendEmit st2 (Status Idle None)
                         in (Inr (randomUUID st), st3)))))"

definition startSession :: "StartupState \<Rightarrow> (Error option + string) \<times> StartupState" where
  "startSession st =
     (if disposed st then (Inl (Some (PlainError ''Backend has been disposed'')), st)
      else
        (let st1 = backendEmit st (Status Starting None);
             st2 = st1\<lparr> startupStatusErrorEmitted := False \<rparr>
         in case startSessionTry st2 of
              (Inr sid, st') \<Rightarrow> (Inr sid, st')
            | (Inl error, st') \<Rightarrow>
                (Inl error,
                 if \<not> startupStatusErrorEmitted st'
                 then backendEmit st' (Status StatusError (Some (thrownDetail error)))
                 else st')))"

text \<open>
  The startup invariant used below: the backend is not disposed, a failure is stored
  exactly when it is settled, and once the \<open>error\<close> handler has emitted its status the
  stored failure is that event's error and its status is the last message delivered.
\<close>

definition startupInv :: "StartupState \<Rightarrow> bool" where
  "startupInv st \<longleftrightarrow>
     \<not> disposed st \<and>
     (startupFailureSettled st \<longleftrightarrow> startupFailure st \<noteq> None) \<and>
     (startupStatusErrorEmitted st \<longrightarrow>
        (\<exists>e. startupFailure st = Some e \<and> delivered st \<noteq> [] \<and>
             last (delivered st) = Status StatusError (Some (errorMessage e))))"

subsection \<open>Example startups\<close>

text \<open>A backend before \<open>startSession\<close>, with an agent that never answers.\<close>

definition ex_startup :: StartupState where
  "ex_startup =
     \<lparr> disposed = False, delivered = [], acpSessionId = None,
       recentPromptHadChangeTitle = False, toolCallCount = 0, hasPermissionHandler = True,
       determineToolName = None,
       startupFailure = None, startupFailureSettled = False, startupStatusErrorEmitted = False,
       pipesCreated = True, initializeScript = [], newSessionScript = [],
       initTimeout = 60000, agentName = ''gemini'', randomUUID = ''session-1'' \<rparr>"

text \<open>The command does not exist: the child process reports \<open>ENOENT\<close>.\<close>

definition ex_enoent :: Error where
  "ex_enoent = SpawnError (Some ''ENOENT'') ''spawn gemini ENOENT''"

definition ex_startup_enoent :: StartupState where
  "ex_startup_enoent = ex_startup\<lparr> initializeScript := [([ProcError ex_enoent], NoResponse)] \<rparr>"

text \<open>The child closes its stdin: the first \<open>initialize\<close> is rejected with \<open>EPIPE\<close>.\<close>

definition ex_epipe :: Error where
  "ex_epipe = RpcError (Some ''EPIPE'') ''write EPIPE''"

definition ex_startup_epipe :: StartupState where
  "ex_startup_epipe = ex_startup\<lparr> initializeScript := [([], Rejects ex_epipe)] \<rparr>"

text \<open>\<open>initialize\<close> answers; the child exits with code 1 during the first \<open>newSession\<close>.\<close>

definition ex_startup_exit :: StartupState where
  "ex_startup_exit =
     ex_startup\<lparr> initializeScript := [([], Resolves (JObj []))],
                 newSessionScript := [([ProcExit (Some 1)], NoResponse)] \<rparr>"

text \<open>
  The state in which the handshake of \<open>startSession\<close> starts on a backend that is not
  disposed: \<open>starting\<close> has been emitted and the three local variables are fresh.
\<close>

definition handshakeEntry :: "StartupState \<Rightarrow> StartupState" where
  "handshakeEntry st =
     (backendEmit st (Status Starting None))
       \<lparr> startupStatusErrorEmitted := False, startupFailure := None,
         startupFailureSettled := False \<rparr>"

subsection \<open>The \<open>requestPermission\<close> handler\<close>

text \<open>
  The request is the JSON value the agent sent, and the handler reads it unchecked: a
  property holds whatever value is there, whatever the TypeScript type says. Reading a
  property of \<open>null\<close> throws a \<open>TypeError\<close>, and so does calling a method that the
  value does not have. None of the properties read here (\<open>toolCall\<close>, \<open>id\<close>, \<open>kind\<close>,
  \<open>toolName\<close>, \<open>input\<close>, \<open>arguments\<close>, \<open>content\<close>, \<open>options\<close>, \<open>optionId\<close>,
  \<open>name\<close>) exists on a string, a number, a boolean or an array, so \<open>field\<close> is the
  property read on every value other than \<open>null\<close>.
\<close>

datatype Thrown = TypeError

text \<open>\<open>x?.k\<close>: undefined when \<open>x\<close> is undefined or \<open>null\<close>.\<close>

fun optField :: "json option \<Rightarrow> string \<Rightarrow> json option" where
  "optField None k = None"
| "optField (Some j) k = (if j = JNull then None else field j k)"

text \<open>\<open>a || b\<close> on JSON values.\<close>

definition orJson :: "json option \<Rightarrow> json option \<Rightarrow> json option" where
  "orJson a b = (if truthy a then a else b)"

datatype Decision = Approved | ApprovedForSession | Denied | Abort

fun decisionName :: "Decision \<Rightarrow> string" where
  "decisionName Approved = ''approved''"
| "decisionName ApprovedForSession = ''approved_for_session''"
| "decisionName Denied = ''denied''"
| "decisionName Abort = ''abort''"

text \<open>\<open>extendedParams.options || []\<close>.\<close>

definition requestOptions :: "json \<Rightarrow> json" where
  "requestOptions params = the (orJson (field params ''options'') (Some (JArr [])))"

text \<open>A property \<open>k: v\<close> of an object literal; a property that is undefined is left out.\<close>

fun objProp :: "string \<Rightarrow> json option \<Rightarrow> (string \<times> json) list" where
  "objProp k None = []"
| "objProp k (Some v) = [(k, v)]"

text \<open>The object \<open>{id: opt.optionId, name: opt.name, kind: opt.kind}\<close>, for \<open>opt\<close> not \<open>null\<close>.\<close>

definition optionJson :: "json \<Rightarrow> json" where
  "optionJson opt =
     JObj (objProp ''id'' (field opt ''optionId'') @ objProp ''name'' (field opt ''name'') @
           objProp ''kind'' (field opt ''kind''))"

text \<open>The callback of \<open>options.map\<close>: it throws on an entry that is \<open>null\<close>.\<close>

definition optionEntry :: "json \<Rightarrow> Thrown + json" where
  "optionEntry opt = (if opt = JNull then Inl TypeError else Inr (optionJson opt))"

text \<open>\<open>xs.map(f)\<close> for a callback that may throw: the first throw ends the loop.\<close>

fun mapThrowing :: "('a \<Rightarrow> Thrown + 'b) \<Rightarrow> 'a list \<Rightarrow> Thrown + 'b list" where
  "mapThrowing f [] = Inr []"
| "mapThrowing f (x # xs) =
     (case f x of
        Inl e \<Rightarrow> Inl e
      | Inr y \<Rightarrow> (case mapThrowing f xs of Inl e \<Rightarrow> Inl e | Inr ys \<Rightarrow> Inr (y # ys)))"

text \<open>
  \<open>{ ...params }\<close>: the own properties of an object, the entries of an array under their
  indices, the characters of a string under theirs, and nothing of any other value.
\<close>

fun spread :: "json \<Rightarrow> json" where
  "spread (JObj kvs) = JObj kvs"
| "spread (JArr xs) = JObj (zip (map showNat [0..<length xs]) xs)"
| "spread (JStr s) = JObj (zip (map showNat [0..<length s]) (map (\<lambda>c. JStr [c]) s))"
| "spread _ = JObj []"

text \<open>
  What the handler has fixed by the time it awaits the permission handler; \<open>pp_options\<close>
  are the entries of \<open>options\<close>, which is an array once \<open>options.map\<close> has returned.
\<close>

record PendingPermission =
  pp_toolCallId :: json
  pp_permissionId :: json
  pp_toolName :: json
  pp_input :: json
  pp_options :: "json list"

text \<open>The reply \<open>{outcome: {outcome: 'selected', optionId}}\<close>.\<close>

datatype RequestPermissionResponse = Selected json

text \<open>
  The next four definitions are expressions of the handler that come after it has read
  \<open>extendedParams.toolCall\<close>: they are evaluated for \<open>params\<close> that is not \<open>null\<close>.

  \<open>toolCall?.kind || toolCall?.toolName || extendedParams.kind || 'Unknown tool'\<close>.
\<close>

definition requestToolName :: "json \<Rightarrow> json" where
  "requestToolName params =
     (let toolCall = field params ''toolCall''
      in the (orJson (orJson (orJson (optField toolCall ''kind'') (optField toolCall ''toolName''))
                             (field params ''kind''))
                     (Some (JStr ''Unknown tool''))))"

text \<open>\<open>toolCall?.id || randomUUID()\<close>; \<open>uuid\<close> is what \<open>randomUUID()\<close> would return.\<close>

definition requestToolCallId :: "string \<Rightarrow> json \<Rightarrow> json" where
  "requestToolCallId uuid params =
     (let toolCall = field params ''toolCall''
      in the (orJson (optField toolCall ''id'') (Some (JStr uuid))))"

text \<open>
  \<open>toolCall.input || toolCall.arguments || toolCall.content || {}\<close> for a truthy
  \<open>toolCall\<close>, and the same of \<open>extendedParams\<close> otherwise.
\<close>

definition requestInput :: "json \<Rightarrow> json" where
  "requestInput params =
     (let toolCall = field params ''toolCall''
      in the (if truthy toolCall
              then orJson (orJson (orJson (field (the toolCall) ''input'')
                                          (field (the toolCall) ''arguments''))
                                  (field (the toolCall) ''content''))
                          (Some (JObj []))
              else orJson (orJson (orJson (field params ''input'') (field params ''arguments''))
                                  (field params ''content''))
                          (Some (JObj []))))"

text \<open>
  The tool name after the transport's \<open>determineToolName\<close> hook, if there is one:
  \<open>determineToolName?.(toolName, toolCallId, input, context) ?? toolName\<close>.
\<close>

definition permissionToolName :: "'a Backend_scheme \<Rightarrow> string \<Rightarrow> json \<Rightarrow> json" where
  "permissionToolName b uuid params =
     (case determineToolName b of
        Some f \<Rightarrow>
          (case f (requestToolName params) (requestToolCallId uuid params) (requestInput params)
                  (recentPromptHadChangeTitle b, toolCallCount b) of
             Some n \<Rightarrow> JStr n
           | None \<Rightarrow> requestToolName params)
      | None \<Rightarrow> requestToolName params)"

text \<open>
  The payload \<open>{...params, permissionId, toolCallId, toolName, input, options}\<close> of the
  \<open>permission-request\<close> message; \<open>entries\<close> is what \<open>options.map\<close> returned.
\<close>

definition permissionPayload ::
  "json \<Rightarrow> json \<Rightarrow> json \<Rightarrow> json \<Rightarrow> json \<Rightarrow> json list \<Rightarrow> json" where
  "permissionPayload params permissionId tid toolName input entries =
     foldl (\<lambda>j (k, v). setField j k v) (spread params)
       [(''permissionId'', permissionId), (''toolCallId'', tid),
        (''toolName'', toolName), (''input'', input),
        (''options'', JArr entries)]"

text \<open>
  The handler up to and including the emission of \<open>permission-request\<close>. It throws, and
  the request is rejected, on \<open>params\<close> that is \<open>null\<close> (at \<open>extendedParams.toolCall\<close>,
  before anything has happened), on \<open>options\<close> that is truthy and not an array and on an
  option entry that is \<open>null\<close> (at \<open>options.map\<close>, after the tool-call counter has been
  incremented and before the message is emitted).
\<close>

definition requestPermissionStart ::
  "'a Backend_scheme \<Rightarrow> string \<Rightarrow> json \<Rightarrow> (Thrown + PendingPermission) \<times> 'a Backend_scheme" where
  "requestPermissionStart b uuid params =
     (if params = JNull then (Inl TypeError, b)
      else
        (let tid = requestToolCallId uuid params;
             permissionId = tid;
             input = requestInput params;
             toolName = permissionToolName b uuid params;
             b1 = b\<lparr> toolCallCount := toolCallCount b + 1 \<rparr>
         in case requestOptions params of
              JArr opts \<Rightarrow>
                (case mapThrowing optionEntry opts of
                   Inl e \<Rightarrow> (Inl e, b1)
                 | Inr entries \<Rightarrow>
                     (Inr \<lparr> pp_toolCallId = tid, pp_permissionId = permissionId,
                            pp_toolName = toolName, pp_input = input, pp_options = opts \<rparr>,
                      backendEmit b1
                        (PermissionRequest permissionId toolName
                           (permissionPayload params permissionId tid toolName input entries))))
            | _ \<Rightarrow> (Inl TypeError, b1)))"

text \<open>
  \<open>opt.name?.toLowerCase()\<close>: undefined for a name that is undefined or \<open>null\<close>, and a
  \<open>TypeError\<close> for a name that is neither that nor a string.
\<close>

fun nameToLowerCase :: "json option \<Rightarrow> Thrown + string option" where
  "nameToLowerCase None = Inr None"
| "nameToLowerCase (Some JNull) = Inr None"
| "nameToLowerCase (Some (JStr n)) = Inr (Some (toLowerCase n))"
| "nameToLowerCase (Some (JBool v)) = Inl TypeError"
| "nameToLowerCase (Some (JNum v)) = Inl TypeError"
| "nameToLowerCase (Some (JArr v)) = Inl TypeError"
| "nameToLowerCase (Some (JObj v)) = Inl TypeError"

text \<open>
  The callback \<open>opt.optionId === oid || opt.name?.toLowerCase().includes(word)\<close> of
  \<open>options.find\<close>; the name is not looked at when the id is the one asked for.
\<close>

definition optionMatches :: "string \<Rightarrow> string \<Rightarrow> json \<Rightarrow> Thrown + bool" where
  "optionMatches oid word opt =
     (if opt = JNull then Inl TypeError
      else if field opt ''optionId'' = Some (JStr oid) then Inr True
      else (case nameToLowerCase (field opt ''name'') of
              Inl e \<Rightarrow> Inl e
            | Inr None \<Rightarrow> Inr False
            | Inr (Some n) \<Rightarrow> Inr (includesStr n word)))"

text \<open>\<open>xs.find(p)\<close> for a callback that may throw: the first throw ends the search.\<close>

fun findThrowing :: "('a \<Rightarrow> Thrown + bool) \<Rightarrow> 'a list \<Rightarrow> Thrown + 'a option" where
  "findThrowing p [] = Inr None"
| "findThrowing p (x # xs) =
     (case p x of
        Inl e \<Rightarrow> Inl e
      | Inr m \<Rightarrow> if m then Inr (Some x) else findThrowing p xs)"

text \<open>\<open>opt.optionId || fallback\<close>, for \<open>opt\<close> not \<open>null\<close>.\<close>

definition optionIdOr :: "json \<Rightarrow> string \<Rightarrow> json" where
  "optionIdOr opt fallback = the (orJson (field opt ''optionId'') (Some (JStr fallback)))"

definition idOr :: "json \<Rightarrow> string \<Rightarrow> Thrown + json" where
  "idOr opt fallback = (if opt = JNull then Inl TypeError else Inr (optionIdOr opt fallback))"

definition decisionResult :: "string \<Rightarrow> Decision \<Rightarrow> json" where
  "decisionResult st d = JObj [(''status'', JStr st), (''decision'', JStr (decisionName d))]"

text \<open>
  The \<open>optionId\<close> for a decision \<open>approved\<close> or \<open>approved_for_session\<close>: both searches
  run before the choice is made.
\<close>

definition chooseApproved :: "Decision \<Rightarrow> json list \<Rightarrow> Thrown + json" where
  "chooseApproved d opts =
     (case findThrowing (optionMatches ''proceed_once'' ''once'') opts of
        Inl e \<Rightarrow> Inl e
      | Inr proceedOnceOption \<Rightarrow>
          (case findThrowing (optionMatches ''proceed_always'' ''always'') opts of
             Inl e \<Rightarrow> Inl e
           | Inr proceedAlwaysOption \<Rightarrow>
               if d = ApprovedForSession \<and> truthy proceedAlwaysOption
               then idOr (the proceedAlwaysOption) ''proceed_always''
               else if truthy proceedOnceOption
               then idOr (the proceedOnceOption) ''proceed_once''
               else if opts \<noteq> []
               then idOr (hd opts) ''proceed_once''
               else Inr (JStr ''cancel'')))"

text \<open>The \<open>optionId\<close> for a decision \<open>denied\<close> or \<open>abort\<close>.\<close>

definition chooseDenied :: "json list \<Rightarrow> Thrown + json" where
  "chooseDenied opts =
     (case findThrowing (optionMatches ''cancel'' ''cancel'') opts of
        Inl e \<Rightarrow> Inl e
      | Inr cancelOption \<Rightarrow>
          if truthy cancelOption then idOr (the cancelOption) ''cancel''
          else Inr (JStr ''cancel''))"

text \<open>
  The handler from the moment the permission handler settles, in the state the backend
  is in by then: \<open>Some d\<close> is the decision it resolved with, \<open>None\<close> a rejection. This is
  the \<open>try\<close> block and its \<open>catch\<close>: whatever is thrown inside, by the permission
  handler or by a search, is answered with \<open>cancel\<close>, and then no \<open>tool-result\<close> has
  been emitted, the emission being the last statement before the \<open>return\<close>.
\<close>

definition requestPermissionResolve ::
  "'a Backend_scheme \<Rightarrow> PendingPermission \<Rightarrow> Decision option
     \<Rightarrow> RequestPermissionResponse \<times> 'a Backend_scheme" where
  "requestPermissionResolve b p decision =
     (case decision of
        None \<Rightarrow> (Selected (JStr ''cancel''), b)
      | Some d \<Rightarrow>
          (if d = Approved \<or> d = ApprovedForSession
           then
             (case chooseApproved d (pp_options p) of
                Inl e \<Rightarrow> (Selected (JStr ''cancel''), b)
              | Inr chosen \<Rightarrow>
                  (Selected chosen,
                   backendEmit b (ToolResult (pp_toolName p) (Some (decisionResult ''approved'' d))
                                    (pp_permissionId p))))
           else
             (case chooseDenied (pp_options p) of
                Inl e \<Rightarrow> (Selected (JStr ''cancel''), b)
              | Inr chosen \<Rightarrow>
                  (Selected chosen,
                   backendEmit b (ToolResult (pp_toolName p) (Some (decisionResult ''denied'' d))
                                    (pp_permissionId p))))))"

text \<open>
  The callback of the search without a permission handler:
  \<open>opt.optionId === 'proceed_once' || (typeof opt.name === 'string' && opt.name.toLowerCase().includes('once'))\<close>.
\<close>

definition optionMatchesOnce :: "json \<Rightarrow> Thrown + bool" where
  "optionMatchesOnce opt =
     (if opt = JNull then Inl TypeError
      else Inr (field opt ''optionId'' = Some (JStr ''proceed_once'') \<or>
                (case field opt ''name'' of
                   Some (JStr n) \<Rightarrow> includesStr (toLowerCase n) ''once''
                 | _ \<Rightarrow> False)))"

text \<open>
  Without a permission handler:
  \<open>proceedOnceOption?.optionId || (options.length > 0 && options[0].optionId ? options[0].optionId : 'proceed_once')\<close>.
  This is outside the \<open>try\<close> block.
\<close>

definition requestPermissionAuto :: "PendingPermission \<Rightarrow> Thrown + RequestPermissionResponse" where
  "requestPermissionAuto p =
     (case findThrowing optionMatchesOnce (pp_options p) of
        Inl e \<Rightarrow> Inl e
      | Inr proceedOnceOption \<Rightarrow>
          if truthy (optField proceedOnceOption ''optionId'')
          then Inr (Selected (the (optField proceedOnceOption ''optionId'')))
          else if pp_options p = [] then Inr (Selected (JStr ''proceed_once''))
          else if hd (pp_options p) = JNull then Inl TypeError
          else if truthy (field (hd (pp_options p)) ''optionId'')
          then Inr (Selected (the (field (hd (pp_options p)) ''optionId'')))
          else Inr (Selected (JStr ''proceed_once'')))"

text \<open>
  The whole handler when nothing else touches the backend while the permission handler
  is awaited; \<open>handlerResult\<close> is what the permission handler settles with. \<open>Inl\<close> is a
  handler that throws, so that the request is rejected instead of answered.
\<close>

definition requestPermission ::
  "'a Backend_scheme \<Rightarrow> string \<Rightarrow> json \<Rightarrow> Decision option
     \<Rightarrow> (Thrown + RequestPermissionResponse) \<times> 'a Backend_scheme" where
  "requestPermission b uuid params handlerResult =
     (let (started, b1) = requestPermissionStart b uuid params
      in case started of
           Inl e \<Rightarrow> (Inl e, b1)
         | Inr p \<Rightarrow>
             if hasPermissionHandler b1
             then (let (r, b2) = requestPermissionResolve b1 p handlerResult in (Inr r, b2))
             else (requestPermissionAuto p, b1))"

subsection \<open>Example permission requests\<close>

definition ex_backend :: Backend where
  "ex_backend =
     \<lparr> disposed = False, delivered = [], acpSessionId = Some ''acp-session'',
       recentPromptHadChangeTitle = False, toolCallCount = 0, hasPermissionHandler = True,
       determineToolName = None \<rparr>"

definition ex_option :: "string \<Rightarrow> string \<Rightarrow> json" where
  "ex_option oid n = JObj [(''optionId'', JStr oid), (''name'', JStr n)]"

definition ex_request :: "string \<Rightarrow> json list \<Rightarrow> json" where
  "ex_request tid opts =
     JObj [(''sessionId'', JStr ''acp-session''),
           (''toolCall'', JObj [(''id'', JStr tid), (''kind'', JStr ''Bash'')]),
           (''options'', JArr opts)]"

text \<open>Scenario 7 of the specification.\<close>

definition ex_permission :: json where
  "ex_permission =
     ex_request ''t1'' [ex_option ''proceed_once'' ''Allow'',
                        ex_option ''proceed_always'' ''Allow for this session'',
                        ex_option ''cancel'' ''Reject'']"

text \<open>
  A request that lists, before \<open>proceed_always\<close>, an option of another id whose name
  contains the word \<open>always\<close>.
\<close>

definition ex_permission_server :: json where
  "ex_permission_server =
     ex_request ''t1'' [ex_option ''proceed_once'' ''Allow'',
                        ex_option ''proceed_always_server'' ''Always allow this server'',
                        ex_option ''proceed_always'' ''Allow for this session'',
                        ex_option ''cancel'' ''Reject'']"

text \<open>A request whose tool call carries the empty string as its id.\<close>

definition ex_permission_emptyId :: json where
  "ex_permission_emptyId =
     ex_request [] [ex_option ''proceed_once'' ''Allow'',
                    ex_option ''proceed_always'' ''Allow for this session'',
                    ex_option ''cancel'' ''Reject'']"

text \<open>A request that lists, before \<open>proceed_always\<close>, an option whose name is a number.\<close>

definition ex_permission_numericName :: json where
  "ex_permission_numericName =
     ex_request ''t1'' [JObj [(''optionId'', JStr ''x''), (''name'', JNum 5)],
                        ex_option ''proceed_always'' ''Always'']"

text \<open>A request whose list of options holds \<open>null\<close>.\<close>

definition ex_permission_nullOption :: json where
  "ex_permission_nullOption =
     ex_request ''t1'' [JNull, ex_option ''proceed_always'' ''Always'']"

section \<open>Session manager (\<open>AcpSessionManager\<close>)\<close>

text \<open>
  The class \<open>AcpSessionManager\<close> (\<open>AcpSessionManager.ts\<close>) is not among the sources; its
  test file and the specification are. Every definition of this section is modelled from
  section 4.6 of the specification, with the test file deciding what the specification
  leaves open. Opaque fresh ids (cuid2 in the source) are drawn from a counter; the clock
  \<open>performance.now()\<close> is a sequence of readings given by the environment, about which
  nothing is assumed.
\<close>

text \<open>Modelled from the spec: the status that \<open>endTurn\<close> takes.\<close>

datatype TurnStatus = Completed | Failed | Cancelled

text \<open>
  Modelled from the spec: the \<open>ev\<close> of a session envelope (the envelope type of
  \<open>happy-wire\<close> is missing): \<open>turn-start\<close>, \<open>turn-end{status}\<close>, \<open>text{text, thinking}\<close>,
  \<open>tool-call-start{call, name, title, description, args}\<close>, \<open>tool-call-end{call}\<close>.
\<close>

datatype SessionEvent =
    TurnStart
  | TurnEnd TurnStatus
  | TextEvent string bool
  | ToolCallStart nat string string string json
  | ToolCallEnd nat

text \<open>
  Modelled from the spec: the session envelope \<open>{id, time, turn, ev}\<close> (its declaration
  is missing).
\<close>

record SessionEnvelope =
  env_id :: nat
  env_time :: real
  env_turn :: "nat option"
  env_ev :: SessionEvent

text \<open>
  Modelled from the spec: the state of the session manager (the class is missing):
  \<open>currentTurnId\<close>, \<open>pendingText\<close>, \<open>pendingThinking\<close>, \<open>callIdMap\<close> and \<open>timeCounter\<close>,
  together with the supply of fresh ids and the clock readings still to come.
\<close>

record SessionManager =
  currentTurnId :: "nat option"
  pendingText :: string
  pendingThinking :: string
  callIdMap :: "string \<rightharpoonup> nat"
  timeCounter :: real
  nextId :: nat
  clock :: "nat \<Rightarrow> real"
  readings :: nat

type_synonym emitter = "SessionManager \<Rightarrow> SessionEnvelope list \<times> SessionManager"

text \<open>
  Modelled from the spec: sequencing inside a method of the missing class: the second
  step runs in the state the first one left, the envelopes are appended in that order.
\<close>

definition andThen :: "emitter \<Rightarrow> emitter \<Rightarrow> emitter" where
  "andThen f g s = (let (a, s1) = f s; (b, s2) = g s1 in (a @ b, s2))"

text \<open>Modelled from the spec: a step of the missing class that emits nothing.\<close>

definition modify :: "(SessionManager \<Rightarrow> SessionManager) \<Rightarrow> emitter" where
  "modify h s = ([], h s)"

text \<open>
  Modelled from the spec: the time of the next envelope (the method is missing): ``a
  \<open>time\<close> equal to \<open>++timeCounter\<close> (clamped above \<open>performance.now()\<close> to preserve
  wall-clock ordering but guaranteed to increase)''. The counter is advanced by one, raised
  to the clock reading if that is later, and keeps the value it returned.
\<close>

definition nextTime :: "SessionManager \<Rightarrow> real \<times> SessionManager" where
  "nextTime s =
     (let t = max (timeCounter s + 1) (clock s (readings s))
      in (t, s\<lparr> timeCounter := t, readings := Suc (readings s) \<rparr>))"

text \<open>
  Modelled from the spec: the creation of one envelope (missing): ``all emitted envelopes
  carry \<open>currentTurnId\<close> and a fresh unique \<open>id\<close>, plus a \<open>time\<close>''.
\<close>

definition emitEnvelope :: "SessionEvent \<Rightarrow> emitter" where
  "emitEnvelope e s =
     (let (t, s1) = nextTime s
      in ([\<lparr> env_id = nextId s1, env_time = t, env_turn = currentTurnId s1, env_ev = e \<rparr>],
          s1\<lparr> nextId := Suc (nextId s1) \<rparr>))"

text \<open>
  Modelled from the spec: flushing of the missing class: pending text becomes one \<open>text\<close>
  envelope and the buffer is emptied; an empty buffer gives no envelope.
\<close>

definition flushText :: emitter where
  "flushText s =
     (if pendingText s \<noteq> []
      then andThen (emitEnvelope (TextEvent (pendingText s) False))
             (modify (\<lambda>s'. s'\<lparr> pendingText := [] \<rparr>)) s
      else ([], s))"

text \<open>
  Modelled from the spec: flushing of the missing class: pending thinking becomes one
  \<open>text{thinking: true}\<close> envelope.
\<close>

definition flushThinking :: emitter where
  "flushThinking s =
     (if pendingThinking s \<noteq> []
      then andThen (emitEnvelope (TextEvent (pendingThinking s) True))
             (modify (\<lambda>s'. s'\<lparr> pendingThinking := [] \<rparr>)) s
      else ([], s))"

text \<open>Modelled from the spec: ``flushes pending text and thinking (in that order)''.\<close>

definition flushPending :: emitter where
  "flushPending = andThen flushText flushThinking"

text \<open>
  Modelled from the spec: \<open>startTurn()\<close> of the missing class: without an active turn it
  allocates a fresh turn id and emits \<open>turn-start\<close> carrying it; with one it does nothing.
\<close>

definition startTurn :: emitter where
  "startTurn s =
     (case currentTurnId s of
        None \<Rightarrow>
          andThen (modify (\<lambda>s'. s'\<lparr> currentTurnId := Some (nextId s'), nextId := Suc (nextId s') \<rparr>))
            (emitEnvelope TurnStart) s
      | Some turn \<Rightarrow> ([], s))"

text \<open>
  Modelled from the spec: \<open>endTurn(status)\<close> of the missing class: it flushes pending text
  and thinking, then, if a turn is active, emits \<open>turn-end{status}\<close> bound to it and clears
  the turn id. The flush happens without an active turn too.
\<close>

definition endTurn :: "TurnStatus \<Rightarrow> emitter" where
  "endTurn st =
     andThen flushPending
       (\<lambda>s. case currentTurnId s of
               None \<Rightarrow> ([], s)
             | Some turn \<Rightarrow>
                 andThen (emitEnvelope (TurnEnd st))
                   (modify (\<lambda>s'. s'\<lparr> currentTurnId := None \<rparr>)) s)"

text \<open>
  Modelled from the spec: \<open>mapMessage\<close> of the missing class on \<open>model-output\<close>: an empty
  or absent delta is dropped; otherwise pending thinking is flushed and the delta is
  appended to the pending text.
\<close>

definition mapModelOutput :: "string option \<Rightarrow> emitter" where
  "mapModelOutput delta s =
     (if \<not> truthyStr delta then ([], s)
      else andThen flushThinking
             (modify (\<lambda>s'. s'\<lparr> pendingText := pendingText s' @ the delta \<rparr>)) s)"

text \<open>
  Modelled from the spec: \<open>mapMessage\<close> of the missing class on the event \<open>thinking\<close>
  with payload \<open>{text, streaming?}\<close>: empty text is dropped; a streaming chunk flushes
  the pending text and is appended to the pending thinking; otherwise both buffers are
  flushed and the text is emitted at once as \<open>text{thinking: true}\<close>.
\<close>

definition mapThinking :: "json \<Rightarrow> emitter" where
  "mapThinking payload s =
     (if \<not> truthyStr (strField (Some payload) ''text'') then ([], s)
      else if truthy (field payload ''streaming'')
      then andThen flushText
             (modify (\<lambda>s'. s'\<lparr> pendingThinking :=
                               pendingThinking s' @ the (strField (Some payload) ''text'') \<rparr>)) s
      else andThen flushPending
             (emitEnvelope (TextEvent (the (strField (Some payload) ''text'')) True)) s)"

text \<open>
  Modelled from the spec: \<open>mapMessage\<close> of the missing class on \<open>tool-call\<close>: flush the
  buffers, allocate a fresh call id, record it for the external id and emit
  \<open>tool-call-start\<close> with name, title and description equal to the tool name.
\<close>

definition mapToolCall :: "string \<Rightarrow> json \<Rightarrow> string \<Rightarrow> emitter" where
  "mapToolCall toolName args callId =
     andThen flushPending
       (\<lambda>s. andThen
               (modify (\<lambda>s'. s'\<lparr> callIdMap := (callIdMap s')(callId \<mapsto> nextId s),
                                  nextId := Suc (nextId s) \<rparr>))
               (emitEnvelope (ToolCallStart (nextId s) toolName toolName toolName args)) s)"

text \<open>
  Modelled from the spec: \<open>mapMessage\<close> of the missing class on \<open>tool-result\<close>: the call id
  recorded for the external id, or a fresh one if there is none; \<open>tool-call-end\<close> is
  emitted and pending text is not flushed.
\<close>

definition mapToolResult :: "string \<Rightarrow> emitter" where
  "mapToolResult callId s =
     (case callIdMap s callId of
        Some ourCallId \<Rightarrow> emitEnvelope (ToolCallEnd ourCallId) s
      | None \<Rightarrow>
          andThen (modify (\<lambda>s'. s'\<lparr> nextId := Suc (nextId s) \<rparr>))
            (emitEnvelope (ToolCallEnd (nextId s))) s)"

text \<open>
  Modelled from the spec: \<open>mapMessage(msg)\<close> of the missing class: status messages,
  permission messages, token counts, file edits, terminal output and events other than
  \<open>thinking\<close> give no envelope.
\<close>

fun mapMessage :: "AgentMessage \<Rightarrow> emitter" where
  "mapMessage (ModelOutput delta) = mapModelOutput delta"
| "mapMessage (Event name payload) =
     (if name = ''thinking'' then mapThinking payload else (\<lambda>s. ([], s)))"
| "mapMessage (ToolCall toolName args callId) = mapToolCall toolName args callId"
| "mapMessage (ToolResult toolName res callId) = mapToolResult callId"
| "mapMessage _ = (\<lambda>s. ([], s))"

text \<open>
  Modelled from the spec: one call of an entry point of the session manager
  (\<open>startTurn\<close>, \<open>endTurn\<close>, \<open>mapMessage\<close>).
\<close>

datatype SessionCall = StartTurn | EndTurn TurnStatus | MapMessage AgentMessage

fun sessionCall :: "SessionCall \<Rightarrow> emitter" where
  "sessionCall StartTurn = startTurn"
| "sessionCall (EndTurn st) = endTurn st"
| "sessionCall (MapMessage msg) = mapMessage msg"

text \<open>
  Modelled from the spec: a sequence of calls on one session manager; the envelopes in
  emission order.
\<close>

fun sessionCalls :: "SessionCall list \<Rightarrow> emitter" where
  "sessionCalls [] = (\<lambda>s. ([], s))"
| "sessionCalls (c # cs) = andThen (sessionCall c) (sessionCalls cs)"

text \<open>
  The envelopes of a step carry strictly increasing times, all after the counter the
  step started from and none after the counter it leaves.
\<close>

definition timeOrdered :: "emitter \<Rightarrow> bool" where
  "timeOrdered f \<longleftrightarrow>
     (\<forall>s. sorted_wrt (<) (map env_time (fst (f s))) \<and>
          (\<forall>e \<in> set (fst (f s)). timeCounter s < env_time e \<and>
                                  env_time e \<le> timeCounter (snd (f s))) \<and>
          timeCounter s \<le> timeCounter (snd (f s)))"

subsection \<open>Example session\<close>

text \<open>A new session manager whose clock stands still at 5.\<close>

definition ex_session :: SessionManager where
  "ex_session =
     \<lparr> currentTurnId = None, pendingText = [], pendingThinking = [], callIdMap = Map.empty,
       timeCounter = 0, nextId = 0, clock = (\<lambda>n. 5), readings = 0 \<rparr>"

text \<open>The calls of the test ``assigns strictly increasing timestamps to all envelopes''.\<close>

definition ex_calls :: "SessionCall list" where
  "ex_calls =
     [StartTurn,
      MapMessage (Event ''thinking'' (JObj [(''text'', JStr ''hmm''), (''streaming'', JBool True)])),
      MapMessage (ModelOutput (Some ''hello'')),
      MapMessage (ToolCall ''Bash'' (JObj []) ''c1''),
      MapMessage (ToolResult ''Bash'' (Some (JObj [])) ''c1''),
      EndTurn Completed]"

section \<open>Properties of the session-config projection\<close>

subsection \<open>Reading the merged metadata key by key\<close>

lemma find_filtered:
  "findConfigOptionByCategory (filter supportedSelect opts) cat = find (isSelectOf cat) opts"
proof (induction opts)
  case Nil
  then show ?case by simp
next
  case (Cons a opts)
  then show ?case
    by (cases cat)
       (auto simp: supportedSelect_def SUPPORTED_CATEGORIES_def isSelectOf_def split: option.splits)
qed

lemma keywise_id: "keywise (\<lambda>m. m)"
  by (simp add: keywise_def)

lemma keywise_upd: "keywise f \<Longrightarrow> keywise (\<lambda>m. (f m)(a := v))"
  unfolding keywise_def
proof (intro allI)
  fix k
  assume H: "\<forall>k. (\<forall>m. f m k = m k) \<or> (\<forall>m m'. f m k = f m' k)"
  show "(\<forall>m. ((f m)(a := v)) k = m k) \<or> (\<forall>m m'. ((f m)(a := v)) k = ((f m')(a := v)) k)"
  proof (cases "k = a")
    case True
    then show ?thesis by simp
  next
    case False
    with H[rule_format, of k] show ?thesis by auto
  qed
qed

lemma keywise_if:
  "keywise f \<Longrightarrow> keywise g \<Longrightarrow> keywise (\<lambda>m. if c then f m else g m)"
  by (cases c) simp_all

lemma keywise_twice: "keywise f \<Longrightarrow> f (f m) = f m"
proof (rule ext)
  fix k
  assume "keywise f"
  then have "(\<forall>m. f m k = m k) \<or> (\<forall>m m'. f m k = f m' k)"
    by (simp add: keywise_def)
  then show "f (f m) k = f m k"
    by metis
qed

lemma keywise_applyConfigCategory:
  "keywise f \<Longrightarrow> keywise (\<lambda>m. applyConfigCategory (f m) opt cat)"
  by (cases opt; cases cat) (simp_all add: keywise_upd)

lemma applyConfigOptions_flags:
  "snd (applyConfigOptions m s) = snd (applyConfigOptions m' s)"
  by (simp add: applyConfigOptions_def Let_def split: option.splits)

lemma keywise_applyConfigOptions:
  "keywise f \<Longrightarrow> keywise (\<lambda>m. fst (applyConfigOptions (f m) s))"
  by (cases "configOptions s")
     (simp_all add: applyConfigOptions_def Let_def keywise_applyConfigCategory)

lemma keywise_applyLegacyModels:
  "keywise f \<Longrightarrow> keywise (\<lambda>m. applyLegacyModels (f m) b s)"
  by (cases "models s") (simp_all add: applyLegacyModels_def keywise_upd keywise_if)

lemma keywise_applyLegacyModes:
  "keywise f \<Longrightarrow> keywise (\<lambda>m. applyLegacyModes (f m) b s)"
  by (cases "modes s") (simp_all add: applyLegacyModes_def keywise_upd keywise_if)

lemma keywise_applyCurrentModeId:
  "keywise f \<Longrightarrow> keywise (\<lambda>m. applyCurrentModeId (f m) s)"
  by (cases "currentModeId s") (simp_all add: applyCurrentModeId_def keywise_upd keywise_if)

lemma merge_unfold:
  "mergeAcpSessionConfigIntoMetadata m s =
     applyCurrentModeId
       (applyLegacyModes
          (applyLegacyModels (fst (applyConfigOptions m s)) (snd (configFlags s)) s)
          (fst (configFlags s)) s) s"
  by (simp add: mergeAcpSessionConfigIntoMetadata_def configFlags_def Let_def case_prod_beta
        applyConfigOptions_flags[of m s Map.empty])

lemma keywise_merge: "keywise (\<lambda>m. mergeAcpSessionConfigIntoMetadata m s)"
  unfolding merge_unfold
  by (intro keywise_applyCurrentModeId keywise_applyLegacyModes keywise_applyLegacyModels
        keywise_applyConfigOptions keywise_id)

lemma merge_other_key:
  assumes "k \<notin> set configKeys"
  shows "mergeAcpSessionConfigIntoMetadata m s k = m k"
proof -
  have k: "k \<noteq> ''models''" "k \<noteq> ''currentModelCode''" "k \<noteq> ''operatingModes''"
    "k \<noteq> ''currentOperatingModeCode''" "k \<noteq> ''thoughtLevels''" "k \<noteq> ''currentThoughtLevelCode''"
    using assms by (auto simp: configKeys_def)
  have cat: "applyConfigCategory x opt cat k = x k" for x opt cat
    using k by (cases opt; cases cat) simp_all
  have c: "fst (applyConfigOptions x s) k = x k" for x
    by (cases "configOptions s") (simp_all add: applyConfigOptions_def Let_def cat)
  have l1: "applyLegacyModels x b s k = x k" for x b
    using k by (cases "models s") (simp_all add: applyLegacyModels_def)
  have l2: "applyLegacyModes x b s k = x k" for x b
    using k by (cases "modes s") (simp_all add: applyLegacyModes_def)
  have l3: "applyCurrentModeId x s k = x k" for x
    using k by (cases "currentModeId s") (simp_all add: applyCurrentModeId_def)
  show ?thesis
    by (simp add: merge_unfold l1 l2 l3 c)
qed

lemma isOptionValue_selectOptionJson: "isOptionValue (selectOptionJson v n d)"
  by (simp add: isOptionValue_def selectOptionJson_def)

lemma metadataOptionOf_selectOptionJson:
  "metadataOptionOf (selectOptionJson v n d) = \<lparr> code = v, value = n, description = d \<rparr>"
  by (cases d) (simp_all add: metadataOptionOf_def selectOptionJson_def)

lemma flattenEntries_values:
  "flattenEntries (map (\<lambda>(v, n, d). selectOptionJson v n d) vs) =
     map (\<lambda>(v, n, d). \<lparr> code = v, value = n, description = d \<rparr>) vs"
  by (induction vs)
     (auto simp: isOptionValue_selectOptionJson metadataOptionOf_selectOptionJson)

lemma config_present:
  assumes "configOptions s = Some opts"
  shows "fst (applyConfigOptions m s) =
       applyConfigCategory
         (applyConfigCategory
            (applyConfigCategory m (find (isSelectOf Mode) opts) Mode)
            (find (isSelectOf Model) opts) Model)
         (find (isSelectOf ThoughtLevel) opts) ThoughtLevel"
    and "configFlags s = (find (isSelectOf Mode) opts \<noteq> None, find (isSelectOf Model) opts \<noteq> None)"
  using assms by (simp_all add: applyConfigOptions_def configFlags_def Let_def find_filtered)

lemma config_absent:
  assumes "configOptions s = None"
  shows "fst (applyConfigOptions m s) = m" and "configFlags s = (False, False)"
  using assms by (simp_all add: applyConfigOptions_def configFlags_def)

lemma cat_models:
  "applyConfigCategory x opt cat ''models'' =
     (if cat = Model then map_option (\<lambda>o'. OptionList (flattenConfigSelectOptions (options o'))) opt
      else x ''models'')"
  by (cases opt; cases cat) simp_all

lemma cat_currentModelCode:
  "applyConfigCategory x opt cat ''currentModelCode'' =
     (if cat = Model then map_option (\<lambda>o'. CodeValue (currentValue o')) opt
      else x ''currentModelCode'')"
  by (cases opt; cases cat) simp_all

lemma cat_operatingModes:
  "applyConfigCategory x opt cat ''operatingModes'' =
     (if cat = Mode then map_option (\<lambda>o'. OptionList (flattenConfigSelectOptions (options o'))) opt
      else x ''operatingModes'')"
  by (cases opt; cases cat) simp_all

lemma cat_currentOperatingModeCode:
  "applyConfigCategory x opt cat ''currentOperatingModeCode'' =
     (if cat = Mode then map_option (\<lambda>o'. CodeValue (currentValue o')) opt
      else x ''currentOperatingModeCode'')"
  by (cases opt; cases cat) simp_all

lemma cat_thoughtLevels:
  "applyConfigCategory x opt cat ''thoughtLevels'' =
     (if cat = ThoughtLevel
      then map_option (\<lambda>o'. OptionList (flattenConfigSelectOptions (options o'))) opt
      else x ''thoughtLevels'')"
  by (cases opt; cases cat) simp_all

lemma cat_currentThoughtLevelCode:
  "applyConfigCategory x opt cat ''currentThoughtLevelCode'' =
     (if cat = ThoughtLevel then map_option (\<lambda>o'. CodeValue (currentValue o')) opt
      else x ''currentThoughtLevelCode'')"
  by (cases opt; cases cat) simp_all

lemmas cat_reads = cat_models cat_currentModelCode cat_operatingModes
  cat_currentOperatingModeCode cat_thoughtLevels cat_currentThoughtLevelCode

lemma legacy_models_other:
  "k \<noteq> ''models'' \<Longrightarrow> k \<noteq> ''currentModelCode'' \<Longrightarrow> applyLegacyModels x b s k = x k"
  by (cases "models s") (simp_all add: applyLegacyModels_def)

lemma legacy_modes_other:
  "k \<noteq> ''operatingModes'' \<Longrightarrow> k \<noteq> ''currentOperatingModeCode'' \<Longrightarrow>
   applyLegacyModes x b s k = x k"
  by (cases "modes s") (simp_all add: applyLegacyModes_def)

lemma current_mode_other:
  "k \<noteq> ''currentOperatingModeCode'' \<Longrightarrow> applyCurrentModeId x s k = x k"
  by (cases "currentModeId s") (simp_all add: applyCurrentModeId_def)

lemma legacy_models_config: "applyLegacyModels x True s = x"
  by (cases "models s") (simp_all add: applyLegacyModels_def)

lemma legacy_modes_config: "applyLegacyModes x True s = x"
  by (cases "modes s") (simp_all add: applyLegacyModes_def)

lemma legacy_models_none: "models s = None \<Longrightarrow> applyLegacyModels x b s = x"
  by (simp add: applyLegacyModels_def)

lemma legacy_modes_none: "modes s = None \<Longrightarrow> applyLegacyModes x b s = x"
  by (simp add: applyLegacyModes_def)

lemma current_mode_read:
  "applyCurrentModeId x s ''currentOperatingModeCode'' =
     bareModeOr s (x ''currentOperatingModeCode'')"
  by (cases "currentModeId s") (simp_all add: applyCurrentModeId_def bareModeOr_def)

lemmas ex_defs = ex_modeSelector_def ex_modelSelector_def ex_legacyModes_def ex_legacyModels_def
  ex_snapshot_both_def ex_snapshot_bareMode_def ex_snapshot_modeOnly_def
  ex_snapshot_emptyConfig_def ex_metadata_def

lemmas merge_defs = mergeAcpSessionConfigIntoMetadata_def applyConfigOptions_def
  applyLegacyModels_def applyLegacyModes_def applyCurrentModeId_def supportedSelect_def
  SUPPORTED_CATEGORIES_def flattenConfigSelectOptions_def isOptionValue_def isOptionGroup_def
  metadataOptionOf_def selectOptionJson_def modeOptionOf_def modelOptionOf_def

subsection \<open>Selectors against legacy state\<close>

text \<open>
  C2, as the claim states it, fails: with a mode selector (current value \<open>code\<close>), the
  legacy modes state and a bare \<open>currentModeId = plan\<close> in one snapshot, the merged
  \<open>currentOperatingModeCode\<close> is \<open>plan\<close>, not the selector's current value.
\<close>

theorem C2_bare_mode_id_counterexample:
  "configOptions ex_snapshot_bareMode = Some [ex_modeSelector, ex_modelSelector] \<and>
   find (isSelectOf Mode) [ex_modeSelector, ex_modelSelector] = Some ex_modeSelector \<and>
   modes ex_snapshot_bareMode = Some ex_legacyModes \<and>
   mergeAcpSessionConfigIntoMetadata Map.empty ex_snapshot_bareMode ''currentOperatingModeCode''
     = Some (CodeValue ''plan'') \<and>
   mergeAcpSessionConfigIntoMetadata Map.empty ex_snapshot_bareMode ''currentOperatingModeCode''
     \<noteq> Some (CodeValue (currentValue ex_modeSelector))"
  by (simp add: ex_defs merge_defs isSelectOf_def)

text \<open>
  C2 (amended): when \<open>configOptions\<close> is present, the first select entry of category
  \<open>model\<close> determines \<open>models\<close> (its flattened options) and \<open>currentModelCode\<close> (its
  current value), whatever the legacy models state is; the first select entry of category
  \<open>mode\<close> determines \<open>operatingModes\<close> whatever the legacy modes state is, and
  \<open>currentOperatingModeCode\<close> is its current value unless the snapshot carries a
  non-empty bare \<open>currentModeId\<close>, which then takes its place. Flattening a plain list of
  option values maps value to code and name to value and keeps the description.
\<close>

theorem C2_selector_overrides_legacy:
  assumes "configOptions s = Some opts"
  shows "(find (isSelectOf Model) opts = Some sel \<longrightarrow>
            mergeAcpSessionConfigIntoMetadata m s ''models'' =
              Some (OptionList (flattenConfigSelectOptions (options sel))) \<and>
            mergeAcpSessionConfigIntoMetadata m s ''currentModelCode'' =
              Some (CodeValue (currentValue sel))) \<and>
         (find (isSelectOf Mode) opts = Some sel' \<longrightarrow>
            mergeAcpSessionConfigIntoMetadata m s ''operatingModes'' =
              Some (OptionList (flattenConfigSelectOptions (options sel'))) \<and>
            mergeAcpSessionConfigIntoMetadata m s ''currentOperatingModeCode'' =
              bareModeOr s (Some (CodeValue (currentValue sel')))) \<and>
         flattenConfigSelectOptions (JArr (map (\<lambda>(v, n, d). selectOptionJson v n d) vs)) =
           map (\<lambda>(v, n, d). \<lparr> code = v, value = n, description = d \<rparr>) vs"
proof (intro conjI impI)
  assume sel: "find (isSelectOf Model) opts = Some sel"
  show "mergeAcpSessionConfigIntoMetadata m s ''models'' =
          Some (OptionList (flattenConfigSelectOptions (options sel)))"
    by (simp add: merge_unfold config_present[OF assms] sel current_mode_other
          legacy_modes_other legacy_models_config cat_reads)
  show "mergeAcpSessionConfigIntoMetadata m s ''currentModelCode'' =
          Some (CodeValue (currentValue sel))"
    by (simp add: merge_unfold config_present[OF assms] sel current_mode_other
          legacy_modes_other legacy_models_config cat_reads)
next
  assume sel: "find (isSelectOf Mode) opts = Some sel'"
  show "mergeAcpSessionConfigIntoMetadata m s ''operatingModes'' =
          Some (OptionList (flattenConfigSelectOptions (options sel')))"
    by (simp add: merge_unfold config_present[OF assms] sel current_mode_other
          legacy_modes_config legacy_models_other cat_reads)
  show "mergeAcpSessionConfigIntoMetadata m s ''currentOperatingModeCode'' =
          bareModeOr s (Some (CodeValue (currentValue sel')))"
    by (simp add: merge_unfold config_present[OF assms] sel current_mode_read
          legacy_modes_config legacy_models_other cat_reads)
next
  show "flattenConfigSelectOptions (JArr (map (\<lambda>(v, n, d). selectOptionJson v n d) vs)) =
           map (\<lambda>(v, n, d). \<lparr> code = v, value = n, description = d \<rparr>) vs"
    by (simp add: flattenConfigSelectOptions_def flattenEntries_values)
qed

theorem C2_selector_overrides_legacy_witness:
  "configOptions ex_snapshot_both = Some [ex_modeSelector, ex_modelSelector] \<and>
   modes ex_snapshot_both \<noteq> None \<and> models ex_snapshot_both \<noteq> None \<and>
   find (isSelectOf Model) [ex_modeSelector, ex_modelSelector] = Some ex_modelSelector \<and>
   find (isSelectOf Mode) [ex_modeSelector, ex_modelSelector] = Some ex_modeSelector \<and>
   mergeAcpSessionConfigIntoMetadata ex_metadata ex_snapshot_both ''models'' =
     Some (OptionList [\<lparr> code = ''new-model'', value = ''New Model'', description = None \<rparr>]) \<and>
   mergeAcpSessionConfigIntoMetadata ex_metadata ex_snapshot_both ''currentModelCode'' =
     Some (CodeValue ''new-model'') \<and>
   mergeAcpSessionConfigIntoMetadata ex_metadata ex_snapshot_both ''operatingModes'' =
     Some (OptionList [\<lparr> code = ''code'', value = ''Code'', description = None \<rparr>]) \<and>
   mergeAcpSessionConfigIntoMetadata ex_metadata ex_snapshot_both ''currentOperatingModeCode'' =
     Some (CodeValue ''code'')"
proof -
  have c: "configOptions ex_snapshot_both = Some [ex_modeSelector, ex_modelSelector]"
    by (simp add: ex_snapshot_both_def)
  have f1: "find (isSelectOf Model) [ex_modeSelector, ex_modelSelector] = Some ex_modelSelector"
    by (simp add: isSelectOf_def ex_modeSelector_def ex_modelSelector_def)
  have f2: "find (isSelectOf Mode) [ex_modeSelector, ex_modelSelector] = Some ex_modeSelector"
    by (simp add: isSelectOf_def ex_modeSelector_def ex_modelSelector_def)
  have l: "modes ex_snapshot_both \<noteq> None \<and> models ex_snapshot_both \<noteq> None"
    by (simp add: ex_snapshot_both_def)
  have b: "bareModeOr ex_snapshot_both v = v" for v
    by (simp add: bareModeOr_def ex_snapshot_both_def)
  have o1: "flattenConfigSelectOptions (options ex_modelSelector) =
      [\<lparr> code = ''new-model'', value = ''New Model'', description = None \<rparr>]"
    by (simp add: ex_modelSelector_def merge_defs)
  have o2: "flattenConfigSelectOptions (options ex_modeSelector) =
      [\<lparr> code = ''code'', value = ''Code'', description = None \<rparr>]"
    by (simp add: ex_modeSelector_def merge_defs)
  have v1: "currentValue ex_modelSelector = ''new-model''" "currentValue ex_modeSelector = ''code''"
    by (simp_all add: ex_modelSelector_def ex_modeSelector_def)
  note T = C2_selector_overrides_legacy[OF c, of ex_modelSelector ex_metadata ex_modeSelector "[]"]
  from T f1 have A:
    "mergeAcpSessionConfigIntoMetadata ex_metadata ex_snapshot_both ''models'' =
       Some (OptionList (flattenConfigSelectOptions (options ex_modelSelector))) \<and>
     mergeAcpSessionConfigIntoMetadata ex_metadata ex_snapshot_both ''currentModelCode'' =
       Some (CodeValue (currentValue ex_modelSelector))"
    by blast
  from T f2 have B:
    "mergeAcpSessionConfigIntoMetadata ex_metadata ex_snapshot_both ''operatingModes'' =
       Some (OptionList (flattenConfigSelectOptions (options ex_modeSelector))) \<and>
     mergeAcpSessionConfigIntoMetadata ex_metadata ex_snapshot_both ''currentOperatingModeCode'' =
       bareModeOr ex_snapshot_both (Some (CodeValue (currentValue ex_modeSelector)))"
    by blast
  from A B c f1 f2 l show ?thesis
    unfolding b o1 o2 v1 by blast
qed

subsection \<open>Merging twice\<close>

text \<open>
  C3: merging the same snapshot into the result of a merge changes nothing:
  \<open>merge (merge m s) s = merge m s\<close> for every metadata \<open>m\<close> and snapshot \<open>s\<close>.
\<close>

theorem C3_merge_twice_fixed_point:
  "mergeAcpSessionConfigIntoMetadata (mergeAcpSessionConfigIntoMetadata m s) s =
     mergeAcpSessionConfigIntoMetadata m s"
  using keywise_twice[OF keywise_merge] .

subsection \<open>Categories without a source\<close>

text \<open>
  C4, as the claim states it, fails: the snapshot of a \<open>current_mode_update\<close> event has
  no \<open>configOptions\<close>, no modes state and no models state, yet the merged metadata keeps
  the \<open>models\<close>, \<open>currentModelCode\<close>, \<open>thoughtLevels\<close> and \<open>currentThoughtLevelCode\<close> it
  had, and gains \<open>currentOperatingModeCode\<close> from the bare \<open>currentModeId\<close>.
\<close>

theorem C4_absent_config_counterexample:
  "configOptions ex_snapshot_modeOnly = None \<and>
   modes ex_snapshot_modeOnly = None \<and> models ex_snapshot_modeOnly = None \<and>
   mergeAcpSessionConfigIntoMetadata ex_metadata ex_snapshot_modeOnly ''models'' =
     Some (OptionList [\<lparr> code = ''m1'', value = ''Model 1'', description = None \<rparr>]) \<and>
   mergeAcpSessionConfigIntoMetadata ex_metadata ex_snapshot_modeOnly ''currentModelCode'' =
     Some (CodeValue ''m1'') \<and>
   mergeAcpSessionConfigIntoMetadata ex_metadata ex_snapshot_modeOnly ''thoughtLevels'' \<noteq> None \<and>
   mergeAcpSessionConfigIntoMetadata ex_metadata ex_snapshot_modeOnly ''currentOperatingModeCode'' =
     Some (CodeValue ''plan'')"
  by (simp add: ex_defs merge_defs)

text \<open>
  C4 (amended): when the snapshot's \<open>configOptions\<close> is present (an array), a category
  with no select entry there and no legacy state in the snapshot has both its keys
  removed from the merged metadata, except that \<open>currentOperatingModeCode\<close> is the
  snapshot's bare \<open>currentModeId\<close> when that is a non-empty string. When
  \<open>configOptions\<close> is absent, a category without legacy state keeps the keys of the
  input metadata (again with \<open>currentOperatingModeCode\<close> replaced by a non-empty bare
  \<open>currentModeId\<close>).
\<close>

theorem C4_absent_categories_deleted:
  "(configOptions s = Some opts \<and> \<not> (\<exists>option \<in> set opts. isSelectOf Model option) \<and>
      models s = None \<longrightarrow>
      mergeAcpSessionConfigIntoMetadata m s ''models'' = None \<and>
      mergeAcpSessionConfigIntoMetadata m s ''currentModelCode'' = None) \<and>
   (configOptions s = Some opts \<and> \<not> (\<exists>option \<in> set opts. isSelectOf Mode option) \<and>
      modes s = None \<longrightarrow>
      mergeAcpSessionConfigIntoMetadata m s ''operatingModes'' = None \<and>
      mergeAcpSessionConfigIntoMetadata m s ''currentOperatingModeCode'' = bareModeOr s None) \<and>
   (configOptions s = Some opts \<and> \<not> (\<exists>option \<in> set opts. isSelectOf ThoughtLevel option) \<longrightarrow>
      mergeAcpSessionConfigIntoMetadata m s ''thoughtLevels'' = None \<and>
      mergeAcpSessionConfigIntoMetadata m s ''currentThoughtLevelCode'' = None) \<and>
   (configOptions s = None \<and> models s = None \<longrightarrow>
      mergeAcpSessionConfigIntoMetadata m s ''models'' = m ''models'' \<and>
      mergeAcpSessionConfigIntoMetadata m s ''currentModelCode'' = m ''currentModelCode'') \<and>
   (configOptions s = None \<and> modes s = None \<longrightarrow>
      mergeAcpSessionConfigIntoMetadata m s ''operatingModes'' = m ''operatingModes'' \<and>
      mergeAcpSessionConfigIntoMetadata m s ''currentOperatingModeCode'' =
        bareModeOr s (m ''currentOperatingModeCode'')) \<and>
   (configOptions s = None \<longrightarrow>
      mergeAcpSessionConfigIntoMetadata m s ''thoughtLevels'' = m ''thoughtLevels'' \<and>
      mergeAcpSessionConfigIntoMetadata m s ''currentThoughtLevelCode'' =
        m ''currentThoughtLevelCode'')"
proof -
  have none: "find (isSelectOf cat) opts = None"
    if "\<not> (\<exists>option \<in> set opts. isSelectOf cat option)" for cat
    using that by (simp add: find_None_iff)
  have a: "configOptions s = Some opts \<and> \<not> (\<exists>option \<in> set opts. isSelectOf Model option) \<and>
      models s = None \<longrightarrow>
      mergeAcpSessionConfigIntoMetadata m s ''models'' = None \<and>
      mergeAcpSessionConfigIntoMetadata m s ''currentModelCode'' = None"
    by (auto simp: merge_unfold config_present none current_mode_other
          legacy_modes_other legacy_models_none cat_reads)
  have b: "configOptions s = Some opts \<and> \<not> (\<exists>option \<in> set opts. isSelectOf Mode option) \<and>
      modes s = None \<longrightarrow>
      mergeAcpSessionConfigIntoMetadata m s ''operatingModes'' = None \<and>
      mergeAcpSessionConfigIntoMetadata m s ''currentOperatingModeCode'' = bareModeOr s None"
    by (auto simp: merge_unfold config_present none current_mode_other current_mode_read
          legacy_modes_none legacy_models_other cat_reads)
  have c: "configOptions s = Some opts \<and>
      \<not> (\<exists>option \<in> set opts. isSelectOf ThoughtLevel option) \<longrightarrow>
      mergeAcpSessionConfigIntoMetadata m s ''thoughtLevels'' = None \<and>
      mergeAcpSessionConfigIntoMetadata m s ''currentThoughtLevelCode'' = None"
    by (auto simp: merge_unfold config_present none current_mode_other
          legacy_modes_other legacy_models_other cat_reads)
  have d: "configOptions s = None \<and> models s = None \<longrightarrow>
      mergeAcpSessionConfigIntoMetadata m s ''models'' = m ''models'' \<and>
      mergeAcpSessionConfigIntoMetadata m s ''currentModelCode'' = m ''currentModelCode''"
    by (auto simp: merge_unfold config_absent current_mode_other
          legacy_modes_other legacy_models_none)
  have e: "configOptions s = None \<and> modes s = None \<longrightarrow>
      mergeAcpSessionConfigIntoMetadata m s ''operatingModes'' = m ''operatingModes'' \<and>
      mergeAcpSessionConfigIntoMetadata m s ''currentOperatingModeCode'' =
        bareModeOr s (m ''currentOperatingModeCode'')"
    by (auto simp: merge_unfold config_absent current_mode_other current_mode_read
          legacy_modes_none legacy_models_other)
  have f: "configOptions s = None \<longrightarrow>
      mergeAcpSessionConfigIntoMetadata m s ''thoughtLevels'' = m ''thoughtLevels'' \<and>
      mergeAcpSessionConfigIntoMetadata m s ''currentThoughtLevelCode'' =
        m ''currentThoughtLevelCode''"
    by (auto simp: merge_unfold config_absent current_mode_other
          legacy_modes_other legacy_models_other)
  from a b c d e f show ?thesis by blast
qed

theorem C4_absent_categories_deleted_witness:
  "configOptions ex_snapshot_emptyConfig = Some [] \<and>
   models ex_snapshot_emptyConfig = None \<and> modes ex_snapshot_emptyConfig = None \<and>
   ex_metadata ''models'' \<noteq> None \<and> ex_metadata ''thoughtLevels'' \<noteq> None \<and>
   mergeAcpSessionConfigIntoMetadata ex_metadata ex_snapshot_emptyConfig ''models'' = None \<and>
   mergeAcpSessionConfigIntoMetadata ex_metadata ex_snapshot_emptyConfig ''currentModelCode'' = None \<and>
   mergeAcpSessionConfigIntoMetadata ex_metadata ex_snapshot_emptyConfig ''operatingModes'' = None \<and>
   mergeAcpSessionConfigIntoMetadata ex_metadata ex_snapshot_emptyConfig ''currentOperatingModeCode''
     = None \<and>
   mergeAcpSessionConfigIntoMetadata ex_metadata ex_snapshot_emptyConfig ''thoughtLevels'' = None \<and>
   mergeAcpSessionConfigIntoMetadata ex_metadata ex_snapshot_emptyConfig ''currentThoughtLevelCode''
     = None \<and>
   configOptions ex_snapshot_modeOnly = None \<and>
   mergeAcpSessionConfigIntoMetadata ex_metadata ex_snapshot_modeOnly ''models'' =
     ex_metadata ''models''"
proof -
  have s: "configOptions ex_snapshot_emptyConfig = Some []"
    "models ex_snapshot_emptyConfig = None" "modes ex_snapshot_emptyConfig = None"
    "bareModeOr ex_snapshot_emptyConfig None = None"
    by (simp_all add: ex_snapshot_emptyConfig_def bareModeOr_def)
  have t: "configOptions ex_snapshot_modeOnly = None" "models ex_snapshot_modeOnly = None"
    by (simp_all add: ex_snapshot_modeOnly_def)
  have n: "ex_metadata ''models'' \<noteq> None \<and> ex_metadata ''thoughtLevels'' \<noteq> None"
    by (simp add: ex_metadata_def)
  show ?thesis
    using C4_absent_categories_deleted[of ex_snapshot_emptyConfig "[]" ex_metadata]
      C4_absent_categories_deleted[of ex_snapshot_modeOnly "[]" ex_metadata]
    by (simp add: s t n)
qed

subsection \<open>Frame of the merge\<close>

lemma store_result:
  "mergeAcpSessionConfigIntoMetadata_store h r s =
     (h @ [mergeAcpSessionConfigIntoMetadata (h ! r) s], length h)"
  by (simp add: mergeAcpSessionConfigIntoMetadata_store_def spreadCopy_def writeObject_def
        mergeAcpSessionConfigIntoMetadata_def Let_def case_prod_beta)

text \<open>
  C10: the merge leaves the object it is given (and every other object of the store) as
  it was and returns a new object; every key of the result other than \<open>models\<close>,
  \<open>currentModelCode\<close>, \<open>operatingModes\<close>, \<open>currentOperatingModeCode\<close>,
  \<open>thoughtLevels\<close> and \<open>currentThoughtLevelCode\<close> holds what the input metadata holds
  there (and is absent if it is absent there).
\<close>

theorem C10_merge_frame:
  assumes "r < length h"
  shows "(\<forall>i < length h. fst (mergeAcpSessionConfigIntoMetadata_store h r s) ! i = h ! i) \<and>
         snd (mergeAcpSessionConfigIntoMetadata_store h r s) \<noteq> r \<and>
         fst (mergeAcpSessionConfigIntoMetadata_store h r s)
           ! snd (mergeAcpSessionConfigIntoMetadata_store h r s) =
           mergeAcpSessionConfigIntoMetadata (h ! r) s \<and>
         (\<forall>k. k \<notin> set configKeys \<longrightarrow>
            mergeAcpSessionConfigIntoMetadata (h ! r) s k = (h ! r) k)"
  using assms by (simp add: store_result nth_append merge_other_key)

theorem C10_merge_frame_witness:
  "(0::nat) < length [ex_metadata] \<and>
   fst (mergeAcpSessionConfigIntoMetadata_store [ex_metadata] 0 ex_snapshot_both) ! 0 = ex_metadata \<and>
   snd (mergeAcpSessionConfigIntoMetadata_store [ex_metadata] 0 ex_snapshot_both) \<noteq> 0 \<and>
   ''path'' \<notin> set configKeys \<and>
   mergeAcpSessionConfigIntoMetadata ex_metadata ex_snapshot_both ''path'' =
     Some (OtherValue (JStr ''/tmp/project''))"
proof -
  have l: "(0::nat) < length [ex_metadata]" by simp
  have p: "''path'' \<notin> set configKeys" by (simp add: configKeys_def)
  have v: "ex_metadata ''path'' = Some (OtherValue (JStr ''/tmp/project''))"
    by (simp add: ex_metadata_def)
  show ?thesis
    using C10_merge_frame[OF l, of ex_snapshot_both] p v by simp
qed
section \<open>Properties of the session update handlers\<close>

lemma isThinking_iff:
  "isThinking text \<longleftrightarrow>
     (\<exists>body rest. text = ''**'' @ body @ ''**'' @ [CHR 0x0A] @ rest \<and>
        body \<noteq> [] \<and> CHR ''*'' \<notin> set body)"
proof
  assume "isThinking text"
  then obtain a b r where t: "text = a # b # r" and ab: "a = CHR ''*''" "b = CHR ''*''"
    and tw: "takeWhile (\<lambda>c. c \<noteq> CHR ''*'') r \<noteq> []"
    and dw: "starsThenNewline (dropWhile (\<lambda>c. c \<noteq> CHR ''*'') r)"
    by (auto simp: isThinking_def split: list.splits)
  from dw obtain rest where
    d: "dropWhile (\<lambda>c. c \<noteq> CHR ''*'') r = CHR ''*'' # CHR ''*'' # CHR 0x0A # rest"
    by (cases "dropWhile (\<lambda>c. c \<noteq> CHR ''*'') r" rule: starsThenNewline.cases) auto
  have r: "r = takeWhile (\<lambda>c. c \<noteq> CHR ''*'') r @ dropWhile (\<lambda>c. c \<noteq> CHR ''*'') r"
    by simp
  have ns: "CHR ''*'' \<notin> set (takeWhile (\<lambda>c. c \<noteq> CHR ''*'') r)"
    using set_takeWhileD by fastforce
  have "text = ''**'' @ takeWhile (\<lambda>c. c \<noteq> CHR ''*'') r @ ''**'' @ [CHR 0x0A] @ rest"
    using t ab r d by simp
  with tw ns show "\<exists>body rest. text = ''**'' @ body @ ''**'' @ [CHR 0x0A] @ rest \<and>
      body \<noteq> [] \<and> CHR ''*'' \<notin> set body"
    by blast
next
  assume "\<exists>body rest. text = ''**'' @ body @ ''**'' @ [CHR 0x0A] @ rest \<and>
      body \<noteq> [] \<and> CHR ''*'' \<notin> set body"
  then obtain body rest where t: "text = ''**'' @ body @ ''**'' @ [CHR 0x0A] @ rest"
    and b: "body \<noteq> []" and ns: "CHR ''*'' \<notin> set body"
    by blast
  have all: "\<forall>c \<in> set body. c \<noteq> CHR ''*''" using ns by auto
  have tw: "takeWhile (\<lambda>c. c \<noteq> CHR ''*'') (body @ ''**'' @ [CHR 0x0A] @ rest) = body"
    using all by simp
  have dw: "dropWhile (\<lambda>c. c \<noteq> CHR ''*'') (body @ ''**'' @ [CHR 0x0A] @ rest) =
      ''**'' @ [CHR 0x0A] @ rest"
    using all by simp
  show "isThinking text"
    using tw dw b unfolding t isThinking_def by simp
qed

lemma chunk_thinking:
  assumes "content update = Some (JObj kvs)" "map_of kvs ''text'' = Some (JStr t)" "isThinking t"
  shows "handleAgentMessageChunk update ctx =
     (\<lparr> handled = True, resultToolCallCount = None \<rparr>,
      ctx\<lparr> emitted := emitted ctx @
             [Event ''thinking'' (JObj [(''text'', JStr t), (''streaming'', JBool True)])] \<rparr>)"
  using assms by (simp add: handleAgentMessageChunk_def emit_def thinkingPayload_def)

lemma chunk_output:
  assumes "content update = Some (JObj kvs)" "map_of kvs ''text'' = Some (JStr t)"
    "\<not> isThinking t"
  shows "handleAgentMessageChunk update ctx =
     (\<lparr> handled = True, resultToolCallCount = None \<rparr>,
      ctx\<lparr> emitted := emitted ctx @ [ModelOutput (Some t)],
           timers := filter (\<lambda>tm. Some (fst tm) \<noteq> idleTimeout ctx) (timers ctx) @
                     [(nextTimer ctx,
                       now ctx + (case getIdleTimeout (transport ctx) of
                                    Some ms \<Rightarrow> ms | None \<Rightarrow> 500),
                       IdleTimer EmitIdleIfNoActiveToolCalls)],
           nextTimer := Suc (nextTimer ctx),
           idleTimeout := Some (nextTimer ctx) \<rparr>)"
  using assms
  by (cases "idleTimeout ctx"; cases "getIdleTimeout (transport ctx)")
     (simp_all add: handleAgentMessageChunk_def emit_def clearIdleTimeout_def clearTimeout_def
        setIdleTimeout_def setTimeout_def DEFAULT_IDLE_TIMEOUT_MS_def Let_def)

lemma find_fresh_timer:
  assumes "\<forall>tm \<in> set tms. fst tm < (h::nat)"
  shows "find (\<lambda>tm. fst tm = h) (filter P tms @ [(h, due, action)]) = Some (h, due, action)"
  using assms by (induction tms) auto

lemma fire_idle_timer:
  assumes "find (\<lambda>tm. fst tm = h) (timers c) = Some (h, due, IdleTimer EmitIdleIfNoActiveToolCalls)"
  shows "emitted (fireTimer c h) =
           emitted c @ (if activeToolCalls c = {} then [Status Idle None] else [])"
  using assms by (simp add: fireTimer_def Let_def emitIdleStatus_def emit_def)

lemmas handler_ex_defs = ex_transport_def ex_ctx_def ex_update_def ex_chunk_def
  ex_thinkingText_def ex_toolCall_emptyStatus_def ex_toolCall_completed_def

lemmas handler_defs = handleAgentMessageChunk_def handleToolCall_def startToolCall_def emit_def
  emitIdleStatus_def setTimeout_def clearTimeout_def clearIdleTimeout_def setIdleTimeout_def
  fireTimer_def isThinking_def thinkingPayload_def kindOrUnknown_def
  DEFAULT_IDLE_TIMEOUT_MS_def DEFAULT_TOOL_CALL_TIMEOUT_MS_def Let_def

text \<open>
  C8: for an \<open>agent_message_chunk\<close> update whose \<open>content.text\<close> is the string \<open>t\<close>.
  \<^enum> \<open>t\<close> passes the test exactly when it is two stars, a non-empty run without a star,
    two stars and a newline, followed by anything.
  \<^enum> If it passes, the handler's only effect is to emit the one event \<open>thinking\<close> with
    payload \<open>{text: t, streaming: true}\<close>.
  \<^enum> Otherwise the handler emits the one message \<open>model-output\<close> with \<open>textDelta = t\<close>,
    cancels the pending idle timer and arms a new one, due \<open>getIdleTimeout()\<close> (500 ms
    when the transport has no such hook) after now; it changes nothing else.
  \<^enum> That timer is pending after the call when handles are handed out in increasing
    order.
  \<^enum> Whenever such a timer expires, in whatever state the backend is by then, \<open>idle\<close> is
    emitted if the active tool-call set is empty and nothing is emitted otherwise.
\<close>

theorem C8_agent_message_chunk:
  assumes "content update = Some (JObj kvs)" and "map_of kvs ''text'' = Some (JStr t)"
  shows "(isThinking t \<longleftrightarrow>
            (\<exists>body rest. t = ''**'' @ body @ ''**'' @ [CHR 0x0A] @ rest \<and>
               body \<noteq> [] \<and> CHR ''*'' \<notin> set body)) \<and>
         (isThinking t \<longrightarrow>
            handleAgentMessageChunk update ctx =
              (\<lparr> handled = True, resultToolCallCount = None \<rparr>,
               ctx\<lparr> emitted := emitted ctx @
                 [Event ''thinking'' (JObj [(''text'', JStr t), (''streaming'', JBool True)])] \<rparr>)) \<and>
         (\<not> isThinking t \<longrightarrow>
            handleAgentMessageChunk update ctx =
              (\<lparr> handled = True, resultToolCallCount = None \<rparr>,
               ctx\<lparr> emitted := emitted ctx @ [ModelOutput (Some t)],
                    timers := filter (\<lambda>tm. Some (fst tm) \<noteq> idleTimeout ctx) (timers ctx) @
                      [(nextTimer ctx,
                        now ctx + (case getIdleTimeout (transport ctx) of
                                     Some ms \<Rightarrow> ms | None \<Rightarrow> 500),
                        IdleTimer EmitIdleIfNoActiveToolCalls)],
                    nextTimer := Suc (nextTimer ctx),
                    idleTimeout := Some (nextTimer ctx) \<rparr>)) \<and>
         (\<not> isThinking t \<and> (\<forall>tm \<in> set (timers ctx). fst tm < nextTimer ctx) \<longrightarrow>
            find (\<lambda>tm. fst tm = nextTimer ctx) (timers (snd (handleAgentMessageChunk update ctx))) =
              Some (nextTimer ctx,
                    now ctx + (case getIdleTimeout (transport ctx) of
                                 Some ms \<Rightarrow> ms | None \<Rightarrow> 500),
                    IdleTimer EmitIdleIfNoActiveToolCalls)) \<and>
         (\<forall>c h due.
            find (\<lambda>tm. fst tm = h) (timers c) = Some (h, due, IdleTimer EmitIdleIfNoActiveToolCalls) \<longrightarrow>
            emitted (fireTimer c h) =
              emitted c @ (if activeToolCalls c = {} then [Status Idle None] else []))"
proof (intro conjI impI allI)
  show "isThinking t \<longleftrightarrow>
      (\<exists>body rest. t = ''**'' @ body @ ''**'' @ [CHR 0x0A] @ rest \<and>
         body \<noteq> [] \<and> CHR ''*'' \<notin> set body)"
    by (rule isThinking_iff)
next
  assume "isThinking t"
  then show "handleAgentMessageChunk update ctx =
      (\<lparr> handled = True, resultToolCallCount = None \<rparr>,
       ctx\<lparr> emitted := emitted ctx @
         [Event ''thinking'' (JObj [(''text'', JStr t), (''streaming'', JBool True)])] \<rparr>)"
    using assms by (rule chunk_thinking[rotated 2])
next
  assume "\<not> isThinking t"
  then show "handleAgentMessageChunk update ctx =
      (\<lparr> handled = True, resultToolCallCount = None \<rparr>,
       ctx\<lparr> emitted := emitted ctx @ [ModelOutput (Some t)],
            timers := filter (\<lambda>tm. Some (fst tm) \<noteq> idleTimeout ctx) (timers ctx) @
              [(nextTimer ctx,
                now ctx + (case getIdleTimeout (transport ctx) of
                             Some ms \<Rightarrow> ms | None \<Rightarrow> 500),
                IdleTimer EmitIdleIfNoActiveToolCalls)],
            nextTimer := Suc (nextTimer ctx),
            idleTimeout := Some (nextTimer ctx) \<rparr>)"
    using assms by (rule chunk_output[rotated 2])
next
  assume a: "\<not> isThinking t \<and> (\<forall>tm \<in> set (timers ctx). fst tm < nextTimer ctx)"
  then show "find (\<lambda>tm. fst tm = nextTimer ctx)
        (timers (snd (handleAgentMessageChunk update ctx))) =
      Some (nextTimer ctx,
            now ctx + (case getIdleTimeout (transport ctx) of Some ms \<Rightarrow> ms | None \<Rightarrow> 500),
            IdleTimer EmitIdleIfNoActiveToolCalls)"
    using chunk_output[OF assms, of ctx] by (simp add: find_fresh_timer)
next
  fix c :: HandlerContext and h due :: nat
  assume "find (\<lambda>tm. fst tm = h) (timers c) =
            Some (h, due, IdleTimer EmitIdleIfNoActiveToolCalls)"
  then show "emitted (fireTimer c h) =
      emitted c @ (if activeToolCalls c = {} then [Status Idle None] else [])"
    by (rule fire_idle_timer)
qed

theorem C8_agent_message_chunk_witness:
  "content (ex_chunk ''Hello'') = Some (JObj [(''type'', JStr ''text''), (''text'', JStr ''Hello'')]) \<and>
   \<not> isThinking ''Hello'' \<and>
   emitted (snd (handleAgentMessageChunk (ex_chunk ''Hello'') ex_ctx)) =
     [ModelOutput (Some ''Hello'')] \<and>
   timers (snd (handleAgentMessageChunk (ex_chunk ''Hello'') ex_ctx)) =
     [(0, 1500, IdleTimer EmitIdleIfNoActiveToolCalls)] \<and>
   emitted (fireTimer (snd (handleAgentMessageChunk (ex_chunk ''Hello'') ex_ctx)) 0) =
     [ModelOutput (Some ''Hello''), Status Idle None] \<and>
   emitted (fireTimer
     ((snd (handleAgentMessageChunk (ex_chunk ''Hello'') ex_ctx))\<lparr> activeToolCalls := {''t1''} \<rparr>) 0) =
     [ModelOutput (Some ''Hello'')] \<and>
   isThinking ex_thinkingText \<and>
   snd (handleAgentMessageChunk (ex_chunk ex_thinkingText) ex_ctx) =
     ex_ctx\<lparr> emitted :=
       [Event ''thinking'' (JObj [(''text'', JStr ex_thinkingText), (''streaming'', JBool True)])] \<rparr>"
proof -
  have c1: "content (ex_chunk ''Hello'') =
      Some (JObj [(''type'', JStr ''text''), (''text'', JStr ''Hello'')])"
    by (simp add: handler_ex_defs)
  have m1: "map_of [(''type'', JStr ''text''), (''text'', JStr ''Hello'')] ''text'' =
      Some (JStr ''Hello'')"
    by simp
  have n1: "\<not> isThinking ''Hello''"
    by (simp add: isThinking_def)
  have c2: "content (ex_chunk ex_thinkingText) =
      Some (JObj [(''type'', JStr ''text''), (''text'', JStr ex_thinkingText)])"
    by (simp add: ex_chunk_def ex_update_def)
  have m2: "map_of [(''type'', JStr ''text''), (''text'', JStr ex_thinkingText)] ''text'' =
      Some (JStr ex_thinkingText)"
    by simp
  have n2: "isThinking ex_thinkingText"
    by (simp add: isThinking_def ex_thinkingText_def)
  note A = C8_agent_message_chunk[OF c1 m1, of ex_ctx]
  note B = C8_agent_message_chunk[OF c2 m2, of ex_ctx]
  from A n1 have r1: "handleAgentMessageChunk (ex_chunk ''Hello'') ex_ctx =
      (\<lparr> handled = True, resultToolCallCount = None \<rparr>,
       ex_ctx\<lparr> emitted := emitted ex_ctx @ [ModelOutput (Some ''Hello'')],
            timers := filter (\<lambda>tm. Some (fst tm) \<noteq> idleTimeout ex_ctx) (timers ex_ctx) @
              [(nextTimer ex_ctx,
                now ex_ctx + (case getIdleTimeout (transport ex_ctx) of
                             Some ms \<Rightarrow> ms | None \<Rightarrow> 500),
                IdleTimer EmitIdleIfNoActiveToolCalls)],
            nextTimer := Suc (nextTimer ex_ctx),
            idleTimeout := Some (nextTimer ex_ctx) \<rparr>)"
    by blast
  from B n2 have r2: "handleAgentMessageChunk (ex_chunk ex_thinkingText) ex_ctx =
      (\<lparr> handled = True, resultToolCallCount = None \<rparr>,
       ex_ctx\<lparr> emitted := emitted ex_ctx @
         [Event ''thinking'' (JObj [(''text'', JStr ex_thinkingText), (''streaming'', JBool True)])] \<rparr>)"
    by blast
  have e: "emitted ex_ctx = []" "timers ex_ctx = []" "nextTimer ex_ctx = 0" "now ex_ctx = 1000"
    "idleTimeout ex_ctx = None" "getIdleTimeout (transport ex_ctx) = None"
    "activeToolCalls ex_ctx = {}"
    by (simp_all add: ex_ctx_def ex_transport_def)
  let ?c = "snd (handleAgentMessageChunk (ex_chunk ''Hello'') ex_ctx)"
  have fresh: "\<forall>tm \<in> set (timers ex_ctx). fst tm < nextTimer ex_ctx"
    by (simp add: e)
  from A n1 fresh have pending: "find (\<lambda>tm. fst tm = nextTimer ex_ctx) (timers ?c) =
      Some (nextTimer ex_ctx,
            now ex_ctx + (case getIdleTimeout (transport ex_ctx) of Some ms \<Rightarrow> ms | None \<Rightarrow> 500),
            IdleTimer EmitIdleIfNoActiveToolCalls)"
    by blast
  from A have fire: "\<And>c h due.
      find (\<lambda>tm. fst tm = h) (timers c) = Some (h, due, IdleTimer EmitIdleIfNoActiveToolCalls) \<Longrightarrow>
      emitted (fireTimer c h) =
        emitted c @ (if activeToolCalls c = {} then [Status Idle None] else [])"
    by blast
  have f1: "emitted (fireTimer ?c 0) = [ModelOutput (Some ''Hello''), Status Idle None]"
    using fire[of 0 ?c, OF pending[unfolded e]] by (simp add: r1 e)
  have pending': "find (\<lambda>tm. fst tm = 0) (timers (?c\<lparr> activeToolCalls := {''t1''} \<rparr>)) =
      Some (0, 1000 + (case None of Some ms \<Rightarrow> ms | None \<Rightarrow> 500),
            IdleTimer EmitIdleIfNoActiveToolCalls)"
    using pending[unfolded e] by simp
  have f2: "emitted (fireTimer (?c\<lparr> activeToolCalls := {''t1''} \<rparr>) 0) =
      [ModelOutput (Some ''Hello'')]"
    using fire[OF pending'] by (simp add: r1 e)
  show ?thesis
    using c1 n1 n2 f1 f2 by (simp add: r1 r2 e)
qed

text \<open>
  C9, as the claim states it, fails for a status that is present but empty: \<open>!status\<close>
  is then true, the update counts as in progress and the tool call is started.
\<close>

theorem C9_empty_status_counterexample:
  "toolCallId ex_toolCall_emptyStatus = Some ''t1'' \<and>
   status ex_toolCall_emptyStatus = Some [] \<and>
   status ex_toolCall_emptyStatus \<noteq> Some ''in_progress'' \<and>
   status ex_toolCall_emptyStatus \<noteq> Some ''pending'' \<and>
   fst (handleToolCall ex_toolCall_emptyStatus ex_ctx) =
     \<lparr> handled = True, resultToolCallCount = None \<rparr> \<and>
   activeToolCalls (snd (handleToolCall ex_toolCall_emptyStatus ex_ctx)) = {''t1''} \<and>
   emitted (snd (handleToolCall ex_toolCall_emptyStatus ex_ctx)) =
     [Status Running None, ToolCall ''read'' (JObj []) ''t1''] \<and>
   timers (snd (handleToolCall ex_toolCall_emptyStatus ex_ctx)) =
     [(0, 121000, ToolCallTimer ''t1'')] \<and>
   toolCallStartTimes (snd (handleToolCall ex_toolCall_emptyStatus ex_ctx)) ''t1'' = Some 1000 \<and>
   toolCallTimeouts (snd (handleToolCall ex_toolCall_emptyStatus ex_ctx)) ''t1'' = Some 0 \<and>
   toolCallIdToNameMap (snd (handleToolCall ex_toolCall_emptyStatus ex_ctx)) ''t1'' = Some ''read''"
  by (simp add: handler_ex_defs handler_defs)

text \<open>
  C9 (amended): for every \<open>tool_call\<close> update whose status is a non-empty string other
  than \<open>in_progress\<close> and \<open>pending\<close>, with or without a \<open>toolCallId\<close>,
  \<open>handleToolCall\<close> reports \<open>handled: false\<close> and leaves the whole context as it was:
  no message emitted, no timer set, and the active set, the start-time map, the timeout
  map and the id-to-name map unchanged.
\<close>

theorem C9_tool_call_not_in_progress:
  assumes "status update = Some s" and "s \<noteq> []"
    and "s \<noteq> ''in_progress''" and "s \<noteq> ''pending''"
  shows "handleToolCall update ctx = (\<lparr> handled = False, resultToolCallCount = None \<rparr>, ctx)"
  using assms by (simp add: handleToolCall_def)

theorem C9_tool_call_not_in_progress_witness:
  "status ex_toolCall_completed = Some ''completed'' \<and>
   toolCallId ex_toolCall_completed = Some ''t1'' \<and>
   handleToolCall ex_toolCall_completed ex_ctx =
     (\<lparr> handled = False, resultToolCallCount = None \<rparr>, ex_ctx)"
proof -
  have s: "status ex_toolCall_completed = Some ''completed''"
    and t: "toolCallId ex_toolCall_completed = Some ''t1''"
    by (simp_all add: ex_toolCall_completed_def ex_update_def)
  show ?thesis
    using C9_tool_call_not_in_progress[OF s, of ex_ctx] s t by simp
qed

section \<open>Properties of the backend\<close>

subsection \<open>Retry and backoff\<close>

lemma withRetryFrom_exhausted:
  "\<not> attempt \<le> maxAttempts opts \<Longrightarrow>
   withRetryFrom operation opts attempt lastErr ds s =
     \<lparr> result = Inl lastErr, attempts = attempt - 1, delays = ds, final = s \<rparr>"
  by (subst withRetryFrom.simps) simp

lemma withRetryFrom_returned:
  "attempt \<le> maxAttempts opts \<Longrightarrow> operation s = (Inr v, s') \<Longrightarrow>
   withRetryFrom operation opts attempt lastErr ds s =
     \<lparr> result = Inr v, attempts = attempt, delays = ds, final = s' \<rparr>"
  by (subst withRetryFrom.simps) simp

lemma withRetryFrom_failed:
  "attempt \<le> maxAttempts opts \<Longrightarrow> operation s = (Inl error, s') \<Longrightarrow>
   withRetryFrom operation opts attempt lastErr ds s =
     (if attempt < maxAttempts opts \<and>
         (case shouldRetry opts of Some f \<Rightarrow> f s' error | None \<Rightarrow> True)
      then withRetryFrom operation opts (Suc attempt) (Some error)
             (ds @ [min (baseDelayMs opts * 2 ^ (attempt - 1)) (maxDelayMs opts)]) s'
      else \<lparr> result = Inl (Some error), attempts = attempt, delays = ds, final = s' \<rparr>)"
  by (subst withRetryFrom.simps) simp

lemma withRetryFrom_shape:
  "1 \<le> a \<Longrightarrow>
   delays (withRetryFrom operation opts a lastErr ds s) =
     ds @ map (\<lambda>k. min (baseDelayMs opts * 2 ^ k) (maxDelayMs opts))
            [a - 1 ..< attempts (withRetryFrom operation opts a lastErr ds s) - 1] \<and>
   (a \<le> maxAttempts opts \<longrightarrow>
      a \<le> attempts (withRetryFrom operation opts a lastErr ds s) \<and>
      attempts (withRetryFrom operation opts a lastErr ds s) \<le> maxAttempts opts)"
proof (induction operation opts a lastErr ds s rule: withRetryFrom.induct)
  case (1 operation opts attempt lastError ds s)
  show ?case
  proof (cases "attempt \<le> maxAttempts opts")
    case False
    then show ?thesis by (simp add: withRetryFrom_exhausted)
  next
    case le: True
    obtain r s' where op: "operation s = (r, s')" by (cases "operation s")
    show ?thesis
    proof (cases r)
      case (Inr v)
      with le op show ?thesis by (simp add: withRetryFrom_returned)
    next
      case (Inl error)
      with op have op': "operation s = (Inl error, s')" by simp
      show ?thesis
      proof (cases "attempt < maxAttempts opts \<and>
                    (case shouldRetry opts of Some f \<Rightarrow> f s' error | None \<Rightarrow> True)")
        case False
        show ?thesis
          using le by (simp only: withRetryFrom_failed[where operation=operation and s=s, OF le op'] if_not_P[OF False]) simp
      next
        case True
        let ?d = "min (baseDelayMs opts * 2 ^ (attempt - 1)) (maxDelayMs opts)"
        let ?run = "withRetryFrom operation opts (Suc attempt) (Some error) (ds @ [?d]) s'"
        have eq: "withRetryFrom operation opts attempt lastError ds s = ?run"
          by (simp only: withRetryFrom_failed[where operation=operation and s=s, OF le op'] if_P[OF True])
        have IH: "delays ?run = (ds @ [?d]) @ map (\<lambda>k. min (baseDelayMs opts * 2 ^ k) (maxDelayMs opts))
              [Suc attempt - 1 ..< attempts ?run - 1] \<and>
            (Suc attempt \<le> maxAttempts opts \<longrightarrow> Suc attempt \<le> attempts ?run \<and> attempts ?run \<le> maxAttempts opts)"
          using "1.IH"[OF le op'[symmetric] refl True] by simp
        from True have sa: "Suc attempt \<le> maxAttempts opts" by simp
        with IH have b: "Suc attempt \<le> attempts ?run" "attempts ?run \<le> maxAttempts opts" by simp_all
        have "[attempt - 1 ..< attempts ?run - 1] = (attempt - 1) # [attempt ..< attempts ?run - 1]"
          using b "1.prems" by (simp add: upt_conv_Cons)
        with IH b "1.prems" show ?thesis
          unfolding eq by simp
      qed
    qed
  qed
qed

lemma withRetry_shape:
  "delays (withRetry operation opts s) =
     map (\<lambda>k. min (baseDelayMs opts * 2 ^ k) (maxDelayMs opts))
       [0 ..< attempts (withRetry operation opts s) - 1] \<and>
   (1 \<le> maxAttempts opts \<longrightarrow>
      1 \<le> attempts (withRetry operation opts s) \<and>
      attempts (withRetry operation opts s) \<le> maxAttempts opts)"
  using withRetryFrom_shape[of 1 operation opts None "[]" s]
  by (simp add: withRetry_def)

lemma handshakeRetry_simps:
  "maxAttempts handshakeRetry = 3" "baseDelayMs handshakeRetry = 1000"
  "maxDelayMs handshakeRetry = 5000"
  "shouldRetry handshakeRetry = Some (\<lambda>st error. \<not> isNonRetryableStartupError st error)"
  by (simp_all add: handshakeRetry_def RETRY_CONFIG_def)

text \<open>
  C6: whatever the handshake operation does (\<open>initialize\<close> and \<open>newSession\<close> are both run
  through \<open>withRetry\<close> with these options), it is attempted at least once and at most 3
  times; a delay follows every attempt but the last, and the delay after the \<open>k\<close>-th
  attempt is \<open>min (1000 * 2^(k-1)) 5000\<close> milliseconds; so the delays of one operation add
  up to at most 1000 + 2000 milliseconds, which is below the 1 + 2 + 4 seconds of the claim.
\<close>

theorem C6_handshake_retry_backoff:
  "1 \<le> attempts (withRetry operation handshakeRetry s) \<and>
   attempts (withRetry operation handshakeRetry s) \<le> 3 \<and>
   length (delays (withRetry operation handshakeRetry s)) =
     attempts (withRetry operation handshakeRetry s) - 1 \<and>
   (\<forall>k. 1 \<le> k \<and> k < attempts (withRetry operation handshakeRetry s) \<longrightarrow>
      delays (withRetry operation handshakeRetry s) ! (k - 1) = min (1000 * 2 ^ (k - 1)) 5000) \<and>
   sum_list (delays (withRetry operation handshakeRetry s)) \<le> 1000 + 2000 \<and>
   sum_list (delays (withRetry operation handshakeRetry s)) \<le> 1000 + 2000 + 4000"
proof -
  let ?run = "withRetry operation handshakeRetry s"
  have d: "delays ?run = map (\<lambda>k. min (1000 * 2 ^ k) 5000) [0 ..< attempts ?run - 1]"
    and a: "1 \<le> attempts ?run" "attempts ?run \<le> 3"
    using withRetry_shape[of operation handshakeRetry s] by (simp_all add: handshakeRetry_simps)
  have len: "length (delays ?run) = attempts ?run - 1"
    by (simp add: d)
  have nth: "delays ?run ! (k - 1) = min (1000 * 2 ^ (k - 1)) 5000"
    if "1 \<le> k \<and> k < attempts ?run" for k
  proof -
    from that have "k - 1 < attempts ?run - 1" by arith
    then show ?thesis by (subst d) simp
  qed
  from a have "attempts ?run = 1 \<or> attempts ?run = 2 \<or> attempts ?run = 3" by arith
  then have s: "sum_list (delays ?run) \<le> 1000 + 2000"
  proof (elim disjE)
    assume "attempts ?run = 1"
    then show ?thesis by (subst d) simp
  next
    assume "attempts ?run = 2"
    then show ?thesis by (subst d) (simp add: upt_conv_Cons)
  next
    assume "attempts ?run = 3"
    then show ?thesis by (subst d) (simp add: upt_conv_Cons)
  qed
  from a len nth s show ?thesis by simp
qed

lemma showNat_60000: "showNat 60000 = ''60000''"
  by (simp add: showNat.simps digitChar_def)

lemma silent_attempt:
  "initializeScript st = [] \<Longrightarrow> startupFailure st = None \<Longrightarrow>
   initializeAttempt st = (Inl (TimeoutError (timeoutMessage ''Initialize'' st)), st)"
  by (simp add: initializeAttempt_def raceOutcome_def)

theorem C6_handshake_retry_backoff_witness:
  "attempts (withRetry initializeAttempt handshakeRetry ex_startup) = 3 \<and>
   delays (withRetry initializeAttempt handshakeRetry ex_startup) = [1000, 2000] \<and>
   delays (withRetry initializeAttempt handshakeRetry ex_startup) ! 0 = min (1000 * 2 ^ 0) 5000 \<and>
   delays (withRetry initializeAttempt handshakeRetry ex_startup) ! 1 = min (1000 * 2 ^ 1) 5000 \<and>
   sum_list (delays (withRetry initializeAttempt handshakeRetry ex_startup)) = 3000"
proof -
  let ?e = "TimeoutError (timeoutMessage ''Initialize'' ex_startup)"
  let ?run = "withRetry initializeAttempt handshakeRetry ex_startup"
  have op: "initializeAttempt ex_startup = (Inl ?e, ex_startup)"
    by (rule silent_attempt) (simp_all add: ex_startup_def)
  have retry: "\<not> isNonRetryableStartupError ex_startup ?e"
    by (simp add: isNonRetryableStartupError_def ex_startup_def)
  have run: "?run =
      \<lparr> result = Inl (Some ?e), attempts = 3, delays = [1000, 2000], final = ex_startup \<rparr>"
    unfolding withRetry_def
    by (simp add: withRetryFrom_failed[where operation = initializeAttempt and s = ex_startup, OF _ op]
          handshakeRetry_simps retry)
  have a3: "attempts ?run = 3" by (simp add: run)
  note T = C6_handshake_retry_backoff[of initializeAttempt ex_startup]
  from T have k: "\<And>k. 1 \<le> k \<and> k < attempts ?run \<Longrightarrow>
      delays ?run ! (k - 1) = min (1000 * 2 ^ (k - 1)) 5000"
    by blast
  from k[of 1] a3 have d0: "delays ?run ! 0 = min (1000 * 2 ^ 0) 5000" by simp
  from k[of 2] a3 have d1: "delays ?run ! 1 = min (1000 * 2 ^ 1) 5000" by simp
  from a3 d0 d1 show ?thesis
    by (simp add: run)
qed

subsection \<open>Startup failures\<close>

lemma procEvent_inv:
  "startupInv st \<Longrightarrow> startupFailure st = None \<Longrightarrow> startupInv (procEvent st ev)"
proof (cases ev)
  case (ProcError err)
  assume "startupInv st" "startupFailure st = None"
  then show ?thesis
    by (simp add: ProcError startupInv_def signalStartupFailure_def backendEmit_def Let_def)
next
  case (ProcExit exitCode)
  assume "startupInv st" "startupFailure st = None"
  then show ?thesis
    by (cases exitCode)
       (auto simp: ProcExit startupInv_def signalStartupFailure_def backendEmit_def)
qed

lemma processEvents_inv: "startupInv st \<Longrightarrow> startupInv (processEvents st evs)"
proof (induction evs arbitrary: st)
  case Nil
  then show ?case by simp
next
  case (Cons ev evs)
  show ?case
  proof (cases "startupFailure st = None")
    case True
    with Cons show ?thesis by (simp add: procEvent_inv)
  next
    case False
    with Cons show ?thesis by simp
  qed
qed

lemma raceOutcome_failure:
  "startupFailure st = Some e \<Longrightarrow> raceOutcome st opName out = Inl e"
  by (simp add: raceOutcome_def)

lemma initializeAttempt_inv:
  assumes "startupInv st" and "initializeAttempt st = (r, st')"
  shows "startupInv st' \<and> (\<forall>e. startupFailure st' = Some e \<longrightarrow> r = Inl e)"
proof (cases "initializeScript st")
  case Nil
  with assms show ?thesis
    by (auto simp: initializeAttempt_def raceOutcome_failure)
next
  case (Cons a rest)
  obtain evs out where a: "a = (evs, out)" by (cases a)
  have i: "startupInv (st\<lparr> initializeScript := rest \<rparr>)"
    using assms(1) by (simp add: startupInv_def)
  from assms(2) Cons a
  have r: "r = raceOutcome (processEvents (st\<lparr> initializeScript := rest \<rparr>) evs) ''Initialize'' out"
    and s: "st' = processEvents (st\<lparr> initializeScript := rest \<rparr>) evs"
    by (auto simp: initializeAttempt_def Let_def)
  show ?thesis
    using processEvents_inv[OF i, of evs] unfolding r s
    by (auto simp: raceOutcome_failure)
qed

lemma newSessionAttempt_inv:
  assumes "startupInv st" and "newSessionAttempt st = (r, st')"
  shows "startupInv st' \<and> (\<forall>e. startupFailure st' = Some e \<longrightarrow> r = Inl e)"
proof (cases "newSessionScript st")
  case Nil
  with assms show ?thesis
    by (auto simp: newSessionAttempt_def raceOutcome_failure)
next
  case (Cons a rest)
  obtain evs out where a: "a = (evs, out)" by (cases a)
  have i: "startupInv (st\<lparr> newSessionScript := rest \<rparr>)"
    using assms(1) by (simp add: startupInv_def)
  from assms(2) Cons a
  have r: "r = raceOutcome (processEvents (st\<lparr> newSessionScript := rest \<rparr>) evs) ''New session'' out"
    and s: "st' = processEvents (st\<lparr> newSessionScript := rest \<rparr>) evs"
    by (auto simp: newSessionAttempt_def Let_def)
  show ?thesis
    using processEvents_inv[OF i, of evs] unfolding r s
    by (auto simp: raceOutcome_failure)
qed

lemma withRetryFrom_inv:
  fixes operation :: "StartupState \<Rightarrow> (Error + 'a) \<times> StartupState"
  shows "(\<And>st r st'. startupInv st \<Longrightarrow> operation st = (r, st') \<Longrightarrow>
             startupInv st' \<and> (\<forall>e. startupFailure st' = Some e \<longrightarrow> r = Inl e)) \<Longrightarrow>
     startupInv s \<Longrightarrow> a \<le> maxAttempts opts \<Longrightarrow>
     startupInv (final (withRetryFrom operation opts a lastErr ds s)) \<and>
     result (withRetryFrom operation opts a lastErr ds s) \<noteq> Inl None \<and>
     (\<forall>e f. result (withRetryFrom operation opts a lastErr ds s) = Inl (Some e) \<longrightarrow>
        startupFailure (final (withRetryFrom operation opts a lastErr ds s)) = Some f \<longrightarrow> f = e)"
proof (induction operation opts a lastErr ds s rule: withRetryFrom.induct)
  case (1 operation opts attempt lastError ds s)
  note le = "1.prems"(3)
  obtain r s' where op: "operation s = (r, s')" by (cases "operation s")
  from "1.prems"(1)[OF "1.prems"(2) op]
  have inv': "startupInv s'" and fail: "\<And>e. startupFailure s' = Some e \<Longrightarrow> r = Inl e"
    by simp_all
  show ?case
  proof (cases r)
    case (Inr v)
    with op have op': "operation s = (Inr v, s')" by simp
    show ?thesis
      by (simp add: withRetryFrom_returned[where operation = operation and s = s, OF le op'] inv')
  next
    case (Inl error)
    with op have op': "operation s = (Inl error, s')" by simp
    show ?thesis
    proof (cases "attempt < maxAttempts opts \<and>
                  (case shouldRetry opts of Some f \<Rightarrow> f s' error | None \<Rightarrow> True)")
      case False
      have eq: "withRetryFrom operation opts attempt lastError ds s =
          \<lparr> result = Inl (Some error), attempts = attempt, delays = ds, final = s' \<rparr>"
        by (simp only: withRetryFrom_failed[where operation = operation and s = s, OF le op']
              if_not_P[OF False])
      show ?thesis
        unfolding eq using inv' fail Inl by auto
    next
      case True
      have eq: "withRetryFrom operation opts attempt lastError ds s =
          withRetryFrom operation opts (Suc attempt) (Some error)
            (ds @ [min (baseDelayMs opts * 2 ^ (attempt - 1)) (maxDelayMs opts)]) s'"
        by (simp only: withRetryFrom_failed[where operation = operation and s = s, OF le op']
              if_P[OF True])
      from True have "Suc attempt \<le> maxAttempts opts" by simp
      from "1.IH"[OF le op[symmetric] Inl True "1.prems"(1) inv' this]
      show ?thesis
        unfolding eq by simp
    qed
  qed
qed

lemma withRetry_inv:
  fixes operation :: "StartupState \<Rightarrow> (Error + 'a) \<times> StartupState"
  assumes "\<And>st r st'. startupInv st \<Longrightarrow> operation st = (r, st') \<Longrightarrow>
             startupInv st' \<and> (\<forall>e. startupFailure st' = Some e \<longrightarrow> r = Inl e)"
    and "startupInv s"
  shows "startupInv (final (withRetry operation handshakeRetry s)) \<and>
     result (withRetry operation handshakeRetry s) \<noteq> Inl None \<and>
     (\<forall>e f. result (withRetry operation handshakeRetry s) = Inl (Some e) \<longrightarrow>
        startupFailure (final (withRetry operation handshakeRetry s)) = Some f \<longrightarrow> f = e)"
  unfolding withRetry_def
  by (rule withRetryFrom_inv[OF assms(1) assms(2)]) (simp_all add: handshakeRetry_simps)

lemma inv_reported:
  assumes "startupInv st" and "\<forall>f. startupFailure st = Some f \<longrightarrow> f = e"
  shows "\<not> disposed st \<and>
     (startupStatusErrorEmitted st \<longrightarrow>
        delivered st \<noteq> [] \<and> last (delivered st) = Status StatusError (Some (errorMessage e)))"
  using assms by (auto simp: startupInv_def)

lemma startSessionTry_failure:
  assumes "\<not> disposed st" and "\<not> startupStatusErrorEmitted st"
    and "startSessionTry st = (Inl thrown, st')"
  shows "\<exists>e. thrown = Some e \<and> \<not> disposed st' \<and>
     (startupStatusErrorEmitted st' \<longrightarrow>
        delivered st' \<noteq> [] \<and> last (delivered st') = Status StatusError (Some (errorMessage e)))"
proof (cases "pipesCreated st")
  case False
  with assms show ?thesis by (auto simp: startSessionTry_def)
next
  case True
  let ?st0 = "st\<lparr> startupFailure := None, startupFailureSettled := False \<rparr>"
  let ?run1 = "withRetry initializeAttempt handshakeRetry ?st0"
  have i0: "startupInv ?st0"
    using assms(1,2) by (simp add: startupInv_def)
  note r1 = withRetry_inv[of initializeAttempt, OF initializeAttempt_inv i0]
  show ?thesis
  proof (cases "result ?run1")
    case (Inl err)
    with assms(3) True have t: "thrown = err" and s: "st' = final ?run1"
      by (simp_all add: startSessionTry_def Let_def)
    from r1 Inl have "err \<noteq> None" by auto
    then obtain e where e: "err = Some e" by (cases err) auto
    from r1 Inl e have "\<forall>f. startupFailure (final ?run1) = Some f \<longrightarrow> f = e" by simp
    from inv_reported[OF conjunct1[OF r1] this] t s e show ?thesis by simp
  next
    case (Inr initializeResponse)
    let ?run2 = "withRetry newSessionAttempt handshakeRetry (final ?run1)"
    note r2 = withRetry_inv[of newSessionAttempt, OF newSessionAttempt_inv conjunct1[OF r1]]
    show ?thesis
    proof (cases "result ?run2")
      case (Inl err)
      with assms(3) True Inr have t: "thrown = err" and s: "st' = final ?run2"
        by (simp_all add: startSessionTry_def Let_def)
      from r2 Inl have "err \<noteq> None" by auto
      then obtain e where e: "err = Some e" by (cases err) auto
      from r2 Inl e have "\<forall>f. startupFailure (final ?run2) = Some f \<longrightarrow> f = e" by simp
      from inv_reported[OF conjunct1[OF r2] this] t s e show ?thesis by simp
    next
      case (Inr sessionResponse)
      with assms(3) True \<open>result ?run1 = Inr initializeResponse\<close> show ?thesis
        by (simp add: startSessionTry_def Let_def)
    qed
  qed
qed

lemma startSession_failure:
  assumes "\<not> disposed st" and "startSession st = (Inl thrown, st')"
  shows "\<exists>e. thrown = Some e \<and> delivered st' \<noteq> [] \<and>
           last (delivered st') = Status StatusError (Some (errorMessage e))"
proof -
  let ?st2 = "(backendEmit st (Status Starting None))\<lparr> startupStatusErrorEmitted := False \<rparr>"
  obtain r st'' where t: "startSessionTry ?st2 = (r, st'')" by (cases "startSessionTry ?st2")
  have d: "\<not> disposed ?st2" "\<not> startupStatusErrorEmitted ?st2"
    using assms(1) by (simp_all add: backendEmit_def)
  show ?thesis
  proof (cases r)
    case (Inr sid)
    with assms t show ?thesis by (simp add: startSession_def Let_def)
  next
    case (Inl err)
    with assms t have th: "thrown = err"
      and st': "st' = (if \<not> startupStatusErrorEmitted st''
                      then backendEmit st'' (Status StatusError (Some (thrownDetail err)))
                      else st'')"
      by (simp_all add: startSession_def Let_def)
    from startSessionTry_failure[OF d] t Inl obtain e where e: "err = Some e"
      and nd: "\<not> disposed st''"
      and rep: "startupStatusErrorEmitted st'' \<longrightarrow>
        delivered st'' \<noteq> [] \<and> last (delivered st'') = Status StatusError (Some (errorMessage e))"
      by blast
    show ?thesis
      using th st' e nd rep by (auto simp: backendEmit_def thrownDetail_def)
  qed
qed

lemma startSession_rethrows:
  assumes "\<not> disposed st" and "pipesCreated st"
  shows "(result (withRetry initializeAttempt handshakeRetry (handshakeEntry st)) = Inl thrown \<longrightarrow>
            fst (startSession st) = Inl thrown) \<and>
         (result (withRetry initializeAttempt handshakeRetry (handshakeEntry st)) = Inr r \<and>
          result (withRetry newSessionAttempt handshakeRetry
             (final (withRetry initializeAttempt handshakeRetry (handshakeEntry st)))) = Inl thrown \<longrightarrow>
            fst (startSession st) = Inl thrown)"
proof -
  have e: "(backendEmit st (Status Starting None))
             \<lparr> startupStatusErrorEmitted := False, startupFailure := None,
               startupFailureSettled := False \<rparr> = handshakeEntry st"
    by (simp add: handshakeEntry_def)
  have p: "pipesCreated (backendEmit st (Status Starting None))"
    using assms by (simp add: backendEmit_def)
  show ?thesis
    using assms p
    by (auto simp: startSession_def startSessionTry_def Let_def e split: sum.splits prod.splits)
qed

lemma non_retryable_stops:
  assumes "attempt \<le> 3" and "operation s = (Inl error, s')"
    and "errorCode error = Some ''ENOENT'' \<or> errorCode error = Some ''EACCES'' \<or>
         errorCode error = Some ''EPIPE'' \<or> startupFailure s' = Some error"
  shows "withRetryFrom operation handshakeRetry attempt lastErr ds s =
           \<lparr> result = Inl (Some error), attempts = attempt, delays = ds, final = s' \<rparr>"
proof -
  have n: "isNonRetryableStartupError s' error"
    using assms(3) by (auto simp: isNonRetryableStartupError_def)
  have le: "attempt \<le> maxAttempts handshakeRetry"
    using assms(1) by (simp add: handshakeRetry_simps)
  show ?thesis
    using n
    by (simp add: withRetryFrom_failed[where operation = operation and s = s, OF le assms(2)]
          handshakeRetry_simps)
qed

lemmas startup_ex_defs = ex_startup_def ex_enoent_def ex_startup_enoent_def ex_epipe_def
  ex_startup_epipe_def ex_startup_exit_def

lemmas startup_defs = startSession_def startSessionTry_def withRetry_def withRetryFrom.simps
  handshakeRetry_simps initializeAttempt_def newSessionAttempt_def raceOutcome_def
  isNonRetryableStartupError_def signalStartupFailure_def backendEmit_def thrownDetail_def
  timeoutMessage_def handshakeEntry_def emitInitialSessionMetadata_def Let_def

lemma ex_enoent_run:
  "startSession ex_startup_enoent =
     (Inl (Some ex_enoent),
      ex_startup\<lparr> delivered := [Status Starting None,
                                 Status StatusError (Some ''spawn gemini ENOENT'')],
                  startupFailure := Some ex_enoent, startupFailureSettled := True,
                  startupStatusErrorEmitted := True \<rparr>)"
  by (simp add: startup_ex_defs startup_defs)

lemma ex_epipe_run:
  "startSession ex_startup_epipe =
     (Inl (Some ex_epipe),
      ex_startup\<lparr> delivered := [Status Starting None, Status StatusError (Some ''write EPIPE'')] \<rparr>)"
  by (simp add: startup_ex_defs startup_defs)

lemma showInt_1: "showInt 1 = ''1''"
  by (simp add: showInt_def showNat.simps digitChar_def)

lemma ex_exit_run:
  "startSession ex_startup_exit =
     (Inl (Some (ExitError 1)),
      ex_startup\<lparr> delivered := [Status Starting None,
                                 Status Stopped (Some ''Exit code: 1''),
                                 Status StatusError (Some ''Exit code: 1'')],
                  startupFailure := Some (ExitError 1), startupFailureSettled := True \<rparr>)"
  by (simp add: startup_ex_defs startup_defs showInt_1)

text \<open>
  C7, in three parts.
  \<^enum> A handshake attempt (the attempt numbered \<open>attempt\<close> of either operation, from any
    state) that fails with an error whose code is \<open>ENOENT\<close>, \<open>EACCES\<close> or \<open>EPIPE\<close>, or
    with the error stored as the startup failure by the child process's \<open>error\<close> or
    \<open>exit\<close> handler, ends \<open>withRetry\<close>: that attempt is the last one, no delay is
    added, and the error is thrown.
  \<^enum> \<open>startSession\<close> rethrows what the retry loop of \<open>initialize\<close>, or after it of
    \<open>newSession\<close>, throws.
  \<^enum> Whenever \<open>startSession\<close> fails on a backend that is not disposed, the last message
    it has delivered is the status \<open>error\<close> whose detail is the message of the error it
    throws. (The catch block delivers it, unless the \<open>error\<close> handler of the child
    process already did for this failure; the catch block does not deliver it twice.)
\<close>

theorem C7_non_retryable_startup_error:
  fixes operation :: "StartupState \<Rightarrow> (Error + 'a) \<times> StartupState"
  shows "(attempt \<le> 3 \<and> operation s = (Inl error, s') \<and>
            (errorCode error = Some ''ENOENT'' \<or> errorCode error = Some ''EACCES'' \<or>
             errorCode error = Some ''EPIPE'' \<or> startupFailure s' = Some error) \<longrightarrow>
            withRetryFrom operation handshakeRetry attempt lastErr ds s =
              \<lparr> result = Inl (Some error), attempts = attempt, delays = ds, final = s' \<rparr>) \<and>
         (\<not> disposed st \<and> pipesCreated st \<and>
          result (withRetry initializeAttempt handshakeRetry (handshakeEntry st)) = Inl thrown \<longrightarrow>
            fst (startSession st) = Inl thrown) \<and>
         (\<not> disposed st \<and> pipesCreated st \<and>
          result (withRetry initializeAttempt handshakeRetry (handshakeEntry st)) = Inr r \<and>
          result (withRetry newSessionAttempt handshakeRetry
             (final (withRetry initializeAttempt handshakeRetry (handshakeEntry st)))) = Inl thrown \<longrightarrow>
            fst (startSession st) = Inl thrown) \<and>
         (\<not> disposed st \<and> startSession st = (Inl thrown', st') \<longrightarrow>
            (\<exists>e. thrown' = Some e \<and> delivered st' \<noteq> [] \<and>
                 last (delivered st') = Status StatusError (Some (errorMessage e))))"
proof (intro conjI impI)
  assume "attempt \<le> 3 \<and> operation s = (Inl error, s') \<and>
      (errorCode error = Some ''ENOENT'' \<or> errorCode error = Some ''EACCES'' \<or>
       errorCode error = Some ''EPIPE'' \<or> startupFailure s' = Some error)"
  then show "withRetryFrom operation handshakeRetry attempt lastErr ds s =
      \<lparr> result = Inl (Some error), attempts = attempt, delays = ds, final = s' \<rparr>"
    using non_retryable_stops[of attempt operation s error s' lastErr ds] by blast
next
  assume "\<not> disposed st \<and> pipesCreated st \<and>
      result (withRetry initializeAttempt handshakeRetry (handshakeEntry st)) = Inl thrown"
  then show "fst (startSession st) = Inl thrown"
    using startSession_rethrows[of st thrown] by blast
next
  assume "\<not> disposed st \<and> pipesCreated st \<and>
      result (withRetry initializeAttempt handshakeRetry (handshakeEntry st)) = Inr r \<and>
      result (withRetry newSessionAttempt handshakeRetry
         (final (withRetry initializeAttempt handshakeRetry (handshakeEntry st)))) = Inl thrown"
  then show "fst (startSession st) = Inl thrown"
    using startSession_rethrows[of st thrown r] by blast
next
  assume "\<not> disposed st \<and> startSession st = (Inl thrown', st')"
  then show "\<exists>e. thrown' = Some e \<and> delivered st' \<noteq> [] \<and>
      last (delivered st') = Status StatusError (Some (errorMessage e))"
    using startSession_failure[of st thrown' st'] by blast
qed

theorem C7_non_retryable_startup_error_witness:
  "\<not> disposed ex_startup_enoent \<and> pipesCreated ex_startup_enoent \<and>
   errorCode ex_enoent = Some ''ENOENT'' \<and>
   initializeAttempt (handshakeEntry ex_startup_enoent) =
     (Inl ex_enoent, snd (initializeAttempt (handshakeEntry ex_startup_enoent))) \<and>
   attempts (withRetry initializeAttempt handshakeRetry (handshakeEntry ex_startup_enoent)) = 1 \<and>
   delays (withRetry initializeAttempt handshakeRetry (handshakeEntry ex_startup_enoent)) = [] \<and>
   result (withRetry initializeAttempt handshakeRetry (handshakeEntry ex_startup_enoent)) =
     Inl (Some ex_enoent) \<and>
   fst (startSession ex_startup_enoent) = Inl (Some ex_enoent) \<and>
   delivered (snd (startSession ex_startup_enoent)) =
     [Status Starting None, Status StatusError (Some ''spawn gemini ENOENT'')] \<and>
   last (delivered (snd (startSession ex_startup_enoent))) =
     Status StatusError (Some (errorMessage ex_enoent)) \<and>
   fst (startSession ex_startup_epipe) = Inl (Some ex_epipe) \<and>
   delivered (snd (startSession ex_startup_epipe)) =
     [Status Starting None, Status StatusError (Some ''write EPIPE'')] \<and>
   \<not> disposed ex_startup_exit \<and> pipesCreated ex_startup_exit \<and>
   result (withRetry initializeAttempt handshakeRetry (handshakeEntry ex_startup_exit)) =
     Inr (JObj []) \<and>
   result (withRetry newSessionAttempt handshakeRetry
      (final (withRetry initializeAttempt handshakeRetry (handshakeEntry ex_startup_exit)))) =
     Inl (Some (ExitError 1)) \<and>
   fst (startSession ex_startup_exit) = Inl (Some (ExitError 1)) \<and>
   delivered (snd (startSession ex_startup_exit)) =
     [Status Starting None, Status Stopped (Some ''Exit code: 1''),
      Status StatusError (Some ''Exit code: 1'')]"
proof -
  have d: "\<not> disposed ex_startup_enoent" "pipesCreated ex_startup_enoent"
    by (simp_all add: startup_ex_defs)
  have c: "errorCode ex_enoent = Some ''ENOENT''"
    by (simp add: ex_enoent_def)
  have a: "initializeAttempt (handshakeEntry ex_startup_enoent) =
      (Inl ex_enoent, snd (initializeAttempt (handshakeEntry ex_startup_enoent)))"
    by (simp add: startup_ex_defs startup_defs)
  have one: "(1::nat) \<le> 3" by simp
  note T = C7_non_retryable_startup_error[where operation = initializeAttempt
      and attempt = 1 and s = "handshakeEntry ex_startup_enoent" and error = ex_enoent
      and s' = "snd (initializeAttempt (handshakeEntry ex_startup_enoent))"
      and lastErr = None and ds = "[]" and st = ex_startup_enoent
      and thrown = "Some ex_enoent" and thrown' = "Some ex_enoent"
      and st' = "snd (startSession ex_startup_enoent)"]
  from T one a c have run:
    "withRetry initializeAttempt handshakeRetry (handshakeEntry ex_startup_enoent) =
       \<lparr> result = Inl (Some ex_enoent), attempts = 1, delays = [],
         final = snd (initializeAttempt (handshakeEntry ex_startup_enoent)) \<rparr>"
    unfolding withRetry_def by blast
  from T d run have thr: "fst (startSession ex_startup_enoent) = Inl (Some ex_enoent)"
    by simp
  then have pr: "startSession ex_startup_enoent =
      (Inl (Some ex_enoent), snd (startSession ex_startup_enoent))"
    by (cases "startSession ex_startup_enoent") simp
  from T d pr have lst: "last (delivered (snd (startSession ex_startup_enoent))) =
      Status StatusError (Some (errorMessage ex_enoent))"
    by blast
  have d2: "\<not> disposed ex_startup_exit" "pipesCreated ex_startup_exit"
    by (simp_all add: startup_ex_defs)
  have i2: "result (withRetry initializeAttempt handshakeRetry (handshakeEntry ex_startup_exit)) =
      Inr (JObj [])"
    by (simp add: startup_ex_defs startup_defs)
  have n2: "result (withRetry newSessionAttempt handshakeRetry
      (final (withRetry initializeAttempt handshakeRetry (handshakeEntry ex_startup_exit)))) =
      Inl (Some (ExitError 1))"
    by (simp add: startup_ex_defs startup_defs)
  note T2 = C7_non_retryable_startup_error[where operation = newSessionAttempt
      and st = ex_startup_exit and thrown = "Some (ExitError 1)" and r = "JObj []"]
  from T2 d2 i2 n2 have thr2: "fst (startSession ex_startup_exit) = Inl (Some (ExitError 1))"
    by blast
  show ?thesis
    using d c a thr lst d2 i2 n2 thr2
    by (simp add: run ex_enoent_run ex_epipe_run ex_exit_run)
qed

subsection \<open>Permission requests\<close>

lemma map_of_setKey:
  "map_of (setKey kvs k v) k' = (if k' = k then Some v else map_of kvs k')"
proof (cases "map_of kvs k = None")
  case True
  then show ?thesis
    by (auto simp: setKey_def map_add_def split: option.splits)
next
  case False
  have "map_of (map (\<lambda>(k', v'). if k' = k then (k', v) else (k', v')) kvs) k' =
      (if k' = k then map_option (\<lambda>_. v) (map_of kvs k) else map_of kvs k')"
    by (induction kvs) auto
  with False show ?thesis
    by (auto simp: setKey_def)
qed

lemma spread_obj: "\<exists>kvs. spread j = JObj kvs"
  by (cases j) simp_all

lemmas permission_defs = requestPermission_def requestPermissionStart_def
  requestToolName_def requestToolCallId_def requestInput_def permissionToolName_def
  permissionPayload_def requestPermissionResolve_def requestPermissionAuto_def
  requestOptions_def optionEntry_def optionJson_def optionMatches_def optionMatchesOnce_def
  chooseApproved_def chooseDenied_def idOr_def optionIdOr_def decisionResult_def
  orJson_def backendEmit_def toLowerCase_def lowerChar_def setKey_def Let_def

lemmas permission_ex_defs = ex_backend_def ex_option_def ex_request_def ex_permission_def
  ex_permission_server_def ex_permission_emptyId_def ex_permission_numericName_def
  ex_permission_nullOption_def

lemma payload_ids:
  "field (permissionPayload params pid tid toolName input entries) ''permissionId'' = Some pid"
  "field (permissionPayload params pid tid toolName input entries) ''toolCallId'' = Some tid"
proof -
  obtain kvs where k: "spread params = JObj kvs" using spread_obj by blast
  show "field (permissionPayload params pid tid toolName input entries) ''permissionId'' =
      Some pid"
    by (simp add: permissionPayload_def k map_of_setKey)
  show "field (permissionPayload params pid tid toolName input entries) ''toolCallId'' =
      Some tid"
    by (simp add: permissionPayload_def k map_of_setKey)
qed

lemma mapThrowing_optionEntry:
  "JNull \<notin> set opts \<Longrightarrow> mapThrowing optionEntry opts = Inr (map optionJson opts)"
  by (induction opts) (auto simp: optionEntry_def)

lemma mapThrowing_null:
  "JNull \<in> set opts \<Longrightarrow> mapThrowing optionEntry opts = Inl TypeError"
proof (induction opts)
  case Nil
  then show ?case by simp
next
  case (Cons opt opts)
  then show ?case
    by (cases "opt = JNull") (auto simp: optionEntry_def split: sum.splits)
qed

lemma findThrowing_found: "findThrowing p xs = Inr (Some x) \<Longrightarrow> p x = Inr True"
  by (induction xs) (auto split: sum.splits if_splits)

lemma optionMatches_object:
  assumes "optionMatches oid word opt = Inr True"
  shows "opt \<noteq> JNull" and "truthy (Some opt)"
  using assms by (cases opt; simp add: optionMatches_def)+

lemma permission_start:
  assumes "optField (field params ''toolCall'') ''id'' = Some t" and "truthy (Some t)"
    and "\<not> disposed b"
    and "requestOptions params = JArr opts" and "JNull \<notin> set opts"
  shows "requestPermissionStart b uuid params =
       (Inr \<lparr> pp_toolCallId = t, pp_permissionId = t,
              pp_toolName = permissionToolName b uuid params, pp_input = requestInput params,
              pp_options = opts \<rparr>,
        b\<lparr> toolCallCount := toolCallCount b + 1,
           delivered := delivered b @
             [PermissionRequest t (permissionToolName b uuid params)
                (permissionPayload params t t (permissionToolName b uuid params)
                   (requestInput params) (map optionJson opts))] \<rparr>)"
proof -
  from assms(1) have p: "params \<noteq> JNull"
    by auto
  from assms(1,2) have i: "requestToolCallId uuid params = t"
    by (simp add: requestToolCallId_def orJson_def)
  show ?thesis
    using p assms(3)
    by (simp add: requestPermissionStart_def i assms(4) mapThrowing_optionEntry[OF assms(5)]
          Let_def backendEmit_def)
qed

lemma permission_resolve_always:
  assumes "findThrowing (optionMatches ''proceed_once'' ''once'') (pp_options p) = Inr once"
    and "findThrowing (optionMatches ''proceed_always'' ''always'') (pp_options p) = Inr (Some opt)"
    and "\<not> disposed b2"
  shows "requestPermissionResolve b2 p (Some ApprovedForSession) =
     (Selected (optionIdOr opt ''proceed_always''),
      b2\<lparr> delivered := delivered b2 @
        [ToolResult (pp_toolName p)
           (Some (JObj [(''status'', JStr ''approved''),
                        (''decision'', JStr ''approved_for_session'')]))
           (pp_permissionId p)] \<rparr>)"
proof -
  note m = findThrowing_found[OF assms(2)]
  have "chooseApproved ApprovedForSession (pp_options p) = Inr (optionIdOr opt ''proceed_always'')"
    using optionMatches_object[OF m]
    by (simp add: chooseApproved_def assms(1,2) idOr_def)
  then show ?thesis
    using assms(3)
    by (simp add: requestPermissionResolve_def backendEmit_def decisionResult_def)
qed

text \<open>
  C5, as the claim states it, fails in four ways, each time on a request that lists an
  option with \<open>optionId\<close> \<open>proceed_always\<close> and with a permission handler that returns
  \<open>approved_for_session\<close>.
  \<^enum> With an option of another id whose name contains \<open>always\<close> listed before
    \<open>proceed_always\<close>, the reply selects that other option.
  \<^enum> With the empty string as \<open>toolCall.id\<close>, the permission request and the tool
    result carry the fresh id instead.
  \<^enum> With an option whose name is a number listed first, the search for
    \<open>proceed_once\<close> throws at that option: the reply is \<open>cancel\<close>, and after the
    permission request no tool result is emitted.
  \<^enum> With \<open>null\<close> among the options, the handler throws before it has emitted
    anything: there is no reply and no message.
\<close>

theorem C5_first_always_option_counterexample:
  "optField (field ex_permission_server ''toolCall'') ''id'' = Some (JStr ''t1'') \<and>
   field (elems (Some (requestOptions ex_permission_server)) ! 2) ''optionId'' =
     Some (JStr ''proceed_always'') \<and>
   hasPermissionHandler ex_backend \<and>
   fst (requestPermission ex_backend ''uuid-1'' ex_permission_server (Some ApprovedForSession)) =
     Inr (Selected (JStr ''proceed_always_server'')) \<and>
   optField (field ex_permission_emptyId ''toolCall'') ''id'' = Some (JStr []) \<and>
   field (elems (Some (requestOptions ex_permission_emptyId)) ! 1) ''optionId'' =
     Some (JStr ''proceed_always'') \<and>
   requestPermission ex_backend ''uuid-1'' ex_permission_emptyId (Some ApprovedForSession) =
     (Inr (Selected (JStr ''proceed_always'')),
      ex_backend\<lparr> toolCallCount := 1,
        delivered :=
          [PermissionRequest (JStr ''uuid-1'') (JStr ''Bash'')
             (JObj [(''sessionId'', JStr ''acp-session''),
                    (''toolCall'', JObj [(''id'', JStr []), (''kind'', JStr ''Bash'')]),
                    (''options'', JArr [JObj [(''id'', JStr ''proceed_once''), (''name'', JStr ''Allow'')],
                                        JObj [(''id'', JStr ''proceed_always''),
                                              (''name'', JStr ''Allow for this session'')],
                                        JObj [(''id'', JStr ''cancel''), (''name'', JStr ''Reject'')]]),
                    (''permissionId'', JStr ''uuid-1''), (''toolCallId'', JStr ''uuid-1''),
                    (''toolName'', JStr ''Bash''), (''input'', JObj [])]),
           ToolResult (JStr ''Bash'')
             (Some (JObj [(''status'', JStr ''approved''),
                          (''decision'', JStr ''approved_for_session'')]))
             (JStr ''uuid-1'')] \<rparr>) \<and>
   optField (field ex_permission_numericName ''toolCall'') ''id'' = Some (JStr ''t1'') \<and>
   field (elems (Some (requestOptions ex_permission_numericName)) ! 1) ''optionId'' =
     Some (JStr ''proceed_always'') \<and>
   requestPermission ex_backend ''uuid-1'' ex_permission_numericName (Some ApprovedForSession) =
     (Inr (Selected (JStr ''cancel'')),
      ex_backend\<lparr> toolCallCount := 1,
        delivered :=
          [PermissionRequest (JStr ''t1'') (JStr ''Bash'')
             (JObj [(''sessionId'', JStr ''acp-session''),
                    (''toolCall'', JObj [(''id'', JStr ''t1''), (''kind'', JStr ''Bash'')]),
                    (''options'', JArr [JObj [(''id'', JStr ''x''), (''name'', JNum 5)],
                                        JObj [(''id'', JStr ''proceed_always''),
                                              (''name'', JStr ''Always'')]]),
                    (''permissionId'', JStr ''t1''), (''toolCallId'', JStr ''t1''),
                    (''toolName'', JStr ''Bash''), (''input'', JObj [])])] \<rparr>) \<and>
   optField (field ex_permission_nullOption ''toolCall'') ''id'' = Some (JStr ''t1'') \<and>
   field (elems (Some (requestOptions ex_permission_nullOption)) ! 1) ''optionId'' =
     Some (JStr ''proceed_always'') \<and>
   requestPermission ex_backend ''uuid-1'' ex_permission_nullOption (Some ApprovedForSession) =
     (Inl TypeError, ex_backend\<lparr> toolCallCount := 1 \<rparr>)"
  by (simp add: permission_defs permission_ex_defs)

text \<open>
  C5 (amended): for every inbound \<open>requestPermission\<close> on a backend that is not disposed
  and has a permission handler, such that
  \<^item> \<open>toolCall.id\<close> is a truthy value \<open>t\<close> (a string that is not empty, say),
  \<^item> \<open>options\<close> is an array \<open>opts\<close> that does not hold \<open>null\<close>,
  \<^item> the search of \<open>opts\<close> for \<open>optionId\<close> \<open>proceed_once\<close> or a name containing \<open>once\<close>
    ends without throwing, that is, without meeting a name that is neither a string nor
    \<open>null\<close> nor undefined, and
  \<^item> the search of \<open>opts\<close> for \<open>optionId\<close> \<open>proceed_always\<close> or a name containing
    \<open>always\<close> (in any letter case) ends, without throwing, at the option \<open>opt\<close>:

  \<^enum> before the permission handler is asked, \<open>permission-request\<close> with id \<open>t\<close> is
    emitted, its payload carrying \<open>t\<close> as both \<open>permissionId\<close> and \<open>toolCallId\<close>;
  \<^enum> when the handler resolves with \<open>approved_for_session\<close>, in whatever state the
    backend is by then (not disposed), the reply selects the \<open>optionId\<close> of \<open>opt\<close>, and
    \<open>tool-result\<close> with \<open>callId = t\<close> and result
    \<open>{status: approved, decision: approved_for_session}\<close> is emitted;
  \<^enum> that reply is \<open>proceed_always\<close> when \<open>opt\<close> is an option with that \<open>optionId\<close>
    (or with one that is falsy);
  \<^enum> with nothing else happening in between, the two messages are emitted in this
    order, one after the other.
\<close>

theorem C5_permission_approved_for_session:
  fixes b :: "'a Backend_scheme"
  assumes "optField (field params ''toolCall'') ''id'' = Some t" and "truthy (Some t)"
    and "hasPermissionHandler b" and "\<not> disposed b"
    and "requestOptions params = JArr opts" and "JNull \<notin> set opts"
    and "findThrowing (optionMatches ''proceed_once'' ''once'') opts = Inr once"
    and "findThrowing (optionMatches ''proceed_always'' ''always'') opts = Inr (Some opt)"
  shows "snd (requestPermissionStart b uuid params) =
       b\<lparr> toolCallCount := toolCallCount b + 1,
          delivered := delivered b @
            [PermissionRequest t (permissionToolName b uuid params)
               (permissionPayload params t t (permissionToolName b uuid params)
                  (requestInput params) (map optionJson opts))] \<rparr> \<and>
     field (permissionPayload params t t (permissionToolName b uuid params)
              (requestInput params) (map optionJson opts)) ''permissionId'' = Some t \<and>
     field (permissionPayload params t t (permissionToolName b uuid params)
              (requestInput params) (map optionJson opts)) ''toolCallId'' = Some t \<and>
     (\<forall>b2 :: 'a Backend_scheme. \<not> disposed b2 \<longrightarrow>
        (\<exists>p. fst (requestPermissionStart b uuid params) = Inr p \<and>
           requestPermissionResolve b2 p (Some ApprovedForSession) =
             (Selected (optionIdOr opt ''proceed_always''),
              b2\<lparr> delivered := delivered b2 @
                [ToolResult (permissionToolName b uuid params)
                   (Some (JObj [(''status'', JStr ''approved''),
                                (''decision'', JStr ''approved_for_session'')])) t] \<rparr>))) \<and>
     (field opt ''optionId'' = Some (JStr ''proceed_always'') \<or> \<not> truthy (field opt ''optionId'') \<longrightarrow>
        optionIdOr opt ''proceed_always'' = JStr ''proceed_always'') \<and>
     requestPermission b uuid params (Some ApprovedForSession) =
       (Inr (Selected (optionIdOr opt ''proceed_always'')),
        b\<lparr> toolCallCount := toolCallCount b + 1,
           delivered := delivered b @
             [PermissionRequest t (permissionToolName b uuid params)
                (permissionPayload params t t (permissionToolName b uuid params)
                   (requestInput params) (map optionJson opts)),
              ToolResult (permissionToolName b uuid params)
                (Some (JObj [(''status'', JStr ''approved''),
                             (''decision'', JStr ''approved_for_session'')])) t] \<rparr>)"
proof -
  note start = permission_start[OF assms(1,2,4,5,6), of uuid]
  let ?p = "\<lparr> pp_toolCallId = t, pp_permissionId = t,
              pp_toolName = permissionToolName b uuid params, pp_input = requestInput params,
              pp_options = opts \<rparr>"
  have once: "findThrowing (optionMatches ''proceed_once'' ''once'') (pp_options ?p) = Inr once"
    and always: "findThrowing (optionMatches ''proceed_always'' ''always'') (pp_options ?p) =
        Inr (Some opt)"
    using assms(7,8) by simp_all
  have res: "requestPermissionResolve b2 ?p (Some ApprovedForSession) =
      (Selected (optionIdOr opt ''proceed_always''),
       b2\<lparr> delivered := delivered b2 @
         [ToolResult (permissionToolName b uuid params)
            (Some (JObj [(''status'', JStr ''approved''),
                         (''decision'', JStr ''approved_for_session'')])) t] \<rparr>)"
    if "\<not> disposed b2" for b2 :: "'a Backend_scheme"
    using permission_resolve_always[OF once always that] by simp
  have idor: "field opt ''optionId'' = Some (JStr ''proceed_always'') \<or>
        \<not> truthy (field opt ''optionId'') \<longrightarrow>
        optionIdOr opt ''proceed_always'' = JStr ''proceed_always''"
    by (auto simp: optionIdOr_def orJson_def)
  have live: "\<not> disposed (snd (requestPermissionStart b uuid params))"
    and han: "hasPermissionHandler (snd (requestPermissionStart b uuid params))"
    using assms(3,4) by (simp_all add: start)
  have whole: "requestPermission b uuid params (Some ApprovedForSession) =
       (Inr (Selected (optionIdOr opt ''proceed_always'')),
        b\<lparr> toolCallCount := toolCallCount b + 1,
           delivered := delivered b @
             [PermissionRequest t (permissionToolName b uuid params)
                (permissionPayload params t t (permissionToolName b uuid params)
                   (requestInput params) (map optionJson opts)),
              ToolResult (permissionToolName b uuid params)
                (Some (JObj [(''status'', JStr ''approved''),
                             (''decision'', JStr ''approved_for_session'')])) t] \<rparr>)"
    using han res[OF live]
    by (simp add: requestPermission_def case_prod_beta Let_def) (simp add: start)
  show ?thesis
    using res idor whole by (simp add: start payload_ids)
qed

theorem C5_permission_approved_for_session_witness:
  "optField (field ex_permission ''toolCall'') ''id'' = Some (JStr ''t1'') \<and>
   hasPermissionHandler ex_backend \<and> \<not> disposed ex_backend \<and>
   requestOptions ex_permission =
     JArr [ex_option ''proceed_once'' ''Allow'',
           ex_option ''proceed_always'' ''Allow for this session'',
           ex_option ''cancel'' ''Reject''] \<and>
   findThrowing (optionMatches ''proceed_once'' ''once'')
     (elems (Some (requestOptions ex_permission))) =
     Inr (Some (ex_option ''proceed_once'' ''Allow'')) \<and>
   findThrowing (optionMatches ''proceed_always'' ''always'')
     (elems (Some (requestOptions ex_permission))) =
     Inr (Some (ex_option ''proceed_always'' ''Allow for this session'')) \<and>
   permissionToolName ex_backend ''uuid-1'' ex_permission = JStr ''Bash'' \<and>
   requestPermission ex_backend ''uuid-1'' ex_permission (Some ApprovedForSession) =
     (Inr (Selected (JStr ''proceed_always'')),
      ex_backend\<lparr> toolCallCount := 1,
        delivered :=
          [PermissionRequest (JStr ''t1'') (JStr ''Bash'')
             (permissionPayload ex_permission (JStr ''t1'') (JStr ''t1'') (JStr ''Bash'') (JObj [])
                (map optionJson (elems (Some (requestOptions ex_permission))))),
           ToolResult (JStr ''Bash'')
             (Some (JObj [(''status'', JStr ''approved''),
                          (''decision'', JStr ''approved_for_session'')])) (JStr ''t1'')] \<rparr>) \<and>
   field (permissionPayload ex_permission (JStr ''t1'') (JStr ''t1'') (JStr ''Bash'') (JObj [])
            (map optionJson (elems (Some (requestOptions ex_permission))))) ''permissionId'' =
     Some (JStr ''t1'')"
proof -
  let ?opts = "[ex_option ''proceed_once'' ''Allow'',
                ex_option ''proceed_always'' ''Allow for this session'',
                ex_option ''cancel'' ''Reject'']"
  let ?opt = "ex_option ''proceed_always'' ''Allow for this session''"
  have i: "optField (field ex_permission ''toolCall'') ''id'' = Some (JStr ''t1'')"
    by (simp add: ex_permission_def ex_request_def)
  have n: "truthy (Some (JStr ''t1''))" by simp
  have h: "hasPermissionHandler ex_backend" and d: "\<not> disposed ex_backend"
    by (simp_all add: ex_backend_def)
  have ro: "requestOptions ex_permission = JArr ?opts"
    by (simp add: requestOptions_def orJson_def ex_permission_def ex_request_def)
  have nn: "JNull \<notin> set ?opts"
    by (simp add: ex_option_def)
  have fo: "findThrowing (optionMatches ''proceed_once'' ''once'') ?opts =
      Inr (Some (ex_option ''proceed_once'' ''Allow''))"
    by (simp add: optionMatches_def ex_option_def)
  have fa: "findThrowing (optionMatches ''proceed_always'' ''always'') ?opts = Inr (Some ?opt)"
    by (simp add: optionMatches_def ex_option_def toLowerCase_def lowerChar_def)
  have o: "optionIdOr ?opt ''proceed_always'' = JStr ''proceed_always''"
    by (simp add: optionIdOr_def orJson_def ex_option_def)
  have tn: "permissionToolName ex_backend ''uuid-1'' ex_permission = JStr ''Bash''"
    by (simp add: permissionToolName_def requestToolName_def orJson_def ex_backend_def
          ex_permission_def ex_request_def)
  have inp: "requestInput ex_permission = JObj []"
    by (simp add: requestInput_def orJson_def ex_permission_def ex_request_def)
  have e: "delivered ex_backend = []" "toolCallCount ex_backend = 0"
    by (simp_all add: ex_backend_def)
  show ?thesis
    using C5_permission_approved_for_session[OF i n h d ro nn fo fa, of "''uuid-1''"] i h d fo fa
    by (simp add: ro o tn inp e)
qed

section \<open>Properties of the session manager\<close>

lemma timeOrdered_none: "timeOrdered (\<lambda>s. ([], s))"
  by (simp add: timeOrdered_def)

lemma timeOrdered_modify:
  "(\<And>s. timeCounter (h s) = timeCounter s) \<Longrightarrow> timeOrdered (modify h)"
  by (simp add: timeOrdered_def modify_def)

lemma timeOrdered_emitEnvelope: "timeOrdered (emitEnvelope e)"
  by (auto simp: timeOrdered_def emitEnvelope_def nextTime_def Let_def max_def)

lemma timeOrdered_andThen:
  assumes f: "timeOrdered f" and g: "timeOrdered g"
  shows "timeOrdered (andThen f g)"
  unfolding timeOrdered_def
proof (intro allI)
  fix s
  obtain a s1 where fs: "f s = (a, s1)" by (cases "f s")
  obtain b s2 where gs: "g s1 = (b, s2)" by (cases "g s1")
  have r: "andThen f g s = (a @ b, s2)"
    by (simp add: andThen_def fs gs)
  from f fs have fa: "sorted_wrt (<) (map env_time a)"
    and fb: "\<forall>e \<in> set a. timeCounter s < env_time e \<and> env_time e \<le> timeCounter s1"
    and fc: "timeCounter s \<le> timeCounter s1"
    unfolding timeOrdered_def by (metis fst_conv snd_conv)+
  from g gs have ga: "sorted_wrt (<) (map env_time b)"
    and gb: "\<forall>e \<in> set b. timeCounter s1 < env_time e \<and> env_time e \<le> timeCounter s2"
    and gc: "timeCounter s1 \<le> timeCounter s2"
    unfolding timeOrdered_def by (metis fst_conv snd_conv)+
  have cross: "\<forall>x \<in> set a. \<forall>y \<in> set b. env_time x < env_time y"
    using fb gb by fastforce
  have "sorted_wrt (<) (map env_time (a @ b))"
    using fa ga cross by (simp add: sorted_wrt_append)
  moreover have "\<forall>e \<in> set (a @ b). timeCounter s < env_time e \<and> env_time e \<le> timeCounter s2"
    using fb gb fc gc by fastforce
  moreover have "timeCounter s \<le> timeCounter s2"
    using fc gc by simp
  ultimately show "sorted_wrt (<) (map env_time (fst (andThen f g s))) \<and>
      (\<forall>e \<in> set (fst (andThen f g s)).
          timeCounter s < env_time e \<and> env_time e \<le> timeCounter (snd (andThen f g s))) \<and>
      timeCounter s \<le> timeCounter (snd (andThen f g s))"
    by (simp add: r)
qed

lemma timeOrdered_pointwise:
  "(\<And>s. \<exists>g. timeOrdered g \<and> f s = g s) \<Longrightarrow> timeOrdered f"
  unfolding timeOrdered_def by metis

lemma timeOrdered_flushText: "timeOrdered flushText"
proof (rule timeOrdered_pointwise)
  fix s
  show "\<exists>g. timeOrdered g \<and> flushText s = g s"
  proof (cases "pendingText s \<noteq> []")
    case True
    then show ?thesis
      by (intro exI[of _ "andThen (emitEnvelope (TextEvent (pendingText s) False))
                            (modify (\<lambda>s'. s'\<lparr> pendingText := [] \<rparr>))"])
         (simp add: flushText_def timeOrdered_andThen timeOrdered_emitEnvelope timeOrdered_modify)
  next
    case False
    then show ?thesis
      by (intro exI[of _ "\<lambda>s. ([], s)"]) (simp add: flushText_def timeOrdered_none)
  qed
qed

lemma timeOrdered_flushThinking: "timeOrdered flushThinking"
proof (rule timeOrdered_pointwise)
  fix s
  show "\<exists>g. timeOrdered g \<and> flushThinking s = g s"
  proof (cases "pendingThinking s \<noteq> []")
    case True
    then show ?thesis
      by (intro exI[of _ "andThen (emitEnvelope (TextEvent (pendingThinking s) True))
                            (modify (\<lambda>s'. s'\<lparr> pendingThinking := [] \<rparr>))"])
         (simp add: flushThinking_def timeOrdered_andThen timeOrdered_emitEnvelope
            timeOrdered_modify)
  next
    case False
    then show ?thesis
      by (intro exI[of _ "\<lambda>s. ([], s)"]) (simp add: flushThinking_def timeOrdered_none)
  qed
qed

lemma timeOrdered_flushPending: "timeOrdered flushPending"
  by (simp add: flushPending_def timeOrdered_andThen timeOrdered_flushText
        timeOrdered_flushThinking)

lemma timeOrdered_startTurn: "timeOrdered startTurn"
proof (rule timeOrdered_pointwise)
  fix s
  show "\<exists>g. timeOrdered g \<and> startTurn s = g s"
  proof (cases "currentTurnId s")
    case None
    then show ?thesis
      by (intro exI[of _ "andThen
              (modify (\<lambda>s'. s'\<lparr> currentTurnId := Some (nextId s'), nextId := Suc (nextId s') \<rparr>))
              (emitEnvelope TurnStart)"])
         (simp add: startTurn_def timeOrdered_andThen timeOrdered_emitEnvelope timeOrdered_modify)
  next
    case (Some turn)
    then show ?thesis
      by (intro exI[of _ "\<lambda>s. ([], s)"]) (simp add: startTurn_def timeOrdered_none)
  qed
qed

lemma timeOrdered_turnEnd:
  "timeOrdered (\<lambda>s. case currentTurnId s of
                      None \<Rightarrow> ([], s)
                    | Some turn \<Rightarrow>
                        andThen (emitEnvelope (TurnEnd st))
                          (modify (\<lambda>s'. s'\<lparr> currentTurnId := None \<rparr>)) s)"
proof (rule timeOrdered_pointwise)
  fix s
  show "\<exists>g. timeOrdered g \<and>
      (case currentTurnId s of
         None \<Rightarrow> ([], s)
       | Some turn \<Rightarrow>
           andThen (emitEnvelope (TurnEnd st)) (modify (\<lambda>s'. s'\<lparr> currentTurnId := None \<rparr>)) s) =
      g s"
  proof (cases "currentTurnId s")
    case None
    then show ?thesis
      by (intro exI[of _ "\<lambda>s. ([], s)"]) (simp add: timeOrdered_none)
  next
    case (Some turn)
    then show ?thesis
      by (intro exI[of _ "andThen (emitEnvelope (TurnEnd st))
                            (modify (\<lambda>s'. s'\<lparr> currentTurnId := None \<rparr>))"])
         (simp add: timeOrdered_andThen timeOrdered_emitEnvelope timeOrdered_modify)
  qed
qed

lemma timeOrdered_endTurn: "timeOrdered (endTurn st)"
  unfolding endTurn_def
  by (rule timeOrdered_andThen[OF timeOrdered_flushPending timeOrdered_turnEnd])

lemma timeOrdered_mapModelOutput: "timeOrdered (mapModelOutput delta)"
proof (rule timeOrdered_pointwise)
  fix s
  show "\<exists>g. timeOrdered g \<and> mapModelOutput delta s = g s"
  proof (cases "truthyStr delta")
    case True
    then show ?thesis
      by (intro exI[of _ "andThen flushThinking
              (modify (\<lambda>s'. s'\<lparr> pendingText := pendingText s' @ the delta \<rparr>))"])
         (simp add: mapModelOutput_def timeOrdered_andThen timeOrdered_flushThinking
            timeOrdered_modify)
  next
    case False
    then show ?thesis
      by (intro exI[of _ "\<lambda>s. ([], s)"]) (simp add: mapModelOutput_def timeOrdered_none)
  qed
qed

lemma timeOrdered_mapThinking: "timeOrdered (mapThinking payload)"
proof (rule timeOrdered_pointwise)
  fix s
  let ?text = "strField (Some payload) ''text''"
  show "\<exists>g. timeOrdered g \<and> mapThinking payload s = g s"
  proof (cases "truthyStr ?text")
    case False
    then show ?thesis
      by (intro exI[of _ "\<lambda>s. ([], s)"]) (simp add: mapThinking_def timeOrdered_none)
  next
    case t: True
    show ?thesis
    proof (cases "truthy (field payload ''streaming'')")
      case True
      with t show ?thesis
        by (intro exI[of _ "andThen flushText
                (modify (\<lambda>s'. s'\<lparr> pendingThinking := pendingThinking s' @ the ?text \<rparr>))"])
           (simp add: mapThinking_def timeOrdered_andThen timeOrdered_flushText
              timeOrdered_modify)
    next
      case False
      with t show ?thesis
        by (intro exI[of _ "andThen flushPending (emitEnvelope (TextEvent (the ?text) True))"])
           (simp add: mapThinking_def timeOrdered_andThen timeOrdered_flushPending
              timeOrdered_emitEnvelope)
    qed
  qed
qed

lemma timeOrdered_mapToolCall: "timeOrdered (mapToolCall toolName args callId)"
proof -
  have "timeOrdered (\<lambda>s. andThen
           (modify (\<lambda>s'. s'\<lparr> callIdMap := (callIdMap s')(callId \<mapsto> nextId s),
                              nextId := Suc (nextId s) \<rparr>))
           (emitEnvelope (ToolCallStart (nextId s) toolName toolName toolName args)) s)"
  proof (rule timeOrdered_pointwise)
    fix s
    show "\<exists>g. timeOrdered g \<and>
        andThen (modify (\<lambda>s'. s'\<lparr> callIdMap := (callIdMap s')(callId \<mapsto> nextId s),
                                   nextId := Suc (nextId s) \<rparr>))
          (emitEnvelope (ToolCallStart (nextId s) toolName toolName toolName args)) s = g s"
      by (intro exI[of _ "andThen
              (modify (\<lambda>s'. s'\<lparr> callIdMap := (callIdMap s')(callId \<mapsto> nextId s),
                                 nextId := Suc (nextId s) \<rparr>))
              (emitEnvelope (ToolCallStart (nextId s) toolName toolName toolName args))"])
         (simp add: timeOrdered_andThen timeOrdered_emitEnvelope timeOrdered_modify)
  qed
  then show ?thesis
    unfolding mapToolCall_def by (rule timeOrdered_andThen[OF timeOrdered_flushPending])
qed

lemma timeOrdered_mapToolResult: "timeOrdered (mapToolResult callId)"
proof (rule timeOrdered_pointwise)
  fix s
  show "\<exists>g. timeOrdered g \<and> mapToolResult callId s = g s"
  proof (cases "callIdMap s callId")
    case None
    then show ?thesis
      by (intro exI[of _ "andThen (modify (\<lambda>s'. s'\<lparr> nextId := Suc (nextId s) \<rparr>))
                            (emitEnvelope (ToolCallEnd (nextId s)))"])
         (simp add: mapToolResult_def timeOrdered_andThen timeOrdered_emitEnvelope
            timeOrdered_modify)
  next
    case (Some ourCallId)
    then show ?thesis
      by (intro exI[of _ "emitEnvelope (ToolCallEnd ourCallId)"])
         (simp add: mapToolResult_def timeOrdered_emitEnvelope)
  qed
qed

lemma timeOrdered_mapMessage: "timeOrdered (mapMessage msg)"
  by (cases msg)
     (simp_all add: timeOrdered_none timeOrdered_mapModelOutput timeOrdered_mapThinking
        timeOrdered_mapToolCall timeOrdered_mapToolResult)

lemma timeOrdered_sessionCall: "timeOrdered (sessionCall c)"
  by (cases c) (simp_all add: timeOrdered_startTurn timeOrdered_endTurn timeOrdered_mapMessage)

lemma timeOrdered_sessionCalls: "timeOrdered (sessionCalls cs)"
  by (induction cs) (simp_all add: timeOrdered_none timeOrdered_andThen timeOrdered_sessionCall)

text \<open>
  C1: for every sequence of \<open>startTurn()\<close>, \<open>endTurn(status)\<close> and \<open>mapMessage(msg)\<close>
  calls on one session manager, from whatever state and with whatever clock, the times
  of the emitted envelopes, in emission order across the whole sequence, are strictly
  increasing.
\<close>

theorem C1_envelope_times_strictly_increasing:
  "sorted_wrt (<) (map env_time (fst (sessionCalls cs s)))"
  using timeOrdered_sessionCalls[of cs] by (simp add: timeOrdered_def)

lemmas session_defs = andThen_def modify_def nextTime_def emitEnvelope_def flushText_def
  flushThinking_def flushPending_def startTurn_def endTurn_def mapModelOutput_def
  mapThinking_def mapToolCall_def mapToolResult_def Let_def

theorem C1_envelope_times_strictly_increasing_witness:
  "map env_time (fst (sessionCalls ex_calls ex_session)) = [5, 6, 7, 8, 9, 10] \<and>
   map env_ev (fst (sessionCalls ex_calls ex_session)) =
     [TurnStart, TextEvent ''hmm'' True, TextEvent ''hello'' False,
      ToolCallStart 4 ''Bash'' ''Bash'' ''Bash'' (JObj []), ToolCallEnd 4, TurnEnd Completed] \<and>
   sorted_wrt (<) [5, 6, 7, 8, 9, 10 :: real]"
proof -
  have t: "map env_time (fst (sessionCalls ex_calls ex_session)) = [5, 6, 7, 8, 9, 10]"
    by (simp add: ex_calls_def ex_session_def session_defs)
  have e: "map env_ev (fst (sessionCalls ex_calls ex_session)) =
     [TurnStart, TextEvent ''hmm'' True, TextEvent ''hello'' False,
      ToolCallStart 4 ''Bash'' ''Bash'' ''Bash'' (JObj []), ToolCallEnd 4, TurnEnd Completed]"
    by (simp add: ex_calls_def ex_session_def session_defs)
  show ?thesis
    using C1_envelope_times_strictly_increasing[of ex_calls ex_session] e
    unfolding t by simp
qed


end
